theory Spec2Isabelle
  imports Complex_Main "HOL-Library.Word"
begin

unbundle bit_operations_syntax

section \<open>Standard types (Std_Types.h)\<close>

text \<open>
  The AUTOSAR integer types are machine words, so that \<open>+\<close> wraps as in C.
  \<open>float32\<close> is idealised as \<open>real\<close>: arithmetic is exact and there is no NaN or
  infinity.  \<open>boolean\<close> (a \<open>uint8\<close> that the code only ever sets to \<open>TRUE\<close> or
  \<open>FALSE\<close>) is \<open>bool\<close>.
\<close>

type_synonym uint8 = "8 word"
type_synonym uint16 = "16 word"
type_synonym uint32 = "32 word"
type_synonym float32 = real
type_synonym Std_ReturnType = "8 word"

definition E_OK :: Std_ReturnType where "E_OK = 0"
definition E_NOT_OK :: Std_ReturnType where "E_NOT_OK = 1"
definition NVM_REQ_OK :: Std_ReturnType where "NVM_REQ_OK = 0"
definition NVM_REQ_NOT_OK :: Std_ReturnType where "NVM_REQ_NOT_OK = 1"

section \<open>Speed sensor types (SpeedSensor_Types.h)\<close>

text \<open>A wheel position is the enum's integer value; the code guards it with
  \<open>wheelPos < WHEEL_MAX\<close> and uses it as an array index.\<close>

type_synonym WheelPosition_t = nat

definition WHEEL_FRONT_LEFT :: WheelPosition_t where "WHEEL_FRONT_LEFT = 0"
definition WHEEL_FRONT_RIGHT :: WheelPosition_t where "WHEEL_FRONT_RIGHT = 1"
definition WHEEL_REAR_LEFT :: WheelPosition_t where "WHEEL_REAR_LEFT = 2"
definition WHEEL_REAR_RIGHT :: WheelPosition_t where "WHEEL_REAR_RIGHT = 3"
definition WHEEL_MAX :: nat where "WHEEL_MAX = 4"

datatype SensorStatus_t =
    SENSOR_STATUS_OK
  | SENSOR_STATUS_SHORT_CIRCUIT
  | SENSOR_STATUS_OPEN_CIRCUIT
  | SENSOR_STATUS_OUT_OF_RANGE
  | SENSOR_STATUS_CALIBRATION_ERROR
  | SENSOR_STATUS_INVALID

record SpeedSensorRawData_t =
  pulseCount :: uint16
  timeInterval :: uint16
  status :: SensorStatus_t
  dataValid :: bool

record SpeedData_t =
  wheelSpeed :: float32
  wheelSpeedRaw :: float32
  accelerationX :: float32
  speedValid :: bool
  qualityFactor :: uint8

record SpeedSensorCalibration_t =
  correctionFactor :: float32
  offsetValue :: float32
  pulsesPerRevolution :: uint16
  wheelCircumference :: float32
  calibrationValid :: bool
  calibrationTimestamp :: uint32

record SpeedSensorDiagnostics_t =
  totalPulseCount :: uint32
  errorCount :: uint16
  calibrationCycles :: uint16
  lastStatus :: SensorStatus_t
  lastErrorTimestamp :: uint32

record SpeedSensorData_t =
  sd_wheelPosition :: WheelPosition_t
  rawData :: SpeedSensorRawData_t
  speedData :: SpeedData_t
  calibration :: SpeedSensorCalibration_t
  diagnostics :: SpeedSensorDiagnostics_t

definition SPEED_SENSOR_SAMPLE_RATE_MS :: nat where "SPEED_SENSOR_SAMPLE_RATE_MS = 10"
definition MAX_WHEEL_SPEED_KMH :: float32 where "MAX_WHEEL_SPEED_KMH = 300"

section \<open>Speed sensor component (SpeedSensor_Swc.c)\<close>

text \<open>The file's statics: the per-wheel data, the initialised flag, and the
  function-local static \<open>lastSpeed\<close> of \<open>SpeedSensor_CalculateSpeed\<close>.\<close>

record SpeedSensor_state =
  g_SpeedSensorData :: "nat \<Rightarrow> SpeedSensorData_t"
  g_SpeedSensor_Initialized :: bool
  lastSpeed :: "nat \<Rightarrow> float32"

text \<open>C zero-initialises statics; \<open>memset(.., 0, ..)\<close> produces the same values.\<close>

definition zero_RawData :: SpeedSensorRawData_t where
  "zero_RawData = \<lparr>pulseCount = 0, timeInterval = 0, status = SENSOR_STATUS_OK, dataValid = False\<rparr>"

definition zero_SpeedData :: SpeedData_t where
  "zero_SpeedData = \<lparr>wheelSpeed = 0, wheelSpeedRaw = 0, accelerationX = 0,
     speedValid = False, qualityFactor = 0\<rparr>"

definition zero_Calibration :: SpeedSensorCalibration_t where
  "zero_Calibration = \<lparr>correctionFactor = 0, offsetValue = 0, pulsesPerRevolution = 0,
     wheelCircumference = 0, calibrationValid = False, calibrationTimestamp = 0\<rparr>"

definition zero_Diagnostics :: SpeedSensorDiagnostics_t where
  "zero_Diagnostics = \<lparr>totalPulseCount = 0, errorCount = 0, calibrationCycles = 0,
     lastStatus = SENSOR_STATUS_OK, lastErrorTimestamp = 0\<rparr>"

definition zero_SensorData :: SpeedSensorData_t where
  "zero_SensorData = \<lparr>sd_wheelPosition = 0, rawData = zero_RawData, speedData = zero_SpeedData,
     calibration = zero_Calibration, diagnostics = zero_Diagnostics\<rparr>"

definition SpeedSensor_static_init :: SpeedSensor_state where
  "SpeedSensor_static_init = \<lparr>g_SpeedSensorData = (\<lambda>_. zero_SensorData),
     g_SpeedSensor_Initialized = False, lastSpeed = (\<lambda>_. 0)\<rparr>"

definition SpeedSensor_Init_wheel :: "nat \<Rightarrow> SpeedSensorData_t" where
  "SpeedSensor_Init_wheel wheelIdx =
     zero_SensorData\<lparr>
       sd_wheelPosition := wheelIdx,
       rawData := zero_RawData\<lparr>status := SENSOR_STATUS_INVALID, dataValid := False\<rparr>,
       speedData := zero_SpeedData\<lparr>speedValid := False\<rparr>,
       calibration := zero_Calibration\<lparr>correctionFactor := 1, offsetValue := 0,
         pulsesPerRevolution := 60, wheelCircumference := 21 / 10, calibrationValid := True\<rparr>\<rparr>"

definition SpeedSensor_Init :: "SpeedSensor_state \<Rightarrow> Std_ReturnType \<times> SpeedSensor_state" where
  "SpeedSensor_Init s =
     (if \<not> g_SpeedSensor_Initialized s
      then (E_OK, s\<lparr>g_SpeedSensorData :=
                       fold (\<lambda>wheelIdx d. d(wheelIdx := SpeedSensor_Init_wheel wheelIdx))
                            [0..<WHEEL_MAX] (g_SpeedSensorData s),
                     g_SpeedSensor_Initialized := True\<rparr>)
      else (E_OK, s))"

definition SpeedSensor_DeInit :: "SpeedSensor_state \<Rightarrow> Std_ReturnType \<times> SpeedSensor_state" where
  "SpeedSensor_DeInit s = (E_OK, s\<lparr>g_SpeedSensor_Initialized := False\<rparr>)"

text \<open>The getters return \<open>None\<close> for the out-parameter when they answer \<open>E_NOT_OK\<close>
  (the caller's variable is then left untouched).\<close>

definition SpeedSensor_GetSpeedData :: "SpeedSensor_state \<Rightarrow> WheelPosition_t \<Rightarrow> SpeedData_t option" where
  "SpeedSensor_GetSpeedData s wheelPos =
     (if wheelPos < WHEEL_MAX \<and> g_SpeedSensor_Initialized s
      then Some (speedData (g_SpeedSensorData s wheelPos)) else None)"

definition SpeedSensor_GetCalibration ::
  "SpeedSensor_state \<Rightarrow> WheelPosition_t \<Rightarrow> SpeedSensorCalibration_t option" where
  "SpeedSensor_GetCalibration s wheelPos =
     (if wheelPos < WHEEL_MAX \<and> g_SpeedSensor_Initialized s
      then Some (calibration (g_SpeedSensorData s wheelPos)) else None)"

definition SpeedSensor_SetCalibration ::
  "WheelPosition_t \<Rightarrow> SpeedSensorCalibration_t \<Rightarrow> SpeedSensor_state
     \<Rightarrow> Std_ReturnType \<times> SpeedSensor_state" where
  "SpeedSensor_SetCalibration wheelPos cal s =
     (if wheelPos < WHEEL_MAX \<and> g_SpeedSensor_Initialized s
      then
        if correctionFactor cal > 1 / 2 \<and> correctionFactor cal < 2 \<and>
           pulsesPerRevolution cal > 0 \<and> wheelCircumference cal > 0
        then
          (let d = g_SpeedSensorData s wheelPos;
               d1 = d\<lparr>calibration := cal\<lparr>calibrationValid := True\<rparr>\<rparr>;
               d2 = d1\<lparr>diagnostics := (diagnostics d1)\<lparr>calibrationCycles :=
                        calibrationCycles (diagnostics d1) + 1\<rparr>\<rparr>
           in (E_OK, s\<lparr>g_SpeedSensorData := (g_SpeedSensorData s)(wheelPos := d2)\<rparr>))
        else (E_NOT_OK, s)
      else (E_NOT_OK, s))"

text \<open>\<open>SpeedSensor_ProcessRawData\<close> reads the sample from the RTE; the RTE's answer for
  the wheel (return code and sample) is the parameter \<open>rte\<close>.\<close>

definition SpeedSensor_ProcessRawData ::
  "(Std_ReturnType \<times> SpeedSensorRawData_t) \<Rightarrow> WheelPosition_t \<Rightarrow> SpeedSensor_state
     \<Rightarrow> Std_ReturnType \<times> SpeedSensor_state" where
  "SpeedSensor_ProcessRawData rte wheelPos s =
     (let retVal = (if wheelPos < WHEEL_MAX then fst rte else E_NOT_OK)
      in if retVal = E_OK
         then (retVal, s\<lparr>g_SpeedSensorData := (g_SpeedSensorData s)
                 (wheelPos := (g_SpeedSensorData s wheelPos)\<lparr>rawData := snd rte\<rparr>)\<rparr>)
         else (retVal, s))"

definition SpeedSensor_CalculateSpeed :: "WheelPosition_t \<Rightarrow> SpeedSensor_state \<Rightarrow> SpeedSensor_state" where
  "SpeedSensor_CalculateSpeed wheelPos s =
     (let sensorData = g_SpeedSensorData s wheelPos in
      if timeInterval (rawData sensorData) > 0 \<and>
         pulsesPerRevolution (calibration sensorData) > 0
      then
        (let timeInSeconds = real (unat (timeInterval (rawData sensorData))) / 1000;
             rpm = (real (unat (pulseCount (rawData sensorData))) /
                    real (unat (pulsesPerRevolution (calibration sensorData))))
                   / timeInSeconds * 60;
             rawSpeed = rpm * wheelCircumference (calibration sensorData) * 60 / 1000;
             ws = rawSpeed * correctionFactor (calibration sensorData)
                  + offsetValue (calibration sensorData);
             acc = (ws - lastSpeed s wheelPos) / (real SPEED_SENSOR_SAMPLE_RATE_MS / 1000);
             sensorData' = sensorData\<lparr>
               speedData := (speedData sensorData)\<lparr>wheelSpeedRaw := rawSpeed, wheelSpeed := ws,
                   accelerationX := acc\<rparr>,
               diagnostics := (diagnostics sensorData)\<lparr>totalPulseCount :=
                   totalPulseCount (diagnostics sensorData) + ucast (pulseCount (rawData sensorData))\<rparr>\<rparr>
         in s\<lparr>g_SpeedSensorData := (g_SpeedSensorData s)(wheelPos := sensorData'),
              lastSpeed := (lastSpeed s)(wheelPos := ws)\<rparr>)
      else
        s\<lparr>g_SpeedSensorData := (g_SpeedSensorData s)(wheelPos := sensorData\<lparr>
             speedData := (speedData sensorData)\<lparr>wheelSpeed := 0, wheelSpeedRaw := 0,
                 accelerationX := 0\<rparr>\<rparr>)\<rparr>)"

definition SpeedSensor_ValidateSpeedData :: "WheelPosition_t \<Rightarrow> SpeedSensor_state \<Rightarrow> SpeedSensor_state" where
  "SpeedSensor_ValidateSpeedData wheelPos s =
     (let sensorData = g_SpeedSensorData s wheelPos;
          v0 = True; q0 = (100 :: uint8);
          (v1, q1) = (if wheelSpeed (speedData sensorData) < 0 \<or>
                         wheelSpeed (speedData sensorData) > MAX_WHEEL_SPEED_KMH
                      then (False, 0) else (v0, q0));
          (v2, q2) = (if status (rawData sensorData) \<noteq> SENSOR_STATUS_OK
                      then (False, 0) else (v1, q1));
          (v3, q3) = (if \<not> calibrationValid (calibration sensorData)
                      then (False, if q2 > 50 then 50 else q2) else (v2, q2));
          q4 = (if accelerationX (speedData sensorData) > 20 \<or>
                   accelerationX (speedData sensorData) < - 20
                then (if q3 > 30 then 30 else q3) else q3)
      in s\<lparr>g_SpeedSensorData := (g_SpeedSensorData s)(wheelPos := sensorData\<lparr>
             speedData := (speedData sensorData)\<lparr>speedValid := v3, qualityFactor := q4\<rparr>\<rparr>)\<rparr>)"

definition SpeedSensor_UpdateDiagnostics :: "WheelPosition_t \<Rightarrow> SpeedSensor_state \<Rightarrow> SpeedSensor_state" where
  "SpeedSensor_UpdateDiagnostics wheelPos s =
     (let sensorData = g_SpeedSensorData s wheelPos;
          dg = diagnostics sensorData;
          dg1 = (if status (rawData sensorData) \<noteq> SENSOR_STATUS_OK \<or>
                    \<not> speedValid (speedData sensorData)
                 then dg\<lparr>errorCount := errorCount dg + 1, lastErrorTimestamp := 0\<rparr> else dg);
          dg2 = dg1\<lparr>lastStatus := status (rawData sensorData)\<rparr>
      in s\<lparr>g_SpeedSensorData := (g_SpeedSensorData s)(wheelPos := sensorData\<lparr>diagnostics := dg2\<rparr>)\<rparr>)"

text \<open>One iteration of the loop body of \<open>SpeedSensor_MainFunction\<close>.\<close>

definition SpeedSensor_wheel_cycle ::
  "(Std_ReturnType \<times> SpeedSensorRawData_t) \<Rightarrow> WheelPosition_t \<Rightarrow> SpeedSensor_state \<Rightarrow> SpeedSensor_state" where
  "SpeedSensor_wheel_cycle rte wheelIdx s =
     (case SpeedSensor_ProcessRawData rte wheelIdx s of (r, s1) \<Rightarrow>
        if r = E_OK
        then SpeedSensor_UpdateDiagnostics wheelIdx
               (SpeedSensor_ValidateSpeedData wheelIdx (SpeedSensor_CalculateSpeed wheelIdx s1))
        else s1)"

definition SpeedSensor_MainFunction ::
  "(nat \<Rightarrow> Std_ReturnType \<times> SpeedSensorRawData_t) \<Rightarrow> SpeedSensor_state
     \<Rightarrow> Std_ReturnType \<times> SpeedSensor_state" where
  "SpeedSensor_MainFunction rte s =
     (if g_SpeedSensor_Initialized s
      then (E_OK, fold (\<lambda>wheelIdx. SpeedSensor_wheel_cycle (rte wheelIdx) wheelIdx) [0..<WHEEL_MAX] s)
      else (E_NOT_OK, s))"

section \<open>Malfunction detection types (ABS_MalfunctionDetection.h)\<close>

datatype ABS_MalfunctionType_t =
    ABS_MALFUNCTION_NONE
  | ABS_MALFUNCTION_SPEED_SENSOR_MISCALIBRATION
  | ABS_MALFUNCTION_SPEED_SENSOR_FAILURE
  | ABS_MALFUNCTION_WHEEL_SLIP_EXCESSIVE
  | ABS_MALFUNCTION_SPEED_DIFFERENCE_EXCESSIVE
  | ABS_MALFUNCTION_ACCELERATION_IMPLAUSIBLE
  | ABS_MALFUNCTION_CALIBRATION_DRIFT
  | ABS_MALFUNCTION_SYSTEM_ERROR

datatype ABS_MalfunctionSeverity_t =
    ABS_SEVERITY_NONE
  | ABS_SEVERITY_LOW
  | ABS_SEVERITY_MEDIUM
  | ABS_SEVERITY_HIGH
  | ABS_SEVERITY_CRITICAL

text \<open>The enum's integer value, for the comparison \<open>severity >= ABS_SEVERITY_HIGH\<close>.\<close>

fun severity_value :: "ABS_MalfunctionSeverity_t \<Rightarrow> nat" where
  "severity_value ABS_SEVERITY_NONE = 0"
| "severity_value ABS_SEVERITY_LOW = 1"
| "severity_value ABS_SEVERITY_MEDIUM = 2"
| "severity_value ABS_SEVERITY_HIGH = 3"
| "severity_value ABS_SEVERITY_CRITICAL = 4"

record ABS_MalfunctionStatus_t =
  malfunctionType :: ABS_MalfunctionType_t
  severity :: ABS_MalfunctionSeverity_t
  affectedWheel :: WheelPosition_t
  isActive :: bool
  detectionTimestamp :: uint32
  occurrenceCount :: uint16
  deviationValue :: float32
  confirmedMalfunction :: bool

datatype ABS_SystemState_t =
    ABS_STATE_INACTIVE
  | ABS_STATE_MONITORING
  | ABS_STATE_INTERVENTION
  | ABS_STATE_MALFUNCTION
  | ABS_STATE_DEGRADED

record ABS_DetectionParameters_t =
  speedDifferenceThreshold :: float32
  accelerationThreshold :: float32
  calibrationDriftThreshold :: float32
  debounceTimeMs :: uint16
  consecutiveErrorsThreshold :: uint8
  enableMiscalibrationDetection :: bool
  enableSpeedPlausibilityCheck :: bool
  enableAccelerationCheck :: bool

record ABS_VehicleData_t =
  wheelSpeeds :: "nat \<Rightarrow> SpeedData_t"
  vehicleReferenceSpeed :: float32
  longitudinalAcceleration :: float32
  lateralAcceleration :: float32
  brakePedalPressed :: bool
  vehicleStabilityActive :: bool
  systemState :: ABS_SystemState_t

definition ABS_DETECTION_CYCLE_MS :: uint16 where "ABS_DETECTION_CYCLE_MS = 20"
definition ABS_MAX_SPEED_DIFFERENCE :: float32 where "ABS_MAX_SPEED_DIFFERENCE = 30"
definition ABS_MAX_ACCELERATION :: float32 where "ABS_MAX_ACCELERATION = 15"
definition ABS_CALIBRATION_DRIFT_LIMIT :: float32 where "ABS_CALIBRATION_DRIFT_LIMIT = 10"
definition ABS_DEBOUNCE_TIME_MS :: uint16 where "ABS_DEBOUNCE_TIME_MS = 100"
definition ABS_CONSECUTIVE_ERRORS_MAX :: uint8 where "ABS_CONSECUTIVE_ERRORS_MAX = 5"

section \<open>Malfunction detection (ABS_MalfunctionDetection.c)\<close>

record ABS_state =
  g_MalfunctionStatus :: "nat \<Rightarrow> ABS_MalfunctionStatus_t"
  g_DetectionParams :: ABS_DetectionParameters_t
  g_VehicleData :: ABS_VehicleData_t
  g_SystemState :: ABS_SystemState_t
  g_ABS_Initialized :: bool
  g_DebounceCounters :: "nat \<Rightarrow> uint16"
  g_ConsecutiveErrorCount :: "nat \<Rightarrow> uint8"

definition zero_MalfunctionStatus :: ABS_MalfunctionStatus_t where
  "zero_MalfunctionStatus = \<lparr>malfunctionType = ABS_MALFUNCTION_NONE, severity = ABS_SEVERITY_NONE,
     affectedWheel = 0, isActive = False, detectionTimestamp = 0, occurrenceCount = 0,
     deviationValue = 0, confirmedMalfunction = False\<rparr>"

definition zero_DetectionParameters :: ABS_DetectionParameters_t where
  "zero_DetectionParameters = \<lparr>speedDifferenceThreshold = 0, accelerationThreshold = 0,
     calibrationDriftThreshold = 0, debounceTimeMs = 0, consecutiveErrorsThreshold = 0,
     enableMiscalibrationDetection = False, enableSpeedPlausibilityCheck = False,
     enableAccelerationCheck = False\<rparr>"

definition zero_VehicleData :: ABS_VehicleData_t where
  "zero_VehicleData = \<lparr>wheelSpeeds = (\<lambda>_. zero_SpeedData), vehicleReferenceSpeed = 0,
     longitudinalAcceleration = 0, lateralAcceleration = 0, brakePedalPressed = False,
     vehicleStabilityActive = False, systemState = ABS_STATE_INACTIVE\<rparr>"

definition ABS_static_init :: ABS_state where
  "ABS_static_init = \<lparr>g_MalfunctionStatus = (\<lambda>_. zero_MalfunctionStatus),
     g_DetectionParams = zero_DetectionParameters, g_VehicleData = zero_VehicleData,
     g_SystemState = ABS_STATE_INACTIVE, g_ABS_Initialized = False,
     g_DebounceCounters = (\<lambda>_. 0), g_ConsecutiveErrorCount = (\<lambda>_. 0)\<rparr>"

definition ABS_InitDefaultParameters :: "ABS_state \<Rightarrow> ABS_state" where
  "ABS_InitDefaultParameters s =
     s\<lparr>g_DetectionParams := (g_DetectionParams s)\<lparr>
          speedDifferenceThreshold := ABS_MAX_SPEED_DIFFERENCE,
          accelerationThreshold := ABS_MAX_ACCELERATION,
          calibrationDriftThreshold := ABS_CALIBRATION_DRIFT_LIMIT,
          debounceTimeMs := ABS_DEBOUNCE_TIME_MS,
          consecutiveErrorsThreshold := ABS_CONSECUTIVE_ERRORS_MAX,
          enableMiscalibrationDetection := True,
          enableSpeedPlausibilityCheck := True,
          enableAccelerationCheck := True\<rparr>\<rparr>"

definition ABS_Init_wheel :: "nat \<Rightarrow> ABS_state \<Rightarrow> ABS_state" where
  "ABS_Init_wheel wheelIdx s =
     s\<lparr>g_MalfunctionStatus := (g_MalfunctionStatus s)(wheelIdx :=
          zero_MalfunctionStatus\<lparr>malfunctionType := ABS_MALFUNCTION_NONE,
            severity := ABS_SEVERITY_NONE, affectedWheel := wheelIdx, isActive := False,
            confirmedMalfunction := False\<rparr>),
        g_DebounceCounters := (g_DebounceCounters s)(wheelIdx := 0),
        g_ConsecutiveErrorCount := (g_ConsecutiveErrorCount s)(wheelIdx := 0)\<rparr>"

definition ABS_MalfunctionDetection_Init :: "ABS_state \<Rightarrow> Std_ReturnType \<times> ABS_state" where
  "ABS_MalfunctionDetection_Init s =
     (if \<not> g_ABS_Initialized s
      then (E_OK, (ABS_InitDefaultParameters (fold ABS_Init_wheel [0..<WHEEL_MAX] s))
                    \<lparr>g_VehicleData := zero_VehicleData, g_SystemState := ABS_STATE_MONITORING,
                     g_ABS_Initialized := True\<rparr>)
      else (E_OK, s))"

definition ABS_MalfunctionDetection_DeInit :: "ABS_state \<Rightarrow> Std_ReturnType \<times> ABS_state" where
  "ABS_MalfunctionDetection_DeInit s =
     (E_OK, s\<lparr>g_ABS_Initialized := False, g_SystemState := ABS_STATE_INACTIVE\<rparr>)"

definition ABS_UpdateVehicleData :: "ABS_VehicleData_t \<Rightarrow> ABS_state \<Rightarrow> Std_ReturnType \<times> ABS_state" where
  "ABS_UpdateVehicleData vehicleData s =
     (if g_ABS_Initialized s then (E_OK, s\<lparr>g_VehicleData := vehicleData\<rparr>) else (E_NOT_OK, s))"

definition ABS_GetMalfunctionStatus :: "ABS_state \<Rightarrow> WheelPosition_t \<Rightarrow> ABS_MalfunctionStatus_t option" where
  "ABS_GetMalfunctionStatus s wheelPos =
     (if wheelPos < WHEEL_MAX \<and> g_ABS_Initialized s
      then Some (g_MalfunctionStatus s wheelPos) else None)"

definition ABS_ClearMalfunctionStatus :: "WheelPosition_t \<Rightarrow> ABS_state \<Rightarrow> Std_ReturnType \<times> ABS_state" where
  "ABS_ClearMalfunctionStatus wheelPos s =
     (if wheelPos < WHEEL_MAX \<and> g_ABS_Initialized s
      then (E_OK,
            s\<lparr>g_MalfunctionStatus := (g_MalfunctionStatus s)(wheelPos :=
                 (g_MalfunctionStatus s wheelPos)\<lparr>isActive := False, confirmedMalfunction := False,
                    malfunctionType := ABS_MALFUNCTION_NONE, severity := ABS_SEVERITY_NONE\<rparr>),
              g_DebounceCounters := (g_DebounceCounters s)(wheelPos := 0),
              g_ConsecutiveErrorCount := (g_ConsecutiveErrorCount s)(wheelPos := 0)\<rparr>)
      else (E_NOT_OK, s))"

definition ABS_SetDetectionParameters ::
  "ABS_DetectionParameters_t \<Rightarrow> ABS_state \<Rightarrow> Std_ReturnType \<times> ABS_state" where
  "ABS_SetDetectionParameters params s =
     (if g_ABS_Initialized s then (E_OK, s\<lparr>g_DetectionParams := params\<rparr>) else (E_NOT_OK, s))"

subsection \<open>Reference speed\<close>

text \<open>The first loop of \<open>ABS_CalculateMedianSpeed\<close>: the used prefix
  \<open>validSpeeds[0 .. validCount-1]\<close> of the local array, as a list.\<close>

definition collect_valid_speeds :: "ABS_VehicleData_t \<Rightarrow> float32 list" where
  "collect_valid_speeds vd =
     fold (\<lambda>wheelIdx validSpeeds.
             if speedValid (wheelSpeeds vd wheelIdx)
             then validSpeeds @ [wheelSpeed (wheelSpeeds vd wheelIdx)]
             else validSpeeds)
          [0..<WHEEL_MAX] []"

text \<open>The body of the inner sorting loop: compare and swap slots \<open>j\<close> and \<open>j + 1\<close>.\<close>

definition swap_if_greater :: "nat \<Rightarrow> float32 list \<Rightarrow> float32 list" where
  "swap_if_greater j validSpeeds =
     (if validSpeeds ! j > validSpeeds ! (j + 1)
      then (let temp = validSpeeds ! j
            in validSpeeds[j := validSpeeds ! (j + 1), j + 1 := temp])
      else validSpeeds)"

definition sort_valid_speeds :: "float32 list \<Rightarrow> float32 list" where
  "sort_valid_speeds validSpeeds =
     (let validCount = length validSpeeds
      in fold (\<lambda>i v. fold swap_if_greater [0..<validCount - i - 1] v) [0..<validCount - 1] validSpeeds)"

definition ABS_CalculateMedianSpeed :: "ABS_VehicleData_t \<Rightarrow> float32" where
  "ABS_CalculateMedianSpeed vd =
     (let validSpeeds = collect_valid_speeds vd;
          validCount = length validSpeeds
      in if validCount \<ge> 2
         then (let sortedSpeeds = sort_valid_speeds validSpeeds
               in if validCount mod 2 = 0
                  then (sortedSpeeds ! (validCount div 2 - 1) + sortedSpeeds ! (validCount div 2)) / 2
                  else sortedSpeeds ! (validCount div 2))
         else 0)"

subsection \<open>The three checks\<close>

text \<open>Each check returns its verdict and the value of the out-parameter.
  \<open>ABS_CheckCalibrationDrift\<close> leaves the out-parameter as it was (argument \<open>dev\<close>) when the
  calibration cannot be read.\<close>

definition ABS_CheckCalibrationDrift ::
  "SpeedSensor_state \<Rightarrow> ABS_state \<Rightarrow> WheelPosition_t \<Rightarrow> float32 \<Rightarrow> bool \<times> float32" where
  "ABS_CheckCalibrationDrift ss s wheelPos dev =
     (case SpeedSensor_GetCalibration ss wheelPos of
        Some cal \<Rightarrow>
          (let expectedCorrectionFactor = 1;
               driftPercentage =
                 \<bar>(correctionFactor cal - expectedCorrectionFactor) / expectedCorrectionFactor\<bar> * 100
           in (driftPercentage > calibrationDriftThreshold (g_DetectionParams s), driftPercentage))
      | None \<Rightarrow> (False, dev))"

definition ABS_CheckSpeedPlausibility :: "ABS_state \<Rightarrow> WheelPosition_t \<Rightarrow> bool \<times> float32" where
  "ABS_CheckSpeedPlausibility s wheelPos =
     (if speedValid (wheelSpeeds (g_VehicleData s) wheelPos)
      then (let ws = wheelSpeed (wheelSpeeds (g_VehicleData s) wheelPos);
                referenceSpeed = ABS_CalculateMedianSpeed (g_VehicleData s);
                deviation = \<bar>ws - referenceSpeed\<bar>
            in (\<not> deviation > speedDifferenceThreshold (g_DetectionParams s), deviation))
      else (False, 0))"

definition ABS_CheckAccelerationPlausibility :: "ABS_state \<Rightarrow> WheelPosition_t \<Rightarrow> bool \<times> float32" where
  "ABS_CheckAccelerationPlausibility s wheelPos =
     (if speedValid (wheelSpeeds (g_VehicleData s) wheelPos)
      then (let acceleration = \<bar>accelerationX (wheelSpeeds (g_VehicleData s) wheelPos)\<bar>
            in (\<not> (acceleration > accelerationThreshold (g_DetectionParams s) \<and>
                    \<not> brakePedalPressed (g_VehicleData s)), acceleration))
      else (False, 0))"

fun ABS_DetermineSeverity :: "ABS_MalfunctionType_t \<Rightarrow> float32 \<Rightarrow> ABS_MalfunctionSeverity_t" where
  "ABS_DetermineSeverity ABS_MALFUNCTION_SPEED_SENSOR_MISCALIBRATION deviation =
     (if deviation > 15 then ABS_SEVERITY_CRITICAL
      else if deviation > 10 then ABS_SEVERITY_HIGH
      else if deviation > 5 then ABS_SEVERITY_MEDIUM
      else ABS_SEVERITY_LOW)"
| "ABS_DetermineSeverity ABS_MALFUNCTION_SPEED_DIFFERENCE_EXCESSIVE deviation =
     (if deviation > 50 then ABS_SEVERITY_CRITICAL
      else if deviation > 30 then ABS_SEVERITY_HIGH
      else if deviation > 20 then ABS_SEVERITY_MEDIUM
      else ABS_SEVERITY_LOW)"
| "ABS_DetermineSeverity ABS_MALFUNCTION_ACCELERATION_IMPLAUSIBLE deviation =
     (if deviation > 20 then ABS_SEVERITY_CRITICAL
      else if deviation > 15 then ABS_SEVERITY_HIGH
      else ABS_SEVERITY_MEDIUM)"
| "ABS_DetermineSeverity _ deviation = ABS_SEVERITY_LOW"

definition ABS_UpdateMalfunctionStatus ::
  "WheelPosition_t \<Rightarrow> ABS_MalfunctionType_t \<Rightarrow> ABS_MalfunctionSeverity_t \<Rightarrow> float32
     \<Rightarrow> ABS_state \<Rightarrow> ABS_state" where
  "ABS_UpdateMalfunctionStatus wheelPos type sev deviation s =
     s\<lparr>g_MalfunctionStatus := (g_MalfunctionStatus s)(wheelPos :=
          (g_MalfunctionStatus s wheelPos)\<lparr>malfunctionType := type, severity := sev,
             isActive := True, deviationValue := deviation, detectionTimestamp := 0,
             occurrenceCount := occurrenceCount (g_MalfunctionStatus s wheelPos) + 1\<rparr>)\<rparr>"

subsection \<open>Per-wheel detection and debouncing\<close>

text \<open>The locals \<open>malfunctionDetected\<close>, \<open>malfunctionType\<close>, \<open>severity\<close> and \<open>deviation\<close>
  after the three guarded checks.  \<open>deviation\<close> is an uninitialised local in C; it is read
  only when a check has tripped, and every tripping check has written it before, so its
  start value (here 0) never reaches the record.\<close>

definition ABS_run_checks ::
  "SpeedSensor_state \<Rightarrow> ABS_state \<Rightarrow> WheelPosition_t
     \<Rightarrow> bool \<times> ABS_MalfunctionType_t \<times> ABS_MalfunctionSeverity_t \<times> float32" where
  "ABS_run_checks ss s wheelPos =
     (let l0 = (False, ABS_MALFUNCTION_NONE, ABS_SEVERITY_NONE, 0);
          l1 = (case l0 of (detected, ty, sev, dev) \<Rightarrow>
                  if enableMiscalibrationDetection (g_DetectionParams s)
                  then (case ABS_CheckCalibrationDrift ss s wheelPos dev of (drifted, dev') \<Rightarrow>
                          if drifted
                          then (True, ABS_MALFUNCTION_SPEED_SENSOR_MISCALIBRATION,
                                ABS_DetermineSeverity ABS_MALFUNCTION_SPEED_SENSOR_MISCALIBRATION dev', dev')
                          else (detected, ty, sev, dev'))
                  else l0);
          l2 = (case l1 of (detected, ty, sev, dev) \<Rightarrow>
                  if enableSpeedPlausibilityCheck (g_DetectionParams s) \<and> \<not> detected
                  then (case ABS_CheckSpeedPlausibility s wheelPos of (plausible, dev') \<Rightarrow>
                          if \<not> plausible
                          then (True, ABS_MALFUNCTION_SPEED_DIFFERENCE_EXCESSIVE,
                                ABS_DetermineSeverity ABS_MALFUNCTION_SPEED_DIFFERENCE_EXCESSIVE dev', dev')
                          else (detected, ty, sev, dev'))
                  else l1);
          l3 = (case l2 of (detected, ty, sev, dev) \<Rightarrow>
                  if enableAccelerationCheck (g_DetectionParams s) \<and> \<not> detected
                  then (case ABS_CheckAccelerationPlausibility s wheelPos of (plausible, dev') \<Rightarrow>
                          if \<not> plausible
                          then (True, ABS_MALFUNCTION_ACCELERATION_IMPLAUSIBLE,
                                ABS_DetermineSeverity ABS_MALFUNCTION_ACCELERATION_IMPLAUSIBLE dev', dev')
                          else (detected, ty, sev, dev'))
                  else l2)
      in l3)"

definition ABS_ProcessWheelMalfunctionDetection ::
  "SpeedSensor_state \<Rightarrow> WheelPosition_t \<Rightarrow> ABS_state \<Rightarrow> ABS_state" where
  "ABS_ProcessWheelMalfunctionDetection ss wheelPos s =
     (case ABS_run_checks ss s wheelPos of (malfunctionDetected, ty, sev, deviation) \<Rightarrow>
        if malfunctionDetected
        then (let s1 = ABS_UpdateMalfunctionStatus wheelPos ty sev deviation s
              in s1\<lparr>g_ConsecutiveErrorCount := (g_ConsecutiveErrorCount s1)(wheelPos :=
                       g_ConsecutiveErrorCount s1 wheelPos + 1)\<rparr>)
        else (let s1 = s\<lparr>g_ConsecutiveErrorCount := (g_ConsecutiveErrorCount s)(wheelPos := 0)\<rparr>
              in if isActive (g_MalfunctionStatus s1 wheelPos)
                 then s1\<lparr>g_DebounceCounters := (g_DebounceCounters s1)(wheelPos := 0)\<rparr>
                 else s1))"

definition ABS_ProcessDebouncing :: "WheelPosition_t \<Rightarrow> ABS_state \<Rightarrow> ABS_state" where
  "ABS_ProcessDebouncing wheelPos s =
     (if isActive (g_MalfunctionStatus s wheelPos)
      then (let s1 = s\<lparr>g_DebounceCounters := (g_DebounceCounters s)(wheelPos :=
                          g_DebounceCounters s wheelPos + ABS_DETECTION_CYCLE_MS)\<rparr>
            in if g_DebounceCounters s1 wheelPos \<ge> debounceTimeMs (g_DetectionParams s1)
               then s1\<lparr>g_MalfunctionStatus := (g_MalfunctionStatus s1)(wheelPos :=
                         (g_MalfunctionStatus s1 wheelPos)\<lparr>confirmedMalfunction := True\<rparr>)\<rparr>
               else s1)
      else s\<lparr>g_DebounceCounters := (g_DebounceCounters s)(wheelPos := 0),
             g_MalfunctionStatus := (g_MalfunctionStatus s)(wheelPos :=
               (g_MalfunctionStatus s wheelPos)\<lparr>confirmedMalfunction := False\<rparr>)\<rparr>)"

definition ABS_UpdateSystemState :: "ABS_state \<Rightarrow> ABS_state" where
  "ABS_UpdateSystemState s =
     (let (criticalMalfunctions, activeMalfunctions) =
            fold (\<lambda>wheelIdx (c, a).
                    if confirmedMalfunction (g_MalfunctionStatus s wheelIdx)
                    then (if severity_value (severity (g_MalfunctionStatus s wheelIdx))
                               \<ge> severity_value ABS_SEVERITY_HIGH
                          then (c + 1, a + 1) else (c, a + 1))
                    else (c, a))
                 [0..<WHEEL_MAX] (0 :: nat, 0 :: nat)
      in if criticalMalfunctions > 0 then s\<lparr>g_SystemState := ABS_STATE_MALFUNCTION\<rparr>
         else if activeMalfunctions > 0 then s\<lparr>g_SystemState := ABS_STATE_DEGRADED\<rparr>
         else s\<lparr>g_SystemState := ABS_STATE_MONITORING\<rparr>)"

text \<open>One iteration of the loop of \<open>ABS_MalfunctionDetection_MainFunction\<close>.\<close>

definition ABS_wheel_cycle :: "SpeedSensor_state \<Rightarrow> WheelPosition_t \<Rightarrow> ABS_state \<Rightarrow> ABS_state" where
  "ABS_wheel_cycle ss wheelIdx s =
     ABS_ProcessDebouncing wheelIdx (ABS_ProcessWheelMalfunctionDetection ss wheelIdx s)"

definition ABS_MalfunctionDetection_MainFunction ::
  "SpeedSensor_state \<Rightarrow> ABS_state \<Rightarrow> Std_ReturnType \<times> ABS_state" where
  "ABS_MalfunctionDetection_MainFunction ss s =
     (if g_ABS_Initialized s
      then (E_OK, ABS_UpdateSystemState (fold (ABS_wheel_cycle ss) [0..<WHEEL_MAX] s))
      else (E_NOT_OK, s))"

section \<open>Calibration manager types (CalibrationManager.h)\<close>

datatype CalibrationResult_t =
    CALIBRATION_RESULT_OK
  | CALIBRATION_RESULT_NOT_OK
  | CALIBRATION_RESULT_INVALID_PARAM
  | CALIBRATION_RESULT_OUT_OF_RANGE
  | CALIBRATION_RESULT_NVM_ERROR
  | CALIBRATION_RESULT_VALIDATION_FAILED
  | CALIBRATION_RESULT_IN_PROGRESS

text \<open>The enum's integer value, as returned through \<open>Std_ReturnType\<close>.\<close>

fun CalibrationResult_value :: "CalibrationResult_t \<Rightarrow> Std_ReturnType" where
  "CalibrationResult_value CALIBRATION_RESULT_OK = 0"
| "CalibrationResult_value CALIBRATION_RESULT_NOT_OK = 1"
| "CalibrationResult_value CALIBRATION_RESULT_INVALID_PARAM = 2"
| "CalibrationResult_value CALIBRATION_RESULT_OUT_OF_RANGE = 3"
| "CalibrationResult_value CALIBRATION_RESULT_NVM_ERROR = 4"
| "CalibrationResult_value CALIBRATION_RESULT_VALIDATION_FAILED = 5"
| "CalibrationResult_value CALIBRATION_RESULT_IN_PROGRESS = 6"

datatype CalibrationMethod_t =
    CALIBRATION_METHOD_MANUAL
  | CALIBRATION_METHOD_AUTOMATIC
  | CALIBRATION_METHOD_REFERENCE_BASED
  | CALIBRATION_METHOD_GPS_BASED
  | CALIBRATION_METHOD_FACTORY_RESET

datatype CalibrationState_t =
    CALIBRATION_STATE_IDLE
  | CALIBRATION_STATE_REQUESTED
  | CALIBRATION_STATE_IN_PROGRESS
  | CALIBRATION_STATE_COMPLETED
  | CALIBRATION_STATE_FAILED
  | CALIBRATION_STATE_CANCELLED

record CalibrationRequest_t =
  wheelPosition :: WheelPosition_t
  cal_method :: CalibrationMethod_t
  referenceSpeed :: float32
  tolerancePercentage :: float32
  calibrationTimeMs :: uint16
  forceCalibration :: bool

record CalibrationSession_t =
  request :: CalibrationRequest_t
  state :: CalibrationState_t
  result :: CalibrationResult_t
  startTimestamp :: uint32
  endTimestamp :: uint32
  samplesCollected :: uint16
  calculatedCorrectionFactor :: float32
  calculatedOffset :: float32
  measuredAccuracy :: float32
  sessionActive :: bool

record CalibrationHistoryEntry_t =
  hist_timestamp :: uint32
  hist_method :: CalibrationMethod_t
  hist_result :: CalibrationResult_t
  oldCorrectionFactor :: float32
  newCorrectionFactor :: float32
  hist_accuracy :: float32

record CalibrationConfig_t =
  maxCalibrationSamples :: uint16
  minCalibrationSamples :: uint16
  maxCorrectionFactor :: float32
  minCorrectionFactor :: float32
  defaultTolerance :: float32
  calibrationTimeoutMs :: uint16
  enableAutoCalibration :: bool
  autoCalibrationIntervalHours :: uint16

definition CALIBRATION_MAX_SAMPLES :: uint16 where "CALIBRATION_MAX_SAMPLES = 1000"
definition CALIBRATION_MIN_SAMPLES :: uint16 where "CALIBRATION_MIN_SAMPLES = 50"
definition CALIBRATION_TIMEOUT_MS :: uint16 where "CALIBRATION_TIMEOUT_MS = 30000"
definition CALIBRATION_HISTORY_SIZE :: nat where "CALIBRATION_HISTORY_SIZE = 10"
definition NVM_BLOCK_CALIBRATION_FL :: uint16 where "NVM_BLOCK_CALIBRATION_FL = 0x1001"
definition NVM_BLOCK_CALIBRATION_FR :: uint16 where "NVM_BLOCK_CALIBRATION_FR = 0x1002"
definition NVM_BLOCK_CALIBRATION_RL :: uint16 where "NVM_BLOCK_CALIBRATION_RL = 0x1003"
definition NVM_BLOCK_CALIBRATION_RR :: uint16 where "NVM_BLOCK_CALIBRATION_RR = 0x1004"
definition DTC_CALIBRATION_FAILED :: uint32 where "DTC_CALIBRATION_FAILED = 0xC14187"
definition DTC_CALIBRATION_OUT_OF_RANGE :: uint32 where "DTC_CALIBRATION_OUT_OF_RANGE = 0xC14287"
definition DTC_CALIBRATION_NVM_ERROR :: uint32 where "DTC_CALIBRATION_NVM_ERROR = 0xC14387"

section \<open>Calibration manager (CalibrationManager.c)\<close>

text \<open>
  The sample arrays are maps from the index to the value.  The code indexes them with
  \<open>sampleCount < maxCalibrationSamples\<close>; the C arrays have \<open>CALIBRATION_MAX_SAMPLES\<close>
  slots, so a configured maximum above that would write past them, which the model
  does not represent.
\<close>

record CalibrationSampleData_t =
  speedSamples :: "nat \<Rightarrow> float32"
  referenceSamples :: "nat \<Rightarrow> float32"
  sampleCount :: uint16
  lastSampleTime :: uint32

text \<open>
  The statics of the file.  \<open>rte_SetDTC_calls\<close> records the calls of the external
  \<open>Rte_Call_DiagnosticService_SetDTC(uint16 dtcId, boolean active)\<close> in order; the DTC
  constants are truncated to the parameter's 16 bits.
\<close>

record CalMgr_state =
  g_CalibrationSessions :: "nat \<Rightarrow> CalibrationSession_t"
  g_CalibrationConfig :: CalibrationConfig_t
  g_CalibrationHistory :: "nat \<Rightarrow> nat \<Rightarrow> CalibrationHistoryEntry_t"
  g_HistoryCount :: "nat \<Rightarrow> uint8"
  g_CalibrationManager_Initialized :: bool
  g_SampleData :: "nat \<Rightarrow> CalibrationSampleData_t"
  rte_SetDTC_calls :: "(uint16 \<times> bool) list"

text \<open>The persistence collaborator: what \<open>Rte_Call_NvmService_ReadBlock\<close> returns for a
  block, and the return code of \<open>Rte_Call_NvmService_WriteBlock\<close> for a block and a value.\<close>

record NvmService =
  ReadBlock :: "uint16 \<Rightarrow> Std_ReturnType \<times> SpeedSensorCalibration_t"
  WriteBlock :: "uint16 \<Rightarrow> SpeedSensorCalibration_t \<Rightarrow> Std_ReturnType"

definition zero_Request :: CalibrationRequest_t where
  "zero_Request = \<lparr>wheelPosition = 0, cal_method = CALIBRATION_METHOD_MANUAL, referenceSpeed = 0,
     tolerancePercentage = 0, calibrationTimeMs = 0, forceCalibration = False\<rparr>"

definition zero_Session :: CalibrationSession_t where
  "zero_Session = \<lparr>request = zero_Request, state = CALIBRATION_STATE_IDLE,
     result = CALIBRATION_RESULT_OK, startTimestamp = 0, endTimestamp = 0, samplesCollected = 0,
     calculatedCorrectionFactor = 0, calculatedOffset = 0, measuredAccuracy = 0,
     sessionActive = False\<rparr>"

definition zero_HistoryEntry :: CalibrationHistoryEntry_t where
  "zero_HistoryEntry = \<lparr>hist_timestamp = 0, hist_method = CALIBRATION_METHOD_MANUAL,
     hist_result = CALIBRATION_RESULT_OK, oldCorrectionFactor = 0, newCorrectionFactor = 0,
     hist_accuracy = 0\<rparr>"

definition zero_Config :: CalibrationConfig_t where
  "zero_Config = \<lparr>maxCalibrationSamples = 0, minCalibrationSamples = 0, maxCorrectionFactor = 0,
     minCorrectionFactor = 0, defaultTolerance = 0, calibrationTimeoutMs = 0,
     enableAutoCalibration = False, autoCalibrationIntervalHours = 0\<rparr>"

definition zero_SampleData :: CalibrationSampleData_t where
  "zero_SampleData = \<lparr>speedSamples = (\<lambda>_. 0), referenceSamples = (\<lambda>_. 0), sampleCount = 0,
     lastSampleTime = 0\<rparr>"

definition CalMgr_static_init :: CalMgr_state where
  "CalMgr_static_init = \<lparr>g_CalibrationSessions = (\<lambda>_. zero_Session),
     g_CalibrationConfig = zero_Config, g_CalibrationHistory = (\<lambda>_ _. zero_HistoryEntry),
     g_HistoryCount = (\<lambda>_. 0), g_CalibrationManager_Initialized = False,
     g_SampleData = (\<lambda>_. zero_SampleData), rte_SetDTC_calls = []\<rparr>"

definition Rte_Call_DiagnosticService_SetDTC :: "uint32 \<Rightarrow> bool \<Rightarrow> CalMgr_state \<Rightarrow> CalMgr_state" where
  "Rte_Call_DiagnosticService_SetDTC dtc active cm =
     cm\<lparr>rte_SetDTC_calls := rte_SetDTC_calls cm @ [(ucast dtc, active)]\<rparr>"

definition CalibrationManager_InitDefaultConfig :: "CalMgr_state \<Rightarrow> CalMgr_state" where
  "CalibrationManager_InitDefaultConfig cm =
     cm\<lparr>g_CalibrationConfig := (g_CalibrationConfig cm)\<lparr>
          maxCalibrationSamples := CALIBRATION_MAX_SAMPLES,
          minCalibrationSamples := CALIBRATION_MIN_SAMPLES,
          maxCorrectionFactor := 3 / 2,
          minCorrectionFactor := 1 / 2,
          defaultTolerance := 2,
          calibrationTimeoutMs := CALIBRATION_TIMEOUT_MS,
          enableAutoCalibration := True,
          autoCalibrationIntervalHours := 24\<rparr>\<rparr>"

definition CalibrationManager_GetNvmBlockId :: "WheelPosition_t \<Rightarrow> uint16" where
  "CalibrationManager_GetNvmBlockId wheelPos =
     (if wheelPos = WHEEL_FRONT_LEFT then NVM_BLOCK_CALIBRATION_FL
      else if wheelPos = WHEEL_FRONT_RIGHT then NVM_BLOCK_CALIBRATION_FR
      else if wheelPos = WHEEL_REAR_LEFT then NVM_BLOCK_CALIBRATION_RL
      else if wheelPos = WHEEL_REAR_RIGHT then NVM_BLOCK_CALIBRATION_RR
      else 0)"

definition CalibrationManager_SetSessionResult ::
  "WheelPosition_t \<Rightarrow> CalibrationResult_t \<Rightarrow> CalMgr_state \<Rightarrow> CalMgr_state" where
  "CalibrationManager_SetSessionResult wheelPos res cm =
     (let cm1 = cm\<lparr>g_CalibrationSessions := (g_CalibrationSessions cm)(wheelPos :=
                     (g_CalibrationSessions cm wheelPos)\<lparr>result := res\<rparr>)\<rparr>
      in if res \<noteq> CALIBRATION_RESULT_OK
         then (if res = CALIBRATION_RESULT_OUT_OF_RANGE
               then Rte_Call_DiagnosticService_SetDTC DTC_CALIBRATION_OUT_OF_RANGE True cm1
               else Rte_Call_DiagnosticService_SetDTC DTC_CALIBRATION_FAILED True cm1)
         else cm1)"

definition CalibrationManager_AddHistoryEntry ::
  "WheelPosition_t \<Rightarrow> CalibrationHistoryEntry_t \<Rightarrow> CalMgr_state \<Rightarrow> CalMgr_state" where
  "CalibrationManager_AddHistoryEntry wheelPos entry cm =
     (if unat (g_HistoryCount cm wheelPos) < CALIBRATION_HISTORY_SIZE
      then (let insertIndex = unat (g_HistoryCount cm wheelPos)
            in cm\<lparr>g_HistoryCount := (g_HistoryCount cm)(wheelPos := g_HistoryCount cm wheelPos + 1),
                  g_CalibrationHistory := (g_CalibrationHistory cm)(wheelPos :=
                     (g_CalibrationHistory cm wheelPos)(insertIndex := entry))\<rparr>)
      else (let shifted = fold (\<lambda>i h. h(i := h (i + 1))) [0..<CALIBRATION_HISTORY_SIZE - 1]
                            (g_CalibrationHistory cm wheelPos);
                insertIndex = CALIBRATION_HISTORY_SIZE - 1
            in cm\<lparr>g_CalibrationHistory := (g_CalibrationHistory cm)(wheelPos :=
                     shifted(insertIndex := entry))\<rparr>))"

definition CalibrationManager_StartCalibration ::
  "CalibrationRequest_t \<Rightarrow> CalMgr_state \<Rightarrow> Std_ReturnType \<times> CalMgr_state" where
  "CalibrationManager_StartCalibration req cm =
     (if g_CalibrationManager_Initialized cm
      then (let wheelPos = wheelPosition req in
            if wheelPos < WHEEL_MAX
            then (let session = g_CalibrationSessions cm wheelPos in
                  if \<not> sessionActive session
                  then (E_OK,
                        cm\<lparr>g_CalibrationSessions := (g_CalibrationSessions cm)(wheelPos :=
                              session\<lparr>request := req, state := CALIBRATION_STATE_REQUESTED,
                                 result := CALIBRATION_RESULT_IN_PROGRESS, startTimestamp := 0,
                                 samplesCollected := 0, sessionActive := True\<rparr>),
                           g_SampleData := (g_SampleData cm)(wheelPos := zero_SampleData)\<rparr>)
                  else (CalibrationResult_value CALIBRATION_RESULT_IN_PROGRESS, cm))
            else (CalibrationResult_value CALIBRATION_RESULT_INVALID_PARAM, cm))
      else (E_NOT_OK, cm))"

definition CalibrationManager_CancelCalibration ::
  "WheelPosition_t \<Rightarrow> CalMgr_state \<Rightarrow> Std_ReturnType \<times> CalMgr_state" where
  "CalibrationManager_CancelCalibration wheelPos cm =
     (if wheelPos < WHEEL_MAX \<and> g_CalibrationManager_Initialized cm
      then (let session = g_CalibrationSessions cm wheelPos in
            if sessionActive session
            then (E_OK, cm\<lparr>g_CalibrationSessions := (g_CalibrationSessions cm)(wheelPos :=
                    session\<lparr>state := CALIBRATION_STATE_CANCELLED, result := CALIBRATION_RESULT_NOT_OK,
                       sessionActive := False, endTimestamp := 0\<rparr>)\<rparr>)
            else (E_NOT_OK, cm))
      else (E_NOT_OK, cm))"

definition CalibrationManager_SaveToNvm ::
  "NvmService \<Rightarrow> WheelPosition_t \<Rightarrow> SpeedSensor_state \<Rightarrow> CalMgr_state
     \<Rightarrow> Std_ReturnType \<times> CalMgr_state" where
  "CalibrationManager_SaveToNvm nvm wheelPos ss cm =
     (if wheelPos < WHEEL_MAX \<and> g_CalibrationManager_Initialized cm
      then (let nvmBlockId = CalibrationManager_GetNvmBlockId wheelPos in
            case SpeedSensor_GetCalibration ss wheelPos of
              Some cal \<Rightarrow>
                if WriteBlock nvm nvmBlockId cal = NVM_REQ_OK
                then (E_OK, cm)
                else (E_NOT_OK, Rte_Call_DiagnosticService_SetDTC DTC_CALIBRATION_NVM_ERROR True cm)
            | None \<Rightarrow> (E_NOT_OK, cm))
      else (E_NOT_OK, cm))"

definition CalibrationManager_ApplyCalibration ::
  "NvmService \<Rightarrow> WheelPosition_t \<Rightarrow> bool \<Rightarrow> SpeedSensor_state \<times> CalMgr_state
     \<Rightarrow> Std_ReturnType \<times> SpeedSensor_state \<times> CalMgr_state" where
  "CalibrationManager_ApplyCalibration nvm wheelPos saveToNvm w =
     (case w of (ss, cm) \<Rightarrow>
      if wheelPos < WHEEL_MAX \<and> g_CalibrationManager_Initialized cm
      then (let session = g_CalibrationSessions cm wheelPos in
            if state session = CALIBRATION_STATE_COMPLETED \<and> result session = CALIBRATION_RESULT_OK
            then (case SpeedSensor_GetCalibration ss wheelPos of
                    Some cal0 \<Rightarrow>
                      (let cal = cal0\<lparr>correctionFactor := calculatedCorrectionFactor session,
                                     offsetValue := calculatedOffset session,
                                     calibrationTimestamp := endTimestamp session,
                                     calibrationValid := True\<rparr>
                       in case SpeedSensor_SetCalibration wheelPos cal ss of (r, ss1) \<Rightarrow>
                          if r = E_OK
                          then (let (retVal, cm1) =
                                      (if saveToNvm then CalibrationManager_SaveToNvm nvm wheelPos ss1 cm
                                       else (E_OK, cm));
                                    historyEntry = \<lparr>hist_timestamp = endTimestamp session,
                                       hist_method = cal_method (request session),
                                       hist_result = result session,
                                       oldCorrectionFactor = 1,
                                       newCorrectionFactor = calculatedCorrectionFactor session,
                                       hist_accuracy = measuredAccuracy session\<rparr>
                                in (retVal, ss1, CalibrationManager_AddHistoryEntry wheelPos historyEntry cm1))
                          else (E_NOT_OK, ss1, cm))
                  | None \<Rightarrow> (E_NOT_OK, ss, cm))
            else (E_NOT_OK, ss, cm))
      else (E_NOT_OK, ss, cm))"

definition CalibrationManager_ResetToFactory ::
  "NvmService \<Rightarrow> WheelPosition_t \<Rightarrow> SpeedSensor_state \<times> CalMgr_state
     \<Rightarrow> Std_ReturnType \<times> SpeedSensor_state \<times> CalMgr_state" where
  "CalibrationManager_ResetToFactory nvm wheelPos w =
     (case w of (ss, cm) \<Rightarrow>
      if wheelPos < WHEEL_MAX \<and> g_CalibrationManager_Initialized cm
      then (let cal = zero_Calibration\<lparr>correctionFactor := 1, offsetValue := 0,
                        pulsesPerRevolution := 60, wheelCircumference := 21 / 10,
                        calibrationValid := True, calibrationTimestamp := 0\<rparr>
            in case SpeedSensor_SetCalibration wheelPos cal ss of (r, ss1) \<Rightarrow>
               if r = E_OK
               then (let (retVal, cm1) = CalibrationManager_SaveToNvm nvm wheelPos ss1 cm;
                         historyEntry = \<lparr>hist_timestamp = calibrationTimestamp cal,
                            hist_method = CALIBRATION_METHOD_FACTORY_RESET,
                            hist_result = CALIBRATION_RESULT_OK,
                            oldCorrectionFactor = 0, newCorrectionFactor = 1, hist_accuracy = 100\<rparr>
                     in (retVal, ss1, CalibrationManager_AddHistoryEntry wheelPos historyEntry cm1))
               else (E_NOT_OK, ss1, cm))
      else (E_NOT_OK, ss, cm))"

definition CalibrationManager_LoadFromNvm ::
  "NvmService \<Rightarrow> WheelPosition_t \<Rightarrow> SpeedSensor_state \<times> CalMgr_state
     \<Rightarrow> Std_ReturnType \<times> SpeedSensor_state \<times> CalMgr_state" where
  "CalibrationManager_LoadFromNvm nvm wheelPos w =
     (case w of (ss, cm) \<Rightarrow>
      if wheelPos < WHEEL_MAX \<and> g_CalibrationManager_Initialized cm
      then (let nvmBlockId = CalibrationManager_GetNvmBlockId wheelPos in
            case ReadBlock nvm nvmBlockId of (r, cal) \<Rightarrow>
              if r = NVM_REQ_OK
              then (if correctionFactor cal \<ge> minCorrectionFactor (g_CalibrationConfig cm) \<and>
                       correctionFactor cal \<le> maxCorrectionFactor (g_CalibrationConfig cm) \<and>
                       calibrationValid cal
                    then (case SpeedSensor_SetCalibration wheelPos cal ss of (r1, ss1) \<Rightarrow> (r1, ss1, cm))
                    else CalibrationManager_ResetToFactory nvm wheelPos (ss, cm))
              else CalibrationManager_ResetToFactory nvm wheelPos
                     (ss, Rte_Call_DiagnosticService_SetDTC DTC_CALIBRATION_NVM_ERROR True cm))
      else (E_NOT_OK, ss, cm))"

definition CalibrationManager_SetConfig ::
  "CalibrationConfig_t \<Rightarrow> CalMgr_state \<Rightarrow> Std_ReturnType \<times> CalMgr_state" where
  "CalibrationManager_SetConfig config cm =
     (if g_CalibrationManager_Initialized cm
      then (E_OK, cm\<lparr>g_CalibrationConfig := config\<rparr>) else (E_NOT_OK, cm))"

subsection \<open>Session processing\<close>

definition CalibrationManager_CollectSample ::
  "SpeedSensor_state \<Rightarrow> WheelPosition_t \<Rightarrow> CalMgr_state \<Rightarrow> Std_ReturnType \<times> CalMgr_state" where
  "CalibrationManager_CollectSample ss wheelPos cm =
     (let sampleData = g_SampleData cm wheelPos;
          session = g_CalibrationSessions cm wheelPos
      in case SpeedSensor_GetSpeedData ss wheelPos of
           Some sd \<Rightarrow>
             if speedValid sd \<and> sampleCount sampleData < maxCalibrationSamples (g_CalibrationConfig cm)
             then (E_OK, cm\<lparr>g_SampleData := (g_SampleData cm)(wheelPos := sampleData\<lparr>
                     speedSamples := (speedSamples sampleData)
                        (unat (sampleCount sampleData) := wheelSpeed sd),
                     referenceSamples := (referenceSamples sampleData)
                        (unat (sampleCount sampleData) := referenceSpeed (request session)),
                     sampleCount := sampleCount sampleData + 1\<rparr>)\<rparr>)
             else (E_NOT_OK, cm)
         | None \<Rightarrow> (E_NOT_OK, cm))"

definition CalibrationManager_ValidateCalculatedCalibration ::
  "WheelPosition_t \<Rightarrow> CalMgr_state \<Rightarrow> Std_ReturnType \<times> bool" where
  "CalibrationManager_ValidateCalculatedCalibration wheelPos cm =
     (let session = g_CalibrationSessions cm wheelPos;
          isValid = (if calculatedCorrectionFactor session \<ge> minCorrectionFactor (g_CalibrationConfig cm) \<and>
                        calculatedCorrectionFactor session \<le> maxCorrectionFactor (g_CalibrationConfig cm)
                     then (if measuredAccuracy session \<ge> 100 - tolerancePercentage (request session)
                           then True else False)
                     else False)
      in (E_OK, isValid))"

text \<open>The summation loop of \<open>CalibrationManager_CalculateCalibration\<close>:
  \<open>(sumSpeed, sumReference, validSamples)\<close> after the slots \<open>0 .. sampleCount - 1\<close>.\<close>

definition sum_valid_samples :: "CalibrationSampleData_t \<Rightarrow> float32 \<times> float32 \<times> uint16" where
  "sum_valid_samples sampleData =
     fold (\<lambda>i (sumSpeed, sumReference, validSamples).
             if speedSamples sampleData i > 0 \<and> referenceSamples sampleData i > 0
             then (sumSpeed + speedSamples sampleData i,
                   sumReference + referenceSamples sampleData i, validSamples + 1)
             else (sumSpeed, sumReference, validSamples))
          [0..<unat (sampleCount sampleData)] (0, 0, 0)"

definition CalibrationManager_CalculateCalibration ::
  "WheelPosition_t \<Rightarrow> CalMgr_state \<Rightarrow> Std_ReturnType \<times> CalMgr_state" where
  "CalibrationManager_CalculateCalibration wheelPos cm =
     (case sum_valid_samples (g_SampleData cm wheelPos) of (sumSpeed, sumReference, validSamples) \<Rightarrow>
        if validSamples \<ge> minCalibrationSamples (g_CalibrationConfig cm)
        then (let avgSpeed = sumSpeed / real (unat validSamples);
                  avgReference = sumReference / real (unat validSamples);
                  err = \<bar>avgSpeed - avgReference\<bar> / avgReference * 100;
                  cm1 = cm\<lparr>g_CalibrationSessions := (g_CalibrationSessions cm)(wheelPos :=
                          (g_CalibrationSessions cm wheelPos)\<lparr>
                             calculatedCorrectionFactor := avgReference / avgSpeed,
                             calculatedOffset := 0,
                             measuredAccuracy := 100 - err\<rparr>)\<rparr>
              in case CalibrationManager_ValidateCalculatedCalibration wheelPos cm1 of (r, isValid) \<Rightarrow>
                   if r = E_OK then (if isValid then (E_OK, cm1) else (E_NOT_OK, cm1))
                   else (E_NOT_OK, cm1))
        else (E_NOT_OK, cm))"

text \<open>\<open>currentTime\<close> is the constant 0 in the source ("should be actual timestamp").\<close>

definition set_session_state :: "WheelPosition_t \<Rightarrow> CalibrationState_t \<Rightarrow> CalMgr_state \<Rightarrow> CalMgr_state" where
  "set_session_state wheelPos st cm =
     cm\<lparr>g_CalibrationSessions := (g_CalibrationSessions cm)(wheelPos :=
          (g_CalibrationSessions cm wheelPos)\<lparr>state := st\<rparr>)\<rparr>"

definition CalibrationManager_ProcessCalibrationSession ::
  "SpeedSensor_state \<Rightarrow> WheelPosition_t \<Rightarrow> CalMgr_state \<Rightarrow> Std_ReturnType \<times> CalMgr_state" where
  "CalibrationManager_ProcessCalibrationSession ss wheelPos cm =
     (let currentTime = (0 :: uint32) in
      case state (g_CalibrationSessions cm wheelPos) of
        CALIBRATION_STATE_REQUESTED \<Rightarrow>
          (E_OK, set_session_state wheelPos CALIBRATION_STATE_IN_PROGRESS cm)
      | CALIBRATION_STATE_IN_PROGRESS \<Rightarrow>
          (let cm3 =
             (case CalibrationManager_CollectSample ss wheelPos cm of (r, cm1) \<Rightarrow>
                if r = E_OK
                then (let cm2 = cm1\<lparr>g_CalibrationSessions := (g_CalibrationSessions cm1)(wheelPos :=
                                  (g_CalibrationSessions cm1 wheelPos)\<lparr>samplesCollected :=
                                     sampleCount (g_SampleData cm1 wheelPos)\<rparr>)\<rparr>
                      in if samplesCollected (g_CalibrationSessions cm2 wheelPos)
                              \<ge> minCalibrationSamples (g_CalibrationConfig cm2)
                         then (if currentTime - startTimestamp (g_CalibrationSessions cm2 wheelPos)
                                    \<ge> ucast (calibrationTimeMs (request (g_CalibrationSessions cm2 wheelPos)))
                               then (case CalibrationManager_CalculateCalibration wheelPos cm2 of (rc, cmc) \<Rightarrow>
                                       if rc = E_OK
                                       then CalibrationManager_SetSessionResult wheelPos CALIBRATION_RESULT_OK
                                              (set_session_state wheelPos CALIBRATION_STATE_COMPLETED cmc)
                                       else CalibrationManager_SetSessionResult wheelPos
                                              CALIBRATION_RESULT_VALIDATION_FAILED
                                              (set_session_state wheelPos CALIBRATION_STATE_FAILED cmc))
                               else cm2)
                         else cm2)
                else cm1)
           in if currentTime - startTimestamp (g_CalibrationSessions cm3 wheelPos)
                   \<ge> ucast (calibrationTimeoutMs (g_CalibrationConfig cm3))
              then (E_OK, CalibrationManager_SetSessionResult wheelPos CALIBRATION_RESULT_NOT_OK
                            (set_session_state wheelPos CALIBRATION_STATE_FAILED cm3))
              else (E_OK, cm3))
      | CALIBRATION_STATE_IDLE \<Rightarrow> (E_OK, cm)
      | _ \<Rightarrow>
          (E_OK, cm\<lparr>g_CalibrationSessions := (g_CalibrationSessions cm)(wheelPos :=
                     (g_CalibrationSessions cm wheelPos)\<lparr>sessionActive := False,
                        endTimestamp := currentTime\<rparr>)\<rparr>))"

subsection \<open>Initialisation\<close>

text \<open>\<open>CalibrationManager_Init\<close> calls \<open>CalibrationManager_LoadFromNvm\<close> for every wheel
  before it sets the initialised flag.\<close>

definition CalibrationManager_Init_wheel :: "nat \<Rightarrow> CalMgr_state \<Rightarrow> CalMgr_state" where
  "CalibrationManager_Init_wheel wheelIdx cm =
     cm\<lparr>g_CalibrationSessions := (g_CalibrationSessions cm)(wheelIdx :=
          zero_Session\<lparr>state := CALIBRATION_STATE_IDLE, result := CALIBRATION_RESULT_OK,
             sessionActive := False\<rparr>),
        g_SampleData := (g_SampleData cm)(wheelIdx := zero_SampleData),
        g_CalibrationHistory := (g_CalibrationHistory cm)(wheelIdx := (\<lambda>_. zero_HistoryEntry)),
        g_HistoryCount := (g_HistoryCount cm)(wheelIdx := 0)\<rparr>"

definition CalibrationManager_Init ::
  "NvmService \<Rightarrow> SpeedSensor_state \<times> CalMgr_state
     \<Rightarrow> Std_ReturnType \<times> SpeedSensor_state \<times> CalMgr_state" where
  "CalibrationManager_Init nvm w =
     (case w of (ss, cm) \<Rightarrow>
      if \<not> g_CalibrationManager_Initialized cm
      then (let cm1 = CalibrationManager_InitDefaultConfig
                        (fold CalibrationManager_Init_wheel [0..<WHEEL_MAX] cm);
                (ss2, cm2) = fold (\<lambda>wheelIdx w'. snd (CalibrationManager_LoadFromNvm nvm wheelIdx w'))
                               [0..<WHEEL_MAX] (ss, cm1)
            in (E_OK, ss2, cm2\<lparr>g_CalibrationManager_Initialized := True\<rparr>))
      else (E_OK, ss, cm))"

definition CalibrationManager_DeInit :: "CalMgr_state \<Rightarrow> Std_ReturnType \<times> CalMgr_state" where
  "CalibrationManager_DeInit cm =
     (if g_CalibrationManager_Initialized cm
      then (E_OK, (fold (\<lambda>wheelIdx c. if sessionActive (g_CalibrationSessions c wheelIdx)
                                       then snd (CalibrationManager_CancelCalibration wheelIdx c) else c)
                        [0..<WHEEL_MAX] cm)\<lparr>g_CalibrationManager_Initialized := False\<rparr>)
      else (E_OK, cm))"

section \<open>Diagnostic service types (DiagnosticService.h)\<close>

definition UDS_SID_CLEAR_DIAGNOSTIC_INFORMATION :: uint8 where
  "UDS_SID_CLEAR_DIAGNOSTIC_INFORMATION = 0x14"
definition UDS_NRC_INCORRECT_MESSAGE_LENGTH :: uint8 where "UDS_NRC_INCORRECT_MESSAGE_LENGTH = 0x13"
definition UDS_NRC_REQUEST_OUT_OF_RANGE :: uint8 where "UDS_NRC_REQUEST_OUT_OF_RANGE = 0x31"

datatype DiagSession_t =
    DIAG_SESSION_DEFAULT
  | DIAG_SESSION_PROGRAMMING
  | DIAG_SESSION_EXTENDED
  | DIAG_SESSION_SAFETY_SYSTEM

text \<open>The status byte is a struct of eight one-bit fields.\<close>

record DTCStatus_t =
  testFailed :: bool
  testFailedThisOperationCycle :: bool
  pendingDTC :: bool
  confirmedDTC :: bool
  testNotCompletedSinceLastClear :: bool
  testFailedSinceLastClear :: bool
  testNotCompletedThisOperationCycle :: bool
  warningIndicatorRequested :: bool

record DTCInfo_t =
  dtcNumber :: uint32
  dtc_status :: DTCStatus_t
  dtc_severity :: uint8
  functionalUnit :: uint8
  dtc_affectedWheel :: WheelPosition_t
  dtc_occurrenceCount :: uint32
  firstFailureTimestamp :: uint32
  lastFailureTimestamp :: uint32
  dtc_malfunctionType :: ABS_MalfunctionType_t

text \<open>A message carries two buffers, given by pointer in C: maps from the offset to the
  byte.  Nothing in the handlers checks an offset against the buffer.\<close>

record UDSMessage_t =
  serviceId :: uint8
  subFunction :: uint8
  dataIdentifier :: uint16
  routineIdentifier :: uint16
  requestData :: "nat \<Rightarrow> uint8"
  requestDataLength :: uint16
  responseData :: "nat \<Rightarrow> uint8"
  responseDataLength :: uint16
  maxResponseLength :: uint16

definition DTC_SPEED_SENSOR_FL_MISCALIBRATED :: uint32 where "DTC_SPEED_SENSOR_FL_MISCALIBRATED = 0xC14100"
definition DTC_SPEED_SENSOR_FR_MISCALIBRATED :: uint32 where "DTC_SPEED_SENSOR_FR_MISCALIBRATED = 0xC14101"
definition DTC_SPEED_SENSOR_RL_MISCALIBRATED :: uint32 where "DTC_SPEED_SENSOR_RL_MISCALIBRATED = 0xC14102"
definition DTC_SPEED_SENSOR_RR_MISCALIBRATED :: uint32 where "DTC_SPEED_SENSOR_RR_MISCALIBRATED = 0xC14103"
definition DTC_SPEED_SENSOR_FL_FAILURE :: uint32 where "DTC_SPEED_SENSOR_FL_FAILURE = 0xC14200"
definition DTC_SPEED_SENSOR_FR_FAILURE :: uint32 where "DTC_SPEED_SENSOR_FR_FAILURE = 0xC14201"
definition DTC_SPEED_SENSOR_RL_FAILURE :: uint32 where "DTC_SPEED_SENSOR_RL_FAILURE = 0xC14202"
definition DTC_SPEED_SENSOR_RR_FAILURE :: uint32 where "DTC_SPEED_SENSOR_RR_FAILURE = 0xC14203"
definition DTC_ABS_SYSTEM_MALFUNCTION :: uint32 where "DTC_ABS_SYSTEM_MALFUNCTION = 0xC14300"
definition DTC_SPEED_PLAUSIBILITY_ERROR :: uint32 where "DTC_SPEED_PLAUSIBILITY_ERROR = 0xC14400"
definition DIAG_MAX_DTC_COUNT :: nat where "DIAG_MAX_DTC_COUNT = 32"

section \<open>Diagnostic service (DiagnosticService.c)\<close>

record Diag_state =
  g_DTCTable :: "nat \<Rightarrow> DTCInfo_t"
  g_ActiveDTCCount :: uint8
  g_CurrentSession :: DiagSession_t
  g_DiagnosticService_Initialized :: bool

definition zero_DTCStatus :: DTCStatus_t where
  "zero_DTCStatus = \<lparr>testFailed = False, testFailedThisOperationCycle = False, pendingDTC = False,
     confirmedDTC = False, testNotCompletedSinceLastClear = False, testFailedSinceLastClear = False,
     testNotCompletedThisOperationCycle = False, warningIndicatorRequested = False\<rparr>"

definition zero_DTCInfo :: DTCInfo_t where
  "zero_DTCInfo = \<lparr>dtcNumber = 0, dtc_status = zero_DTCStatus, dtc_severity = 0, functionalUnit = 0,
     dtc_affectedWheel = 0, dtc_occurrenceCount = 0, firstFailureTimestamp = 0,
     lastFailureTimestamp = 0, dtc_malfunctionType = ABS_MALFUNCTION_NONE\<rparr>"

definition Diag_static_init :: Diag_state where
  "Diag_static_init = \<lparr>g_DTCTable = (\<lambda>_. zero_DTCInfo), g_ActiveDTCCount = 0,
     g_CurrentSession = DIAG_SESSION_DEFAULT, g_DiagnosticService_Initialized = False\<rparr>"

definition DiagnosticService_Init :: "Diag_state \<Rightarrow> Std_ReturnType \<times> Diag_state" where
  "DiagnosticService_Init d =
     (if \<not> g_DiagnosticService_Initialized d
      then (E_OK, d\<lparr>g_DTCTable := fold (\<lambda>i t. t(i := zero_DTCInfo)) [0..<DIAG_MAX_DTC_COUNT] (g_DTCTable d),
                     g_ActiveDTCCount := 0, g_CurrentSession := DIAG_SESSION_DEFAULT,
                     g_DiagnosticService_Initialized := True\<rparr>)
      else (E_OK, d))"

text \<open>The search loop with \<open>break\<close>: the first slot, in index order, holding the number.\<close>

definition DiagnosticService_FindDTC :: "Diag_state \<Rightarrow> uint32 \<Rightarrow> nat option" where
  "DiagnosticService_FindDTC d n =
     List.find (\<lambda>i. dtcNumber (g_DTCTable d i) = n) [0..<DIAG_MAX_DTC_COUNT]"

text \<open>\<open>memset(&status, 0, ..)\<close> followed by \<open>status.testNotCompletedSinceLastClear = 1\<close>.\<close>

definition clear_status :: "DTCInfo_t \<Rightarrow> DTCInfo_t" where
  "clear_status e = e\<lparr>dtc_status := zero_DTCStatus\<lparr>testNotCompletedSinceLastClear := True\<rparr>\<rparr>"

definition DiagnosticService_ClearDTC :: "uint32 \<Rightarrow> Diag_state \<Rightarrow> Std_ReturnType \<times> Diag_state" where
  "DiagnosticService_ClearDTC n d =
     (if g_DiagnosticService_Initialized d
      then (case DiagnosticService_FindDTC d n of
              Some dtcIndex \<Rightarrow>
                (E_OK, d\<lparr>g_DTCTable := (g_DTCTable d)(dtcIndex := clear_status (g_DTCTable d dtcIndex))\<rparr>)
            | None \<Rightarrow> (E_NOT_OK, d))
      else (E_NOT_OK, d))"

definition DiagnosticService_ClearAllDTCs :: "Diag_state \<Rightarrow> Std_ReturnType \<times> Diag_state" where
  "DiagnosticService_ClearAllDTCs d =
     (if g_DiagnosticService_Initialized d
      then (E_OK, d\<lparr>g_DTCTable :=
              fold (\<lambda>i t. if dtcNumber (t i) \<noteq> 0 then t(i := clear_status (t i)) else t)
                   [0..<DIAG_MAX_DTC_COUNT] (g_DTCTable d)\<rparr>)
      else (E_NOT_OK, d))"

definition DiagnosticService_AddDTC ::
  "uint32 \<Rightarrow> WheelPosition_t \<Rightarrow> ABS_MalfunctionType_t \<Rightarrow> Diag_state \<Rightarrow> Std_ReturnType \<times> Diag_state" where
  "DiagnosticService_AddDTC n wheelPos type d =
     (case List.find (\<lambda>i. dtcNumber (g_DTCTable d i) = 0) [0..<DIAG_MAX_DTC_COUNT] of
        Some i \<Rightarrow>
          (let e = g_DTCTable d i;
               e' = e\<lparr>dtcNumber := n, dtc_affectedWheel := wheelPos, dtc_malfunctionType := type,
                      dtc_status := (dtc_status e)\<lparr>testFailed := True,
                         testFailedThisOperationCycle := True, pendingDTC := True\<rparr>,
                      dtc_occurrenceCount := 1, firstFailureTimestamp := 0, lastFailureTimestamp := 0\<rparr>;
               d1 = d\<lparr>g_DTCTable := (g_DTCTable d)(i := e')\<rparr>
           in (E_OK, if unat (g_ActiveDTCCount d1) < DIAG_MAX_DTC_COUNT
                     then d1\<lparr>g_ActiveDTCCount := g_ActiveDTCCount d1 + 1\<rparr> else d1))
      | None \<Rightarrow> (E_NOT_OK, d))"

definition DiagnosticService_UpdateDTCStatus :: "uint32 \<Rightarrow> bool \<Rightarrow> Diag_state \<Rightarrow> Std_ReturnType \<times> Diag_state" where
  "DiagnosticService_UpdateDTCStatus n active d =
     (case DiagnosticService_FindDTC d n of
        Some dtcIndex \<Rightarrow>
          (let e = g_DTCTable d dtcIndex in
           if active
           then (let e1 = e\<lparr>dtc_status := (dtc_status e)\<lparr>testFailed := True,
                               testFailedThisOperationCycle := True\<rparr>,
                             dtc_occurrenceCount := dtc_occurrenceCount e + 1,
                             lastFailureTimestamp := 0\<rparr>;
                     e2 = (if dtc_occurrenceCount e1 \<ge> 3
                           then e1\<lparr>dtc_status := (dtc_status e1)\<lparr>confirmedDTC := True\<rparr>\<rparr> else e1)
                 in (E_OK, d\<lparr>g_DTCTable := (g_DTCTable d)(dtcIndex := e2)\<rparr>))
           else (E_OK, d\<lparr>g_DTCTable := (g_DTCTable d)(dtcIndex :=
                         e\<lparr>dtc_status := (dtc_status e)\<lparr>testFailed := False\<rparr>\<rparr>)\<rparr>))
      | None \<Rightarrow> (E_NOT_OK, d))"

definition DiagnosticService_SetDTC ::
  "uint32 \<Rightarrow> bool \<Rightarrow> WheelPosition_t \<Rightarrow> Diag_state \<Rightarrow> Std_ReturnType \<times> Diag_state" where
  "DiagnosticService_SetDTC n active wheelPos d =
     (if g_DiagnosticService_Initialized d
      then (case DiagnosticService_FindDTC d n of
              Some dtcIndex \<Rightarrow> DiagnosticService_UpdateDTCStatus n active d
            | None \<Rightarrow> if active then DiagnosticService_AddDTC n wheelPos ABS_MALFUNCTION_NONE d
                      else (E_NOT_OK, d))
      else (E_NOT_OK, d))"

definition DiagnosticService_PrepareErrorResponse :: "uint8 \<Rightarrow> uint8 \<Rightarrow> UDSMessage_t \<Rightarrow> UDSMessage_t" where
  "DiagnosticService_PrepareErrorResponse sid nrc response =
     response\<lparr>responseData := (responseData response)(0 := 0x7F, 1 := sid, 2 := nrc),
              responseDataLength := 3\<rparr>"

text \<open>The 24-bit group code carried by the first three request bytes.\<close>

definition requested_group :: "UDSMessage_t \<Rightarrow> uint32" where
  "requested_group req =
     (push_bit 16 (ucast (requestData req 0) :: uint32)) OR
     (push_bit 8 (ucast (requestData req 1) :: uint32)) OR
     (ucast (requestData req 2) :: uint32)"

text \<open>The handler works on the request, the response buffer, the DTC table and, through
  \<open>ABS_ClearMalfunctionStatus\<close>, the detector's state.\<close>

definition UDS_ClearDiagnosticInformation ::
  "UDSMessage_t \<Rightarrow> UDSMessage_t \<Rightarrow> Diag_state \<times> ABS_state
     \<Rightarrow> Std_ReturnType \<times> UDSMessage_t \<times> Diag_state \<times> ABS_state" where
  "UDS_ClearDiagnosticInformation req response w =
     (case w of (d, a) \<Rightarrow>
      if requestDataLength req \<ge> 3 \<and> maxResponseLength response \<ge> 1
      then (let dtcGroupToDelete = requested_group req;
                positive = response\<lparr>responseData := (responseData response)
                               (0 := UDS_SID_CLEAR_DIAGNOSTIC_INFORMATION + 0x40),
                             responseDataLength := 1\<rparr>;
                (retVal, response1, d1, a1) =
                  (if dtcGroupToDelete = 0xFFFFFF
                   then (case DiagnosticService_ClearAllDTCs d of (r, d') \<Rightarrow>
                           if r = E_OK
                           then (let a' = snd (ABS_ClearMalfunctionStatus WHEEL_REAR_RIGHT
                                           (snd (ABS_ClearMalfunctionStatus WHEEL_REAR_LEFT
                                             (snd (ABS_ClearMalfunctionStatus WHEEL_FRONT_RIGHT
                                               (snd (ABS_ClearMalfunctionStatus WHEEL_FRONT_LEFT a)))))))
                                 in (E_OK, positive, d', a'))
                           else (E_NOT_OK, response, d', a))
                   else (case DiagnosticService_ClearDTC dtcGroupToDelete d of (r, d') \<Rightarrow>
                           if r = E_OK then (E_OK, positive, d', a)
                           else (E_NOT_OK, response, d', a)))
            in if retVal \<noteq> E_OK
               then (E_OK, DiagnosticService_PrepareErrorResponse UDS_SID_CLEAR_DIAGNOSTIC_INFORMATION
                             UDS_NRC_REQUEST_OUT_OF_RANGE response1, d1, a1)
               else (retVal, response1, d1, a1))
      else (E_OK, DiagnosticService_PrepareErrorResponse UDS_SID_CLEAR_DIAGNOSTIC_INFORMATION
                    UDS_NRC_INCORRECT_MESSAGE_LENGTH response, d, a))"

section \<open>Notions of the specification\<close>

text \<open>The median as the specification words it: the middle value of the sorted
  speeds, or the average of the two middle values when their number is even.\<close>

definition spec_median :: "real list \<Rightarrow> real" where
  "spec_median xs =
     (let s = sort xs; n = length xs
      in if even n then (s ! (n div 2 - 1) + s ! (n div 2)) / 2 else s ! (n div 2))"

text \<open>The speeds of the wheels whose sample is valid, in wheel order.\<close>

definition valid_wheel_speeds :: "ABS_VehicleData_t \<Rightarrow> real list" where
  "valid_wheel_speeds vd =
     map (\<lambda>w. wheelSpeed (wheelSpeeds vd w)) (filter (\<lambda>w. speedValid (wheelSpeeds vd w)) [0..<WHEEL_MAX])"

text \<open>The band of the calibration configuration.\<close>

definition in_configured_band :: "CalibrationConfig_t \<Rightarrow> real \<Rightarrow> bool" where
  "in_configured_band cfg f \<longleftrightarrow> minCorrectionFactor cfg \<le> f \<and> f \<le> maxCorrectionFactor cfg"

text \<open>The validation gate on a session's computed values: the correction factor within
  the configured band and the measured accuracy at least 100 minus the requested
  tolerance.\<close>

definition session_valid :: "CalMgr_state \<Rightarrow> WheelPosition_t \<Rightarrow> bool" where
  "session_valid cm w \<longleftrightarrow>
     in_configured_band (g_CalibrationConfig cm)
       (calculatedCorrectionFactor (g_CalibrationSessions cm w)) \<and>
     measuredAccuracy (g_CalibrationSessions cm w)
       \<ge> 100 - tolerancePercentage (request (g_CalibrationSessions cm w))"

text \<open>The manager's state, within one processing step of a sampling session, after the
  sample has been collected and counted; and the condition under which that step goes
  on to compute the calibration.\<close>

definition after_sample :: "SpeedSensor_state \<Rightarrow> WheelPosition_t \<Rightarrow> CalMgr_state \<Rightarrow> CalMgr_state" where
  "after_sample ss w cm =
     (let cm1 = snd (CalibrationManager_CollectSample ss w cm)
      in cm1\<lparr>g_CalibrationSessions := (g_CalibrationSessions cm1)(w :=
             (g_CalibrationSessions cm1 w)\<lparr>samplesCollected := sampleCount (g_SampleData cm1 w)\<rparr>)\<rparr>)"

definition computation_due :: "SpeedSensor_state \<Rightarrow> WheelPosition_t \<Rightarrow> CalMgr_state \<Rightarrow> bool" where
  "computation_due ss w cm \<longleftrightarrow>
     state (g_CalibrationSessions cm w) = CALIBRATION_STATE_IN_PROGRESS \<and>
     fst (CalibrationManager_CollectSample ss w cm) = E_OK \<and>
     samplesCollected (g_CalibrationSessions (after_sample ss w cm) w)
       \<ge> minCalibrationSamples (g_CalibrationConfig (after_sample ss w cm)) \<and>
     0 - startTimestamp (g_CalibrationSessions (after_sample ss w cm) w)
       \<ge> ucast (calibrationTimeMs (request (g_CalibrationSessions (after_sample ss w cm) w)))"

text \<open>The band that \<open>SpeedSensor_SetCalibration\<close> accepts, as a property of the live
  coefficients of all wheels.\<close>

definition sensor_band_invariant :: "SpeedSensor_state \<Rightarrow> bool" where
  "sensor_band_invariant ss \<longleftrightarrow>
     (\<forall>w<WHEEL_MAX. calibrationValid (calibration (g_SpeedSensorData ss w)) \<longrightarrow>
        1 / 2 < correctionFactor (calibration (g_SpeedSensorData ss w)) \<and>
        correctionFactor (calibration (g_SpeedSensorData ss w)) < 2)"

section \<open>Reachable states of the sensor and the calibration manager\<close>

text \<open>The states that calls of the two components' operations produce from the
  zero-initialised statics.  Arguments, raw samples and the persistence collaborator's
  answers are arbitrary.\<close>

inductive reachable :: "SpeedSensor_state \<times> CalMgr_state \<Rightarrow> bool" where
  r_start: "reachable (SpeedSensor_static_init, CalMgr_static_init)"
| r_sensor_init: "reachable (ss, cm) \<Longrightarrow> reachable (snd (SpeedSensor_Init ss), cm)"
| r_sensor_deinit: "reachable (ss, cm) \<Longrightarrow> reachable (snd (SpeedSensor_DeInit ss), cm)"
| r_sensor_main: "reachable (ss, cm) \<Longrightarrow> reachable (snd (SpeedSensor_MainFunction rte ss), cm)"
| r_set_calibration: "reachable (ss, cm) \<Longrightarrow> reachable (snd (SpeedSensor_SetCalibration w cal ss), cm)"
| r_manager_init: "reachable (ss, cm) \<Longrightarrow> reachable (snd (CalibrationManager_Init nvm (ss, cm)))"
| r_manager_deinit: "reachable (ss, cm) \<Longrightarrow> reachable (ss, snd (CalibrationManager_DeInit cm))"
| r_set_config: "reachable (ss, cm) \<Longrightarrow> reachable (ss, snd (CalibrationManager_SetConfig config cm))"
| r_start_calibration: "reachable (ss, cm) \<Longrightarrow> reachable (ss, snd (CalibrationManager_StartCalibration req cm))"
| r_cancel: "reachable (ss, cm) \<Longrightarrow> reachable (ss, snd (CalibrationManager_CancelCalibration w cm))"
| r_process: "reachable (ss, cm) \<Longrightarrow> reachable (ss, snd (CalibrationManager_ProcessCalibrationSession ss w cm))"
| r_apply: "reachable (ss, cm) \<Longrightarrow> reachable (snd (CalibrationManager_ApplyCalibration nvm w persist (ss, cm)))"
| r_reset: "reachable (ss, cm) \<Longrightarrow> reachable (snd (CalibrationManager_ResetToFactory nvm w (ss, cm)))"
| r_load: "reachable (ss, cm) \<Longrightarrow> reachable (snd (CalibrationManager_LoadFromNvm nvm w (ss, cm)))"

section \<open>Concrete inputs\<close>

definition sensor_after_init :: SpeedSensor_state where
  "sensor_after_init = snd (SpeedSensor_Init SpeedSensor_static_init)"

definition abs_after_init :: ABS_state where
  "abs_after_init = snd (ABS_MalfunctionDetection_Init ABS_static_init)"

text \<open>A raw sample with hardware status OK and elapsed time 0.\<close>

definition sample_zero_interval :: SpeedSensorRawData_t where
  "sample_zero_interval = \<lparr>pulseCount = 0, timeInterval = 0, status = SENSOR_STATUS_OK, dataValid = True\<rparr>"

definition speed_sample :: "real \<Rightarrow> bool \<Rightarrow> SpeedData_t" where
  "speed_sample v ok = \<lparr>wheelSpeed = v, wheelSpeedRaw = v, accelerationX = 0, speedValid = ok,
     qualityFactor = 100\<rparr>"

text \<open>Vehicle data with the front-left wheel at 60 km/h as the only valid wheel.\<close>

definition vd_single_valid_wheel :: ABS_VehicleData_t where
  "vd_single_valid_wheel =
     zero_VehicleData\<lparr>wheelSpeeds := (\<lambda>_. zero_SpeedData)(0 := speed_sample 60 True)\<rparr>"

text \<open>Vehicle data with the front-left sample invalid, front-right at 100 km/h and both
  rear wheels at 50 km/h.\<close>

definition vd_front_left_invalid :: ABS_VehicleData_t where
  "vd_front_left_invalid =
     zero_VehicleData\<lparr>wheelSpeeds := (\<lambda>_. speed_sample 50 True)
        (0 := speed_sample 0 False, 1 := speed_sample 100 True)\<rparr>"

definition abs_front_left_invalid :: ABS_state where
  "abs_front_left_invalid = snd (ABS_UpdateVehicleData vd_front_left_invalid abs_after_init)"

text \<open>The state after one call of the detector's main function.\<close>

definition ABS_detection_cycle :: "SpeedSensor_state \<Rightarrow> ABS_state \<Rightarrow> ABS_state" where
  "ABS_detection_cycle ss s = snd (ABS_MalfunctionDetection_MainFunction ss s)"

text \<open>A calibration 25 percent off, and the sensor state that holds it for the front-left
  wheel.\<close>

definition calibration_drifted :: SpeedSensorCalibration_t where
  "calibration_drifted = \<lparr>correctionFactor = 5 / 4, offsetValue = 0, pulsesPerRevolution = 60,
     wheelCircumference = 21 / 10, calibrationValid = True, calibrationTimestamp = 0\<rparr>"

definition sensor_front_left_drifted :: SpeedSensor_state where
  "sensor_front_left_drifted =
     snd (SpeedSensor_SetCalibration WHEEL_FRONT_LEFT calibration_drifted sensor_after_init)"

text \<open>All four wheels valid at 60 km/h, no acceleration, brake released.\<close>

definition vd_cruising :: ABS_VehicleData_t where
  "vd_cruising = zero_VehicleData\<lparr>wheelSpeeds := (\<lambda>_. speed_sample 60 True)\<rparr>"

definition abs_cruising :: ABS_state where
  "abs_cruising = snd (ABS_UpdateVehicleData vd_cruising abs_after_init)"

text \<open>A persistence collaborator whose reads and writes all fail.\<close>

definition nvm_failing :: NvmService where
  "nvm_failing = \<lparr>ReadBlock = (\<lambda>_. (NVM_REQ_NOT_OK, zero_Calibration)),
                  WriteBlock = (\<lambda>_ _. NVM_REQ_NOT_OK)\<rparr>"

definition calmgr_after_init :: CalMgr_state where
  "calmgr_after_init =
     snd (snd (CalibrationManager_Init nvm_failing (sensor_after_init, CalMgr_static_init)))"

text \<open>The sensor after a front-left sample of 4 pulses in 10 ms: 50.4 km/h, valid.\<close>

definition sensor_sampled :: SpeedSensor_state where
  "sensor_sampled =
     SpeedSensor_wheel_cycle
       (E_OK, \<lparr>pulseCount = 4, timeInterval = 10, status = SENSOR_STATUS_OK, dataValid = True\<rparr>)
       WHEEL_FRONT_LEFT sensor_after_init"

text \<open>A front-left calibration request with the given reference speed, tolerance
  25 percent and no sampling time.\<close>

definition request_front_left :: "real \<Rightarrow> CalibrationRequest_t" where
  "request_front_left ref = \<lparr>wheelPosition = WHEEL_FRONT_LEFT, cal_method = CALIBRATION_METHOD_MANUAL,
     referenceSpeed = ref, tolerancePercentage = 25, calibrationTimeMs = 0, forceCalibration = False\<rparr>"

text \<open>The manager configured to compute from one sample, with a session for the
  front-left wheel started and advanced to the sampling state.\<close>

definition calmgr_sampling :: "real \<Rightarrow> CalMgr_state" where
  "calmgr_sampling ref =
     snd (CalibrationManager_ProcessCalibrationSession sensor_sampled WHEEL_FRONT_LEFT
       (snd (CalibrationManager_StartCalibration (request_front_left ref)
         (snd (CalibrationManager_SetConfig
                ((g_CalibrationConfig calmgr_after_init)\<lparr>minCalibrationSamples := 1\<rparr>)
                calmgr_after_init)))))"

text \<open>The same session one processing step later.\<close>

definition calmgr_computed :: "real \<Rightarrow> CalMgr_state" where
  "calmgr_computed ref =
     snd (CalibrationManager_ProcessCalibrationSession sensor_sampled WHEEL_FRONT_LEFT
            (calmgr_sampling ref))"

definition diag_after_init :: Diag_state where
  "diag_after_init = snd (DiagnosticService_Init Diag_static_init)"

text \<open>No slot of the DTC table is allocated.\<close>

definition dtc_table_empty :: "Diag_state \<Rightarrow> bool" where
  "dtc_table_empty d = list_all (\<lambda>i. dtcNumber (g_DTCTable d i) = 0) [0..<DIAG_MAX_DTC_COUNT]"

text \<open>A clear-diagnostics request carrying the three bytes of the group code, and an
  empty response message with room for eight bytes.\<close>

definition clear_request :: "uint8 \<Rightarrow> uint8 \<Rightarrow> uint8 \<Rightarrow> UDSMessage_t" where
  "clear_request b0 b1 b2 = \<lparr>serviceId = UDS_SID_CLEAR_DIAGNOSTIC_INFORMATION, subFunction = 0,
     dataIdentifier = 0, routineIdentifier = 0, requestData = (\<lambda>_. 0)(0 := b0, 1 := b1, 2 := b2),
     requestDataLength = 3, responseData = (\<lambda>_. 0), responseDataLength = 0, maxResponseLength = 0\<rparr>"

definition response_buffer :: UDSMessage_t where
  "response_buffer = \<lparr>serviceId = 0, subFunction = 0, dataIdentifier = 0, routineIdentifier = 0,
     requestData = (\<lambda>_. 0), requestDataLength = 0, responseData = (\<lambda>_. 0),
     responseDataLength = 0, maxResponseLength = 8\<rparr>"

text \<open>One report of the front-left miscalibration code, as the monitoring step makes it
  in every cycle in which the wheel's record is confirmed.\<close>

definition report_front_left :: "Diag_state \<Rightarrow> Diag_state" where
  "report_front_left d =
     snd (DiagnosticService_SetDTC DTC_SPEED_SENSOR_FL_MISCALIBRATED True WHEEL_FRONT_LEFT d)"

text \<open>The table after three reports, and after as many reports as bring the 32-bit
  occurrence counter to its largest value.\<close>

definition diag_confirmed :: Diag_state where
  "diag_confirmed = (report_front_left ^^ 3) diag_after_init"

definition diag_saturated :: Diag_state where
  "diag_saturated = (report_front_left ^^ 4294967295) diag_after_init"

text \<open>Coefficients with correction factor 1.8, and the sensor after they were set for the
  front-left wheel.\<close>

definition calibration_wide :: SpeedSensorCalibration_t where
  "calibration_wide = \<lparr>correctionFactor = 9 / 5, offsetValue = 0, pulsesPerRevolution = 60,
     wheelCircumference = 21 / 10, calibrationValid = False, calibrationTimestamp = 0\<rparr>"

definition sensor_wide :: SpeedSensor_state where
  "sensor_wide = snd (SpeedSensor_SetCalibration WHEEL_FRONT_LEFT calibration_wide sensor_after_init)"

section \<open>Loops over the four wheels\<close>

lemma upt_WHEEL_MAX: "[0..<WHEEL_MAX] = [0, 1, 2, 3]"
  by (simp add: WHEEL_MAX_def upt_rec numeral_eq_Suc del: upt_Suc)

lemma fold_WHEEL_MAX: "fold f [0..<WHEEL_MAX] s = f 3 (f 2 (f 1 (f 0 s)))"
  by (simp add: upt_WHEEL_MAX)

lemma sensor_after_init_simps:
  "g_SpeedSensor_Initialized sensor_after_init"
  "w < WHEEL_MAX \<Longrightarrow> g_SpeedSensorData sensor_after_init w = SpeedSensor_Init_wheel w"
  "lastSpeed sensor_after_init = (\<lambda>_. 0)"
proof -
  show "g_SpeedSensor_Initialized sensor_after_init"
    by (simp add: sensor_after_init_def SpeedSensor_Init_def SpeedSensor_static_init_def)
  show "lastSpeed sensor_after_init = (\<lambda>_. 0)"
    by (simp add: sensor_after_init_def SpeedSensor_Init_def SpeedSensor_static_init_def)
  assume "w < WHEEL_MAX"
  then have "w = 0 \<or> w = 1 \<or> w = 2 \<or> w = 3"
    by (auto simp: WHEEL_MAX_def)
  then show "g_SpeedSensorData sensor_after_init w = SpeedSensor_Init_wheel w"
    by (auto simp: sensor_after_init_def SpeedSensor_Init_def SpeedSensor_static_init_def
        fold_WHEEL_MAX)
qed

section \<open>Speed processor: validity of a sample\<close>

lemma wheel_cycle_speedValid:
  assumes "fst rte = E_OK" and "w < WHEEL_MAX"
  shows "speedValid (speedData (g_SpeedSensorData (SpeedSensor_wheel_cycle rte w s) w)) \<longleftrightarrow>
           0 \<le> wheelSpeed (speedData (g_SpeedSensorData (SpeedSensor_wheel_cycle rte w s) w)) \<and>
           wheelSpeed (speedData (g_SpeedSensorData (SpeedSensor_wheel_cycle rte w s) w))
             \<le> MAX_WHEEL_SPEED_KMH \<and>
           status (snd rte) = SENSOR_STATUS_OK \<and>
           calibrationValid (calibration (g_SpeedSensorData s w))"
  using assms
  by (auto simp: SpeedSensor_wheel_cycle_def SpeedSensor_ProcessRawData_def
      SpeedSensor_UpdateDiagnostics_def SpeedSensor_ValidateSpeedData_def
      SpeedSensor_CalculateSpeed_def Let_def split: prod.splits if_splits)

lemma wheel_cycle_zero_speed:
  assumes "fst rte = E_OK" and "w < WHEEL_MAX"
    and "timeInterval (snd rte) = 0 \<or> pulsesPerRevolution (calibration (g_SpeedSensorData s w)) = 0"
  shows "wheelSpeed (speedData (g_SpeedSensorData (SpeedSensor_wheel_cycle rte w s) w)) = 0"
  using assms
  by (auto simp: SpeedSensor_wheel_cycle_def SpeedSensor_ProcessRawData_def
      SpeedSensor_UpdateDiagnostics_def SpeedSensor_ValidateSpeedData_def
      SpeedSensor_CalculateSpeed_def Let_def split: prod.splits if_splits)

text \<open>
  Claim C2, as stated, fails: after initialisation (calibration valid), a sample with
  hardware status OK and elapsed time 0 is published with the validity flag true.
\<close>

theorem C2_zero_interval_sample_is_valid:
  "timeInterval sample_zero_interval = 0 \<and>
   speedValid (speedData (g_SpeedSensorData
     (SpeedSensor_wheel_cycle (E_OK, sample_zero_interval) WHEEL_FRONT_LEFT sensor_after_init)
     WHEEL_FRONT_LEFT))"
proof -
  have w: "WHEEL_FRONT_LEFT < WHEEL_MAX"
    by (simp add: WHEEL_FRONT_LEFT_def WHEEL_MAX_def)
  have z: "wheelSpeed (speedData (g_SpeedSensorData
     (SpeedSensor_wheel_cycle (E_OK, sample_zero_interval) WHEEL_FRONT_LEFT sensor_after_init)
     WHEEL_FRONT_LEFT)) = 0"
    by (rule wheel_cycle_zero_speed) (simp_all add: w sample_zero_interval_def)
  have "calibrationValid (calibration (g_SpeedSensorData sensor_after_init WHEEL_FRONT_LEFT))"
    by (simp add: sensor_after_init_simps(2) [OF w] SpeedSensor_Init_wheel_def)
  then show ?thesis
    using wheel_cycle_speedValid [of "(E_OK, sample_zero_interval)" WHEEL_FRONT_LEFT sensor_after_init] w z
    by (simp add: sample_zero_interval_def MAX_WHEEL_SPEED_KMH_def)
qed

text \<open>
  Claim C2, amended: for every wheel and every cycle in which the raw sample was read, the
  validity flag of the published sample is false whenever the calibrated speed lies
  outside \<open>[0, MAX_WHEEL_SPEED_KMH]\<close>, the hardware status is not OK, or the calibration
  is not marked valid, and it is true otherwise.  An elapsed time of zero or zero pulses
  per revolution set the speed to 0 and, by themselves, leave the flag true.
\<close>

theorem C2_validity_amended:
  assumes "fst rte = E_OK" and "w < WHEEL_MAX"
  shows "(speedValid (speedData (g_SpeedSensorData (SpeedSensor_wheel_cycle rte w s) w)) \<longleftrightarrow>
            0 \<le> wheelSpeed (speedData (g_SpeedSensorData (SpeedSensor_wheel_cycle rte w s) w)) \<and>
            wheelSpeed (speedData (g_SpeedSensorData (SpeedSensor_wheel_cycle rte w s) w))
              \<le> MAX_WHEEL_SPEED_KMH \<and>
            status (snd rte) = SENSOR_STATUS_OK \<and>
            calibrationValid (calibration (g_SpeedSensorData s w))) \<and>
         (timeInterval (snd rte) = 0 \<or> pulsesPerRevolution (calibration (g_SpeedSensorData s w)) = 0
            \<longrightarrow> wheelSpeed (speedData (g_SpeedSensorData (SpeedSensor_wheel_cycle rte w s) w)) = 0 \<and>
                (speedValid (speedData (g_SpeedSensorData (SpeedSensor_wheel_cycle rte w s) w)) \<longleftrightarrow>
                   status (snd rte) = SENSOR_STATUS_OK \<and>
                   calibrationValid (calibration (g_SpeedSensorData s w))))"
  using wheel_cycle_speedValid [OF assms, of s] wheel_cycle_zero_speed [OF assms, of s]
  by (auto simp: MAX_WHEEL_SPEED_KMH_def)

theorem C2_validity_amended_witness:
  "fst (E_OK, sample_zero_interval) = E_OK \<and> WHEEL_FRONT_LEFT < WHEEL_MAX \<and>
   timeInterval (snd (E_OK, sample_zero_interval)) = 0 \<and>
   wheelSpeed (speedData (g_SpeedSensorData
     (SpeedSensor_wheel_cycle (E_OK, sample_zero_interval) WHEEL_FRONT_LEFT sensor_after_init)
     WHEEL_FRONT_LEFT)) = 0"
proof -
  have w: "WHEEL_FRONT_LEFT < WHEEL_MAX"
    by (simp add: WHEEL_FRONT_LEFT_def WHEEL_MAX_def)
  have r: "fst (E_OK, sample_zero_interval) = E_OK"
    by simp
  show ?thesis
    using C2_validity_amended [OF r w, of sensor_after_init] w
    by (simp add: sample_zero_interval_def)
qed

section \<open>Malfunction detector: the reference speed\<close>

lemma collect_valid_speeds_eq: "collect_valid_speeds vd = valid_wheel_speeds vd"
  by (simp add: collect_valid_speeds_def valid_wheel_speeds_def upt_WHEEL_MAX)

lemma length_valid_wheel_speeds: "length (valid_wheel_speeds vd) \<le> 4"
  by (simp add: valid_wheel_speeds_def upt_WHEEL_MAX)

text \<open>The two loops sort: checked for every array the four wheels can fill.\<close>

lemma sort_valid_speeds_2: "sort_valid_speeds [a, b] = sort [a, b]"
  by (simp add: sort_valid_speeds_def swap_if_greater_def upt_rec numeral_eq_Suc del: upt_Suc)

lemma sort_valid_speeds_3: "sort_valid_speeds [a, b, c] = sort [a, b, c]"
  by (simp add: sort_valid_speeds_def swap_if_greater_def upt_rec numeral_eq_Suc Let_def
      del: upt_Suc)

lemma sort_valid_speeds_4: "sort_valid_speeds [a, b, c, d] = sort [a, b, c, d]"
  by (simp add: sort_valid_speeds_def swap_if_greater_def upt_rec numeral_eq_Suc Let_def
      del: upt_Suc)

lemma sort_valid_speeds_le4:
  assumes "length xs \<le> 4"
  shows "sort_valid_speeds xs = sort xs"
proof -
  from assms have "length xs = 0 \<or> length xs = 1 \<or> length xs = 2 \<or> length xs = 3 \<or> length xs = 4"
    by arith
  then consider "xs = []" | a where "xs = [a]" | a b where "xs = [a, b]"
    | a b c where "xs = [a, b, c]" | a b c d where "xs = [a, b, c, d]"
    by (auto simp: numeral_eq_Suc length_Suc_conv)
  then show ?thesis
  proof cases
    case 1 then show ?thesis by (simp add: sort_valid_speeds_def)
  next
    case 2 then show ?thesis by (simp add: sort_valid_speeds_def)
  next
    case 3 then show ?thesis by (simp only: sort_valid_speeds_2)
  next
    case 4 then show ?thesis by (simp only: sort_valid_speeds_3)
  next
    case 5 then show ?thesis by (simp only: sort_valid_speeds_4)
  qed
qed

lemma median_eq:
  "ABS_CalculateMedianSpeed vd =
     (if 2 \<le> length (valid_wheel_speeds vd) then spec_median (valid_wheel_speeds vd) else 0)"
  by (simp add: ABS_CalculateMedianSpeed_def collect_valid_speeds_eq Let_def spec_median_def
      sort_valid_speeds_le4 [OF length_valid_wheel_speeds] even_iff_mod_2_eq_zero)

lemma valid_wheel_speeds_invalid_wheel:
  assumes "\<not> speedValid (wheelSpeeds vd w)"
  shows "valid_wheel_speeds
           (vd\<lparr>wheelSpeeds := (wheelSpeeds vd)(w := (wheelSpeeds vd w)\<lparr>wheelSpeed := x\<rparr>)\<rparr>)
         = valid_wheel_speeds vd"
  using assms by (auto simp: valid_wheel_speeds_def upt_WHEEL_MAX)

lemma valid_wheel_speeds_single: "valid_wheel_speeds vd_single_valid_wheel = [60]"
  by (simp add: valid_wheel_speeds_def upt_WHEEL_MAX vd_single_valid_wheel_def speed_sample_def
      zero_VehicleData_def zero_SpeedData_def)

text \<open>
  Claim C4, as stated, fails: with the front-left wheel at 60 km/h as the only valid
  wheel, the median of the valid speeds is 60, and the computed reference speed is 0.
\<close>

theorem C4_single_valid_wheel_reference_is_zero:
  "valid_wheel_speeds vd_single_valid_wheel = [60] \<and>
   spec_median (valid_wheel_speeds vd_single_valid_wheel) = 60 \<and>
   ABS_CalculateMedianSpeed vd_single_valid_wheel = 0"
  by (simp add: median_eq valid_wheel_speeds_single spec_median_def)

text \<open>
  Claim C4, amended: when at least two wheel speeds are valid, the reference speed
  computed in a detection cycle is the median of the valid wheel speeds; with four
  valid wheels it is the average of the two middle sorted values, and with exactly one
  wheel invalid it is the middle sorted value of the remaining three.  With fewer than
  two valid wheels the reference speed is 0.
\<close>

theorem C4_reference_speed_amended:
  "ABS_CalculateMedianSpeed vd =
     (if 2 \<le> length (valid_wheel_speeds vd) then spec_median (valid_wheel_speeds vd) else 0) \<and>
   (length (valid_wheel_speeds vd) = 4 \<longrightarrow>
      ABS_CalculateMedianSpeed vd =
        (sort (valid_wheel_speeds vd) ! 1 + sort (valid_wheel_speeds vd) ! 2) / 2) \<and>
   (length (valid_wheel_speeds vd) = 3 \<longrightarrow>
      ABS_CalculateMedianSpeed vd = sort (valid_wheel_speeds vd) ! 1)"
  by (simp add: median_eq spec_median_def Let_def)

lemma valid_wheel_speeds_front_left_invalid:
  "valid_wheel_speeds vd_front_left_invalid = [100, 50, 50]"
  by (simp add: valid_wheel_speeds_def upt_WHEEL_MAX vd_front_left_invalid_def speed_sample_def
      zero_VehicleData_def)

theorem C4_reference_speed_amended_witness:
  "length (valid_wheel_speeds vd_front_left_invalid) = 3 \<and>
   ABS_CalculateMedianSpeed vd_front_left_invalid = 50"
  using C4_reference_speed_amended [of vd_front_left_invalid]
  by (simp add: valid_wheel_speeds_front_left_invalid)

section \<open>Malfunction detector: an invalid wheel\<close>

lemma abs_after_init_params:
  "g_DetectionParams abs_after_init =
     \<lparr>speedDifferenceThreshold = 30, accelerationThreshold = 15, calibrationDriftThreshold = 10,
      debounceTimeMs = 100, consecutiveErrorsThreshold = 5, enableMiscalibrationDetection = True,
      enableSpeedPlausibilityCheck = True, enableAccelerationCheck = True\<rparr>"
  by (simp add: abs_after_init_def ABS_MalfunctionDetection_Init_def ABS_static_init_def
      ABS_InitDefaultParameters_def fold_WHEEL_MAX ABS_Init_wheel_def zero_DetectionParameters_def
      ABS_MAX_SPEED_DIFFERENCE_def ABS_MAX_ACCELERATION_def ABS_CALIBRATION_DRIFT_LIMIT_def
      ABS_DEBOUNCE_TIME_MS_def ABS_CONSECUTIVE_ERRORS_MAX_def)

lemma abs_after_init_simps:
  "g_ABS_Initialized abs_after_init"
  "g_DebounceCounters abs_after_init 0 = 0"
  "\<not> isActive (g_MalfunctionStatus abs_after_init 0)"
  "\<not> confirmedMalfunction (g_MalfunctionStatus abs_after_init 0)"
  by (simp_all add: abs_after_init_def ABS_MalfunctionDetection_Init_def ABS_static_init_def
      ABS_InitDefaultParameters_def fold_WHEEL_MAX ABS_Init_wheel_def zero_MalfunctionStatus_def)

lemma invalid_wheel_check:
  assumes "\<not> speedValid (wheelSpeeds (g_VehicleData s) w)"
  shows "ABS_CheckSpeedPlausibility s w = (False, 0)"
  using assms by (simp add: ABS_CheckSpeedPlausibility_def)

lemma invalid_wheel_reference:
  assumes "\<not> speedValid (wheelSpeeds vd w)"
  shows "ABS_CalculateMedianSpeed
           (vd\<lparr>wheelSpeeds := (wheelSpeeds vd)(w := (wheelSpeeds vd w)\<lparr>wheelSpeed := x\<rparr>)\<rparr>)
         = ABS_CalculateMedianSpeed vd"
  by (simp only: median_eq valid_wheel_speeds_invalid_wheel [OF assms])

lemma invalid_wheel_record:
  assumes "\<not> speedValid (wheelSpeeds (g_VehicleData s) w)"
    and "enableSpeedPlausibilityCheck (g_DetectionParams s)"
    and "\<not> (enableMiscalibrationDetection (g_DetectionParams s) \<and>
             fst (ABS_CheckCalibrationDrift ss s w 0))"
  shows "malfunctionType (g_MalfunctionStatus (ABS_ProcessWheelMalfunctionDetection ss w s) w)
           = ABS_MALFUNCTION_SPEED_DIFFERENCE_EXCESSIVE \<and>
         severity (g_MalfunctionStatus (ABS_ProcessWheelMalfunctionDetection ss w s) w)
           = ABS_SEVERITY_LOW \<and>
         deviationValue (g_MalfunctionStatus (ABS_ProcessWheelMalfunctionDetection ss w s) w) = 0 \<and>
         isActive (g_MalfunctionStatus (ABS_ProcessWheelMalfunctionDetection ss w s) w)"
  using assms
  by (auto simp: ABS_ProcessWheelMalfunctionDetection_def ABS_run_checks_def invalid_wheel_check
      ABS_UpdateMalfunctionStatus_def Let_def split: prod.splits if_splits)

lemma abs_front_left_invalid_simps:
  "g_VehicleData abs_front_left_invalid = vd_front_left_invalid"
  "g_DetectionParams abs_front_left_invalid = g_DetectionParams abs_after_init"
  by (simp_all add: abs_front_left_invalid_def ABS_UpdateVehicleData_def abs_after_init_simps)

text \<open>
  Claim C3, as stated, fails: with the front-left sample invalid, front-right at
  100 km/h and the rear wheels at 50 km/h, the invalid wheel fails the cross-wheel check
  with deviation 0, and the valid front-right wheel fails it with deviation 50.  The
  invalid wheel's deviation magnitude is the least possible, not the maximal one.
\<close>

theorem C3_invalid_wheel_deviation_is_zero:
  "\<not> speedValid (wheelSpeeds (g_VehicleData abs_front_left_invalid) WHEEL_FRONT_LEFT) \<and>
   ABS_CheckSpeedPlausibility abs_front_left_invalid WHEEL_FRONT_LEFT = (False, 0) \<and>
   ABS_CheckSpeedPlausibility abs_front_left_invalid WHEEL_FRONT_RIGHT = (False, 50) \<and>
   snd (ABS_CheckSpeedPlausibility abs_front_left_invalid WHEEL_FRONT_LEFT)
     < snd (ABS_CheckSpeedPlausibility abs_front_left_invalid WHEEL_FRONT_RIGHT)"
  by (simp add: ABS_CheckSpeedPlausibility_def abs_front_left_invalid_simps abs_after_init_params
      median_eq valid_wheel_speeds_front_left_invalid spec_median_def
      WHEEL_FRONT_LEFT_def WHEEL_FRONT_RIGHT_def)
    (simp add: vd_front_left_invalid_def speed_sample_def)

text \<open>
  Claim C3, amended: for every wheel whose SpeedSample validity flag is false, the
  detector's cross-wheel-deviation check fails in that cycle with deviation magnitude
  0.0, which grades as severity low; when that check is enabled and the calibration-drift
  check has not tripped first, the wheel's record gets kind "excessive speed difference",
  severity low and deviation 0.0.  The wheel's speed is excluded from the reference
  speed: the reference speed does not depend on it.
\<close>

theorem C3_invalid_wheel_amended:
  assumes "\<not> speedValid (wheelSpeeds (g_VehicleData s) w)"
  shows "ABS_CheckSpeedPlausibility s w = (False, 0) \<and>
         ABS_DetermineSeverity ABS_MALFUNCTION_SPEED_DIFFERENCE_EXCESSIVE
           (snd (ABS_CheckSpeedPlausibility s w)) = ABS_SEVERITY_LOW \<and>
         (enableSpeedPlausibilityCheck (g_DetectionParams s) \<and>
          \<not> (enableMiscalibrationDetection (g_DetectionParams s) \<and>
               fst (ABS_CheckCalibrationDrift ss s w 0)) \<longrightarrow>
            malfunctionType (g_MalfunctionStatus (ABS_ProcessWheelMalfunctionDetection ss w s) w)
              = ABS_MALFUNCTION_SPEED_DIFFERENCE_EXCESSIVE \<and>
            severity (g_MalfunctionStatus (ABS_ProcessWheelMalfunctionDetection ss w s) w)
              = ABS_SEVERITY_LOW \<and>
            deviationValue (g_MalfunctionStatus (ABS_ProcessWheelMalfunctionDetection ss w s) w) = 0) \<and>
         ABS_CalculateMedianSpeed
           ((g_VehicleData s)\<lparr>wheelSpeeds := (wheelSpeeds (g_VehicleData s))
              (w := (wheelSpeeds (g_VehicleData s) w)\<lparr>wheelSpeed := x\<rparr>)\<rparr>)
           = ABS_CalculateMedianSpeed (g_VehicleData s)"
  using invalid_wheel_check [OF assms] invalid_wheel_reference [OF assms]
    invalid_wheel_record [OF assms, of ss]
  by simp

theorem C3_invalid_wheel_amended_witness:
  "\<not> speedValid (wheelSpeeds (g_VehicleData abs_front_left_invalid) WHEEL_FRONT_LEFT) \<and>
   ABS_CheckSpeedPlausibility abs_front_left_invalid WHEEL_FRONT_LEFT = (False, 0) \<and>
   ABS_CalculateMedianSpeed
     ((g_VehicleData abs_front_left_invalid)\<lparr>wheelSpeeds :=
        (wheelSpeeds (g_VehicleData abs_front_left_invalid))
          (WHEEL_FRONT_LEFT := (wheelSpeeds (g_VehicleData abs_front_left_invalid) WHEEL_FRONT_LEFT)
             \<lparr>wheelSpeed := 250\<rparr>)\<rparr>) = 50"
proof -
  have i: "\<not> speedValid (wheelSpeeds (g_VehicleData abs_front_left_invalid) WHEEL_FRONT_LEFT)"
    by (simp add: abs_front_left_invalid_simps vd_front_left_invalid_def speed_sample_def
        WHEEL_FRONT_LEFT_def)
  have m: "ABS_CalculateMedianSpeed (g_VehicleData abs_front_left_invalid) = 50"
    by (simp add: abs_front_left_invalid_simps median_eq valid_wheel_speeds_front_left_invalid
        spec_median_def)
  show ?thesis
    using C3_invalid_wheel_amended [OF i, of sensor_after_init 250] i m by simp
qed

section \<open>Malfunction detector: debouncing\<close>

lemma wheel_cycle_frame:
  "g_DetectionParams (ABS_wheel_cycle ss w s) = g_DetectionParams s"
  "g_VehicleData (ABS_wheel_cycle ss w s) = g_VehicleData s"
  "g_ABS_Initialized (ABS_wheel_cycle ss w s) = g_ABS_Initialized s"
  "v \<noteq> w \<Longrightarrow> g_MalfunctionStatus (ABS_wheel_cycle ss w s) v = g_MalfunctionStatus s v"
  "v \<noteq> w \<Longrightarrow> g_DebounceCounters (ABS_wheel_cycle ss w s) v = g_DebounceCounters s v"
  by (auto simp: ABS_wheel_cycle_def ABS_ProcessDebouncing_def ABS_ProcessWheelMalfunctionDetection_def
      ABS_UpdateMalfunctionStatus_def Let_def split: prod.splits)

text \<open>The checks read the parameters, the vehicle data and the sensor's calibration only.\<close>

lemma run_checks_cong:
  assumes "g_DetectionParams s' = g_DetectionParams s" and "g_VehicleData s' = g_VehicleData s"
  shows "ABS_run_checks ss s' w = ABS_run_checks ss s w"
  unfolding ABS_run_checks_def ABS_CheckCalibrationDrift_def ABS_CheckSpeedPlausibility_def
    ABS_CheckAccelerationPlausibility_def assms ..

lemma run_checks_wheel_cycle:
  "ABS_run_checks ss (ABS_wheel_cycle ss' v s) w = ABS_run_checks ss s w"
  by (rule run_checks_cong) (simp_all add: wheel_cycle_frame)

text \<open>What one wheel's pass does to its own record and debounce counter.  The record's
  \<open>isActive\<close> is only ever set; the pass that detects nothing resets the counter, which
  the debouncing step then advances again because the record is still active.\<close>

lemma wheel_cycle_own:
  "isActive (g_MalfunctionStatus (ABS_wheel_cycle ss w s) w) \<longleftrightarrow>
     fst (ABS_run_checks ss s w) \<or> isActive (g_MalfunctionStatus s w)"
  "g_DebounceCounters (ABS_wheel_cycle ss w s) w =
     (if fst (ABS_run_checks ss s w) then g_DebounceCounters s w + ABS_DETECTION_CYCLE_MS
      else if isActive (g_MalfunctionStatus s w) then ABS_DETECTION_CYCLE_MS else 0)"
  "confirmedMalfunction (g_MalfunctionStatus (ABS_wheel_cycle ss w s) w) \<longleftrightarrow>
     (fst (ABS_run_checks ss s w) \<or> isActive (g_MalfunctionStatus s w)) \<and>
     (confirmedMalfunction (g_MalfunctionStatus s w) \<or>
      debounceTimeMs (g_DetectionParams s) \<le> g_DebounceCounters (ABS_wheel_cycle ss w s) w)"
  by (auto simp: ABS_wheel_cycle_def ABS_ProcessDebouncing_def ABS_ProcessWheelMalfunctionDetection_def
      ABS_UpdateMalfunctionStatus_def Let_def split: prod.splits)

lemma UpdateSystemState_frame:
  "g_DetectionParams (ABS_UpdateSystemState s) = g_DetectionParams s"
  "g_VehicleData (ABS_UpdateSystemState s) = g_VehicleData s"
  "g_ABS_Initialized (ABS_UpdateSystemState s) = g_ABS_Initialized s"
  "g_MalfunctionStatus (ABS_UpdateSystemState s) = g_MalfunctionStatus s"
  "g_DebounceCounters (ABS_UpdateSystemState s) = g_DebounceCounters s"
  by (simp_all add: ABS_UpdateSystemState_def Let_def split: prod.splits)

lemma detection_cycle_frame:
  "g_DetectionParams (ABS_detection_cycle ss s) = g_DetectionParams s"
  "g_VehicleData (ABS_detection_cycle ss s) = g_VehicleData s"
  "g_ABS_Initialized (ABS_detection_cycle ss s) = g_ABS_Initialized s"
  by (simp_all add: ABS_detection_cycle_def ABS_MalfunctionDetection_MainFunction_def
      fold_WHEEL_MAX wheel_cycle_frame UpdateSystemState_frame)

lemma wheel_cases:
  assumes "w < WHEEL_MAX"
  shows "w = 0 \<or> w = 1 \<or> w = 2 \<or> w = 3"
  using assms by (auto simp: WHEEL_MAX_def)

lemma detection_cycle_own:
  assumes "g_ABS_Initialized s" and "w < WHEEL_MAX"
  shows "isActive (g_MalfunctionStatus (ABS_detection_cycle ss s) w) \<longleftrightarrow>
           fst (ABS_run_checks ss s w) \<or> isActive (g_MalfunctionStatus s w)"
    and "g_DebounceCounters (ABS_detection_cycle ss s) w =
           (if fst (ABS_run_checks ss s w) then g_DebounceCounters s w + ABS_DETECTION_CYCLE_MS
            else if isActive (g_MalfunctionStatus s w) then ABS_DETECTION_CYCLE_MS else 0)"
    and "confirmedMalfunction (g_MalfunctionStatus (ABS_detection_cycle ss s) w) \<longleftrightarrow>
           (fst (ABS_run_checks ss s w) \<or> isActive (g_MalfunctionStatus s w)) \<and>
           (confirmedMalfunction (g_MalfunctionStatus s w) \<or>
            debounceTimeMs (g_DetectionParams s) \<le> g_DebounceCounters (ABS_detection_cycle ss s) w)"
  using wheel_cases [OF assms(2)] assms(1)
  by (auto simp: ABS_detection_cycle_def ABS_MalfunctionDetection_MainFunction_def
      fold_WHEEL_MAX wheel_cycle_frame wheel_cycle_own UpdateSystemState_frame
      run_checks_wheel_cycle)

text \<open>Once a record is active and confirmed, no detection cycle unconfirms it, whatever
  the cycle detects.\<close>

lemma confirmed_is_sticky:
  assumes "g_ABS_Initialized s" and "w < WHEEL_MAX"
    and "isActive (g_MalfunctionStatus s w)" and "confirmedMalfunction (g_MalfunctionStatus s w)"
  shows "isActive (g_MalfunctionStatus (ABS_detection_cycle ss s) w) \<and>
         confirmedMalfunction (g_MalfunctionStatus (ABS_detection_cycle ss s) w)"
  using assms by (simp add: detection_cycle_own)

lemma abs_cruising_simps:
  "g_ABS_Initialized abs_cruising"
  "g_DetectionParams abs_cruising = g_DetectionParams abs_after_init"
  "g_VehicleData abs_cruising = vd_cruising"
  "g_DebounceCounters abs_cruising 0 = 0"
  "\<not> isActive (g_MalfunctionStatus abs_cruising 0)"
  "\<not> confirmedMalfunction (g_MalfunctionStatus abs_cruising 0)"
  by (simp_all add: abs_cruising_def ABS_UpdateVehicleData_def abs_after_init_simps)

lemma valid_wheel_speeds_cruising: "valid_wheel_speeds vd_cruising = [60, 60, 60, 60]"
  by (simp add: valid_wheel_speeds_def upt_WHEEL_MAX vd_cruising_def speed_sample_def
      zero_VehicleData_def)

lemma drifted_calibration:
  "SpeedSensor_GetCalibration sensor_front_left_drifted 0 = Some calibration_drifted"
  by (simp add: sensor_front_left_drifted_def SpeedSensor_SetCalibration_def
      SpeedSensor_GetCalibration_def sensor_after_init_simps WHEEL_FRONT_LEFT_def WHEEL_MAX_def
      calibration_drifted_def Let_def)

lemma healthy_calibration:
  "SpeedSensor_GetCalibration sensor_after_init 0 = Some (calibration (SpeedSensor_Init_wheel 0))"
  by (simp add: SpeedSensor_GetCalibration_def sensor_after_init_simps WHEEL_MAX_def)

lemma run_checks_drifted:
  assumes "g_DetectionParams s = g_DetectionParams abs_after_init"
  shows "fst (ABS_run_checks sensor_front_left_drifted s 0)"
  by (simp add: ABS_run_checks_def assms abs_after_init_params ABS_CheckCalibrationDrift_def
      drifted_calibration calibration_drifted_def Let_def)

lemma run_checks_healthy:
  assumes "g_DetectionParams s = g_DetectionParams abs_after_init" and "g_VehicleData s = vd_cruising"
  shows "\<not> fst (ABS_run_checks sensor_after_init s 0)"
  by (simp add: ABS_run_checks_def assms abs_after_init_params ABS_CheckCalibrationDrift_def
      healthy_calibration SpeedSensor_Init_wheel_def Let_def ABS_CheckSpeedPlausibility_def
      ABS_CheckAccelerationPlausibility_def median_eq valid_wheel_speeds_cruising spec_median_def)
     (simp add: vd_cruising_def speed_sample_def)

lemma faulty_cycle:
  assumes "g_ABS_Initialized s" and "g_DetectionParams s = g_DetectionParams abs_after_init"
  shows "g_ABS_Initialized (ABS_detection_cycle sensor_front_left_drifted s)"
    and "g_DetectionParams (ABS_detection_cycle sensor_front_left_drifted s)
           = g_DetectionParams abs_after_init"
    and "g_VehicleData (ABS_detection_cycle sensor_front_left_drifted s) = g_VehicleData s"
    and "isActive (g_MalfunctionStatus (ABS_detection_cycle sensor_front_left_drifted s) 0)"
    and "g_DebounceCounters (ABS_detection_cycle sensor_front_left_drifted s) 0
           = g_DebounceCounters s 0 + 20"
    and "confirmedMalfunction (g_MalfunctionStatus (ABS_detection_cycle sensor_front_left_drifted s) 0)
           \<longleftrightarrow> confirmedMalfunction (g_MalfunctionStatus s 0) \<or> 100 \<le> g_DebounceCounters s 0 + 20"
proof -
  have w: "0 < WHEEL_MAX" by (simp add: WHEEL_MAX_def)
  note own = detection_cycle_own [OF assms(1) w, of sensor_front_left_drifted]
  show "g_ABS_Initialized (ABS_detection_cycle sensor_front_left_drifted s)"
    and "g_DetectionParams (ABS_detection_cycle sensor_front_left_drifted s)
           = g_DetectionParams abs_after_init"
    and "g_VehicleData (ABS_detection_cycle sensor_front_left_drifted s) = g_VehicleData s"
    using assms by (simp_all add: detection_cycle_frame)
  show "isActive (g_MalfunctionStatus (ABS_detection_cycle sensor_front_left_drifted s) 0)"
    using own(1) run_checks_drifted [OF assms(2)] by simp
  show c: "g_DebounceCounters (ABS_detection_cycle sensor_front_left_drifted s) 0
             = g_DebounceCounters s 0 + 20"
    using own(2) run_checks_drifted [OF assms(2)] by (simp add: ABS_DETECTION_CYCLE_MS_def)
  show "confirmedMalfunction (g_MalfunctionStatus (ABS_detection_cycle sensor_front_left_drifted s) 0)
           \<longleftrightarrow> confirmedMalfunction (g_MalfunctionStatus s 0) \<or> 100 \<le> g_DebounceCounters s 0 + 20"
    using own(3) run_checks_drifted [OF assms(2)] c by (simp add: assms(2) abs_after_init_params)
qed

text \<open>
  Claim C1, evaluated on the code: four wheels cruise at 60 km/h and the front-left
  calibration is 25 percent off for five detection cycles.  The front-left record is
  unconfirmed after four cycles and confirmed after the fifth.  In the sixth cycle the
  calibration is back to 1.0 and no check trips for the wheel; the record, which the
  claim has return to unconfirmed in that cycle, is still confirmed after it.
\<close>

theorem C1_confirmed_survives_fault_free_cycle:
  "\<not> confirmedMalfunction (g_MalfunctionStatus
      ((ABS_detection_cycle sensor_front_left_drifted ^^ 4) abs_cruising) WHEEL_FRONT_LEFT) \<and>
   confirmedMalfunction (g_MalfunctionStatus
      ((ABS_detection_cycle sensor_front_left_drifted ^^ 5) abs_cruising) WHEEL_FRONT_LEFT) \<and>
   \<not> fst (ABS_run_checks sensor_after_init
      ((ABS_detection_cycle sensor_front_left_drifted ^^ 5) abs_cruising) WHEEL_FRONT_LEFT) \<and>
   confirmedMalfunction (g_MalfunctionStatus
      (ABS_detection_cycle sensor_after_init
         ((ABS_detection_cycle sensor_front_left_drifted ^^ 5) abs_cruising)) WHEEL_FRONT_LEFT)"
proof -
  define s1 where "s1 = ABS_detection_cycle sensor_front_left_drifted abs_cruising"
  define s2 where "s2 = ABS_detection_cycle sensor_front_left_drifted s1"
  define s3 where "s3 = ABS_detection_cycle sensor_front_left_drifted s2"
  define s4 where "s4 = ABS_detection_cycle sensor_front_left_drifted s3"
  define s5 where "s5 = ABS_detection_cycle sensor_front_left_drifted s4"
  have s4: "(ABS_detection_cycle sensor_front_left_drifted ^^ 4) abs_cruising = s4"
    by (simp add: numeral_eq_Suc funpow_swap1 s1_def s2_def s3_def s4_def)
  have s5: "(ABS_detection_cycle sensor_front_left_drifted ^^ 5) abs_cruising = s5"
    by (simp add: numeral_eq_Suc funpow_swap1 s1_def s2_def s3_def s4_def s5_def)
  note f1 = faulty_cycle [OF abs_cruising_simps(1,2), folded s1_def]
  note f2 = faulty_cycle [OF f1(1,2), folded s2_def]
  note f3 = faulty_cycle [OF f2(1,2), folded s3_def]
  note f4 = faulty_cycle [OF f3(1,2), folded s4_def]
  note f5 = faulty_cycle [OF f4(1,2), folded s5_def]
  have vd: "g_VehicleData s5 = vd_cruising"
    by (simp add: f5(3) f4(3) f3(3) f2(3) f1(3) abs_cruising_simps)
  have c4: "\<not> confirmedMalfunction (g_MalfunctionStatus s4 0)"
    by (simp add: f4(6) f3(5,6) f2(5,6) f1(5,6) abs_cruising_simps)
  have c5: "confirmedMalfunction (g_MalfunctionStatus s5 0)"
    by (simp add: f5(6) f4(5) f3(5) f2(5) f1(5) abs_cruising_simps)
  have h: "\<not> fst (ABS_run_checks sensor_after_init s5 0)"
    by (rule run_checks_healthy [OF f5(2) vd])
  have w: "0 < WHEEL_MAX" by (simp add: WHEEL_MAX_def)
  have "confirmedMalfunction (g_MalfunctionStatus (ABS_detection_cycle sensor_after_init s5) 0)"
    using detection_cycle_own(3) [OF f5(1) w, of sensor_after_init] f5(4) c5 by simp
  then show ?thesis
    using c4 c5 h by (simp add: s4 s5 WHEEL_FRONT_LEFT_def)
qed

section \<open>Calibration manager: concrete states\<close>

lemma calmgr_after_init_simps:
  "g_CalibrationManager_Initialized calmgr_after_init"
  "g_CalibrationConfig calmgr_after_init =
     \<lparr>maxCalibrationSamples = 1000, minCalibrationSamples = 50, maxCorrectionFactor = 3 / 2,
      minCorrectionFactor = 1 / 2, defaultTolerance = 2, calibrationTimeoutMs = 30000,
      enableAutoCalibration = True, autoCalibrationIntervalHours = 24\<rparr>"
  "g_CalibrationSessions calmgr_after_init 0 = zero_Session"
  "g_SampleData calmgr_after_init 0 = zero_SampleData"
  by (simp_all add: calmgr_after_init_def CalibrationManager_Init_def CalMgr_static_init_def
      fold_WHEEL_MAX CalibrationManager_LoadFromNvm_def CalibrationManager_Init_wheel_def
      CalibrationManager_InitDefaultConfig_def zero_Config_def zero_Session_def
      CALIBRATION_MAX_SAMPLES_def CALIBRATION_MIN_SAMPLES_def CALIBRATION_TIMEOUT_MS_def)

lemma sensor_sampled_simps:
  "SpeedSensor_GetSpeedData sensor_sampled 0
     = Some \<lparr>wheelSpeed = 252 / 5, wheelSpeedRaw = 252 / 5, accelerationX = 5040, speedValid = True,
             qualityFactor = 30\<rparr>"
  "SpeedSensor_GetCalibration sensor_sampled 0 = Some (calibration (SpeedSensor_Init_wheel 0))"
  "g_SpeedSensor_Initialized sensor_sampled"
  by (simp_all add: sensor_sampled_def SpeedSensor_wheel_cycle_def SpeedSensor_ProcessRawData_def
      SpeedSensor_UpdateDiagnostics_def SpeedSensor_ValidateSpeedData_def
      SpeedSensor_CalculateSpeed_def Let_def sensor_after_init_simps WHEEL_FRONT_LEFT_def
      WHEEL_MAX_def SpeedSensor_GetSpeedData_def SpeedSensor_GetCalibration_def
      SpeedSensor_Init_wheel_def zero_SensorData_def zero_SpeedData_def zero_Calibration_def
      zero_RawData_def MAX_WHEEL_SPEED_KMH_def SPEED_SENSOR_SAMPLE_RATE_MS_def E_OK_def)

lemma calmgr_sampling_simps:
  "g_CalibrationManager_Initialized (calmgr_sampling ref)"
  "g_CalibrationConfig (calmgr_sampling ref) =
     \<lparr>maxCalibrationSamples = 1000, minCalibrationSamples = 1, maxCorrectionFactor = 3 / 2,
      minCorrectionFactor = 1 / 2, defaultTolerance = 2, calibrationTimeoutMs = 30000,
      enableAutoCalibration = True, autoCalibrationIntervalHours = 24\<rparr>"
  "g_CalibrationSessions (calmgr_sampling ref) 0 =
     zero_Session\<lparr>request := request_front_left ref, state := CALIBRATION_STATE_IN_PROGRESS,
        result := CALIBRATION_RESULT_IN_PROGRESS, sessionActive := True\<rparr>"
  "g_SampleData (calmgr_sampling ref) 0 = zero_SampleData"
  by (simp_all add: calmgr_sampling_def CalibrationManager_ProcessCalibrationSession_def
      CalibrationManager_StartCalibration_def CalibrationManager_SetConfig_def
      calmgr_after_init_simps request_front_left_def WHEEL_FRONT_LEFT_def WHEEL_MAX_def
      set_session_state_def zero_Session_def Let_def)

lemma collect_sampling:
  "CalibrationManager_CollectSample sensor_sampled 0 (calmgr_sampling ref) =
     (E_OK, (calmgr_sampling ref)\<lparr>g_SampleData := (g_SampleData (calmgr_sampling ref))(0 :=
        \<lparr>speedSamples = (\<lambda>_. 0)(0 := 252 / 5), referenceSamples = (\<lambda>_. 0)(0 := ref),
         sampleCount = 1, lastSampleTime = 0\<rparr>)\<rparr>)"
  by (simp add: CalibrationManager_CollectSample_def sensor_sampled_simps calmgr_sampling_simps
      zero_SampleData_def zero_Session_def request_front_left_def Let_def)

lemma after_sample_sampling:
  "g_CalibrationConfig (after_sample sensor_sampled 0 (calmgr_sampling ref))
     = g_CalibrationConfig (calmgr_sampling ref)"
  "g_SampleData (after_sample sensor_sampled 0 (calmgr_sampling ref)) 0 =
     \<lparr>speedSamples = (\<lambda>_. 0)(0 := 252 / 5), referenceSamples = (\<lambda>_. 0)(0 := ref),
      sampleCount = 1, lastSampleTime = 0\<rparr>"
  "g_CalibrationSessions (after_sample sensor_sampled 0 (calmgr_sampling ref)) 0 =
     zero_Session\<lparr>request := request_front_left ref, state := CALIBRATION_STATE_IN_PROGRESS,
        result := CALIBRATION_RESULT_IN_PROGRESS, sessionActive := True, samplesCollected := 1\<rparr>"
  by (simp_all add: after_sample_def collect_sampling calmgr_sampling_simps Let_def)

lemma computation_due_sampling: "computation_due sensor_sampled 0 (calmgr_sampling ref)"
  by (simp add: computation_due_def after_sample_sampling collect_sampling calmgr_sampling_simps
      zero_Session_def request_front_left_def)

lemma sum_one_sample:
  assumes "0 < ref"
  shows "sum_valid_samples \<lparr>speedSamples = (\<lambda>_. 0)(0 := 252 / 5),
           referenceSamples = (\<lambda>_. 0)(0 := ref), sampleCount = 1, lastSampleTime = 0\<rparr>
         = (252 / 5, ref, 1)"
  using assms by (simp add: sum_valid_samples_def)

lemma calculated_sampling:
  assumes "0 < ref"
  shows "calculatedCorrectionFactor (g_CalibrationSessions
           (snd (CalibrationManager_CalculateCalibration 0
                  (after_sample sensor_sampled 0 (calmgr_sampling ref)))) 0)
           = ref / (252 / 5)"
    and "g_CalibrationConfig
           (snd (CalibrationManager_CalculateCalibration 0
                  (after_sample sensor_sampled 0 (calmgr_sampling ref))))
           = g_CalibrationConfig (calmgr_sampling ref)"
  using assms
  by (simp_all add: CalibrationManager_CalculateCalibration_def after_sample_sampling
      sum_one_sample calmgr_sampling_simps CalibrationManager_ValidateCalculatedCalibration_def
      Let_def)

lemma not_valid_126:
  "\<not> session_valid (snd (CalibrationManager_CalculateCalibration 0
        (after_sample sensor_sampled 0 (calmgr_sampling 126)))) 0"
  by (simp add: session_valid_def calculated_sampling calmgr_sampling_simps in_configured_band_def)

lemma computed_63:
  "state (g_CalibrationSessions (calmgr_computed 63) 0) = CALIBRATION_STATE_COMPLETED"
  "result (g_CalibrationSessions (calmgr_computed 63) 0) = CALIBRATION_RESULT_OK"
  "calculatedCorrectionFactor (g_CalibrationSessions (calmgr_computed 63) 0) = 5 / 4"
  "calculatedOffset (g_CalibrationSessions (calmgr_computed 63) 0) = 0"
  "g_CalibrationManager_Initialized (calmgr_computed 63)"
  by (simp_all add: calmgr_computed_def CalibrationManager_ProcessCalibrationSession_def
      WHEEL_FRONT_LEFT_def collect_sampling calmgr_sampling_simps zero_Session_def
      request_front_left_def Let_def CalibrationManager_CalculateCalibration_def sum_one_sample
      CalibrationManager_ValidateCalculatedCalibration_def set_session_state_def
      CalibrationManager_SetSessionResult_def)

section \<open>Calibration manager: the validation gate\<close>

lemma SetSessionResult_simps:
  "state (g_CalibrationSessions (CalibrationManager_SetSessionResult w r cm) v)
     = state (g_CalibrationSessions cm v)"
  "session_valid (CalibrationManager_SetSessionResult w r cm) v = session_valid cm v"
  "startTimestamp (g_CalibrationSessions (CalibrationManager_SetSessionResult w r cm) v)
     = startTimestamp (g_CalibrationSessions cm v)"
  "g_CalibrationConfig (CalibrationManager_SetSessionResult w r cm) = g_CalibrationConfig cm"
  by (simp_all add: CalibrationManager_SetSessionResult_def Rte_Call_DiagnosticService_SetDTC_def
      session_valid_def Let_def)

lemma set_session_state_simps:
  "state (g_CalibrationSessions (set_session_state w st cm) v)
     = (if v = w then st else state (g_CalibrationSessions cm v))"
  "session_valid (set_session_state w st cm) v = session_valid cm v"
  "startTimestamp (g_CalibrationSessions (set_session_state w st cm) v)
     = startTimestamp (g_CalibrationSessions cm v)"
  "g_CalibrationConfig (set_session_state w st cm) = g_CalibrationConfig cm"
  by (simp_all add: set_session_state_def session_valid_def)

lemma Calculate_ok_valid:
  "fst (CalibrationManager_CalculateCalibration w cm) = E_OK \<Longrightarrow>
     session_valid (snd (CalibrationManager_CalculateCalibration w cm)) w"
  by (auto simp: CalibrationManager_CalculateCalibration_def
      CalibrationManager_ValidateCalculatedCalibration_def session_valid_def in_configured_band_def
      Let_def E_OK_def E_NOT_OK_def split: prod.splits if_splits)

lemma Calculate_state:
  "state (g_CalibrationSessions (snd (CalibrationManager_CalculateCalibration w cm)) v)
     = state (g_CalibrationSessions cm v)"
  by (auto simp: CalibrationManager_CalculateCalibration_def
      CalibrationManager_ValidateCalculatedCalibration_def Let_def split: prod.splits if_splits)

lemma Process_completed:
  assumes "state (g_CalibrationSessions cm w) \<noteq> CALIBRATION_STATE_COMPLETED"
    and "state (g_CalibrationSessions (snd (CalibrationManager_ProcessCalibrationSession ss w cm)) w)
           = CALIBRATION_STATE_COMPLETED"
  shows "computation_due ss w cm \<and>
         session_valid (snd (CalibrationManager_ProcessCalibrationSession ss w cm)) w"
proof (cases "state (g_CalibrationSessions cm w)")
  case CALIBRATION_STATE_IN_PROGRESS
  obtain r cm1 where c: "CalibrationManager_CollectSample ss w cm = (r, cm1)"
    by (cases "CalibrationManager_CollectSample ss w cm")
  obtain rc cmc where k: "CalibrationManager_CalculateCalibration w (after_sample ss w cm) = (rc, cmc)"
    by (cases "CalibrationManager_CalculateCalibration w (after_sample ss w cm)")
  have st: "state (g_CalibrationSessions cmc w) = state (g_CalibrationSessions (after_sample ss w cm) w)"
    using Calculate_state [of w "after_sample ss w cm" w] k by simp
  have cs: "state (g_CalibrationSessions cm1 w) = CALIBRATION_STATE_IN_PROGRESS"
    using c CALIBRATION_STATE_IN_PROGRESS
    by (auto simp: CalibrationManager_CollectSample_def Let_def split: option.splits if_splits)
  have v: "rc = E_OK \<Longrightarrow> session_valid cmc w"
    using Calculate_ok_valid [of w "after_sample ss w cm"] k by simp
  show ?thesis
    using assms(2) CALIBRATION_STATE_IN_PROGRESS c k st cs v
    by (auto simp: CalibrationManager_ProcessCalibrationSession_def computation_due_def
        after_sample_def Let_def SetSessionResult_simps set_session_state_simps
        split: if_splits)
qed (use assms in \<open>auto simp: CalibrationManager_ProcessCalibrationSession_def set_session_state_simps\<close>)

lemma Process_failed:
  assumes "computation_due ss w cm"
    and "\<not> session_valid (snd (CalibrationManager_CalculateCalibration w (after_sample ss w cm))) w"
  shows "state (g_CalibrationSessions (snd (CalibrationManager_ProcessCalibrationSession ss w cm)) w)
           = CALIBRATION_STATE_FAILED"
proof -
  obtain r cm1 where c: "CalibrationManager_CollectSample ss w cm = (r, cm1)"
    by (cases "CalibrationManager_CollectSample ss w cm")
  obtain rc cmc where k: "CalibrationManager_CalculateCalibration w (after_sample ss w cm) = (rc, cmc)"
    by (cases "CalibrationManager_CalculateCalibration w (after_sample ss w cm)")
  have v: "rc \<noteq> E_OK"
    using Calculate_ok_valid [of w "after_sample ss w cm"] k assms(2) by auto
  show ?thesis
    using assms(1) c k v
    by (auto simp: CalibrationManager_ProcessCalibrationSession_def computation_due_def
        after_sample_def Let_def SetSessionResult_simps set_session_state_simps
        split: if_splits)
qed

text \<open>
  Claim C5: a processing step moves a calibration session to completed only when it
  computed the calibration in that step and the computed correction factor lies within
  the configured band and the measured accuracy is at least 100 minus the requested
  tolerance; and whenever a step that is due to compute ends with either condition
  failing on the values at computation time, the session is failed after the step.
\<close>

theorem C5_validation_gate:
  "(state (g_CalibrationSessions cm w) \<noteq> CALIBRATION_STATE_COMPLETED \<and>
    state (g_CalibrationSessions (snd (CalibrationManager_ProcessCalibrationSession ss w cm)) w)
      = CALIBRATION_STATE_COMPLETED
    \<longrightarrow> computation_due ss w cm \<and>
        session_valid (snd (CalibrationManager_ProcessCalibrationSession ss w cm)) w) \<and>
   (computation_due ss w cm \<and>
    \<not> session_valid (snd (CalibrationManager_CalculateCalibration w (after_sample ss w cm))) w
    \<longrightarrow> state (g_CalibrationSessions (snd (CalibrationManager_ProcessCalibrationSession ss w cm)) w)
          = CALIBRATION_STATE_FAILED)"
  using Process_completed [of cm w ss] Process_failed [of ss w cm] by blast

theorem C5_validation_gate_witness:
  "state (g_CalibrationSessions (calmgr_sampling 63) 0) \<noteq> CALIBRATION_STATE_COMPLETED \<and>
   state (g_CalibrationSessions (calmgr_computed 63) 0) = CALIBRATION_STATE_COMPLETED \<and>
   session_valid (calmgr_computed 63) 0 \<and>
   computation_due sensor_sampled 0 (calmgr_sampling 126) \<and>
   \<not> session_valid (snd (CalibrationManager_CalculateCalibration 0
        (after_sample sensor_sampled 0 (calmgr_sampling 126)))) 0 \<and>
   state (g_CalibrationSessions (calmgr_computed 126) 0) = CALIBRATION_STATE_FAILED"
proof -
  have a: "state (g_CalibrationSessions (calmgr_sampling 63) 0) \<noteq> CALIBRATION_STATE_COMPLETED"
    by (simp add: calmgr_sampling_simps)
  have c63: "calmgr_computed 63
               = snd (CalibrationManager_ProcessCalibrationSession sensor_sampled 0 (calmgr_sampling 63))"
    and c126: "calmgr_computed 126
               = snd (CalibrationManager_ProcessCalibrationSession sensor_sampled 0 (calmgr_sampling 126))"
    by (simp_all add: calmgr_computed_def WHEEL_FRONT_LEFT_def)
  show ?thesis
    using C5_validation_gate [of "calmgr_sampling 63" 0 sensor_sampled]
      C5_validation_gate [of "calmgr_sampling 126" 0 sensor_sampled]
      a computed_63(1) computation_due_sampling [of 126] not_valid_126
    by (simp add: c63 [symmetric] c126 [symmetric])
qed

section \<open>Calibration manager: starting a session\<close>

text \<open>
  Claim C6: for every wheel, with the manager initialised, startCalibration on a wheel
  whose session is active returns the busy code (CALIBRATION_RESULT_IN_PROGRESS, which
  is not E_OK) and leaves the manager's state, so the session, unchanged; on a wheel
  whose session is not active it returns E_OK, puts the session in the requested state,
  marks it active, and zeroes the wheel's sample buffer and sample count.
\<close>

theorem C6_startCalibration:
  assumes "g_CalibrationManager_Initialized cm" and "wheelPosition req < WHEEL_MAX"
  shows "(sessionActive (g_CalibrationSessions cm (wheelPosition req)) \<longrightarrow>
            CalibrationManager_StartCalibration req cm
              = (CalibrationResult_value CALIBRATION_RESULT_IN_PROGRESS, cm) \<and>
            fst (CalibrationManager_StartCalibration req cm) \<noteq> E_OK) \<and>
         (\<not> sessionActive (g_CalibrationSessions cm (wheelPosition req)) \<longrightarrow>
            fst (CalibrationManager_StartCalibration req cm) = E_OK \<and>
            state (g_CalibrationSessions (snd (CalibrationManager_StartCalibration req cm))
                     (wheelPosition req)) = CALIBRATION_STATE_REQUESTED \<and>
            sessionActive (g_CalibrationSessions (snd (CalibrationManager_StartCalibration req cm))
                     (wheelPosition req)) \<and>
            sampleCount (g_SampleData (snd (CalibrationManager_StartCalibration req cm))
                     (wheelPosition req)) = 0 \<and>
            (\<forall>i. speedSamples (g_SampleData (snd (CalibrationManager_StartCalibration req cm))
                       (wheelPosition req)) i = 0 \<and>
                 referenceSamples (g_SampleData (snd (CalibrationManager_StartCalibration req cm))
                       (wheelPosition req)) i = 0))"
  using assms
  by (simp add: CalibrationManager_StartCalibration_def Let_def zero_SampleData_def E_OK_def)

theorem C6_startCalibration_witness:
  "g_CalibrationManager_Initialized calmgr_after_init \<and>
   wheelPosition (request_front_left 63) < WHEEL_MAX \<and>
   \<not> sessionActive (g_CalibrationSessions calmgr_after_init (wheelPosition (request_front_left 63))) \<and>
   fst (CalibrationManager_StartCalibration (request_front_left 63) calmgr_after_init) = E_OK \<and>
   sessionActive (g_CalibrationSessions
      (snd (CalibrationManager_StartCalibration (request_front_left 63) calmgr_after_init))
      (wheelPosition (request_front_left 63))) \<and>
   fst (CalibrationManager_StartCalibration (request_front_left 63)
      (snd (CalibrationManager_StartCalibration (request_front_left 63) calmgr_after_init))) = 6"
proof -
  let ?cm1 = "snd (CalibrationManager_StartCalibration (request_front_left 63) calmgr_after_init)"
  have i: "g_CalibrationManager_Initialized calmgr_after_init"
    by (rule calmgr_after_init_simps(1))
  have w: "wheelPosition (request_front_left 63) < WHEEL_MAX"
    by (simp add: request_front_left_def WHEEL_FRONT_LEFT_def WHEEL_MAX_def)
  have n: "\<not> sessionActive (g_CalibrationSessions calmgr_after_init (wheelPosition (request_front_left 63)))"
    by (simp add: request_front_left_def WHEEL_FRONT_LEFT_def calmgr_after_init_simps zero_Session_def)
  have i1: "g_CalibrationManager_Initialized ?cm1"
    using i w n by (simp add: CalibrationManager_StartCalibration_def Let_def)
  show ?thesis
    using C6_startCalibration [OF i w] C6_startCalibration [OF i1 w] i w n
    by simp
qed

section \<open>Calibration manager: applying a calibration\<close>

lemma SetCalibration_result:
  "SpeedSensor_SetCalibration w cal ss = (r, ss') \<Longrightarrow> r = E_OK \<Longrightarrow>
     correctionFactor (calibration (g_SpeedSensorData ss' w)) = correctionFactor cal \<and>
     offsetValue (calibration (g_SpeedSensorData ss' w)) = offsetValue cal \<and>
     w < WHEEL_MAX \<and> g_SpeedSensor_Initialized ss' \<and>
     1 / 2 < correctionFactor cal \<and> correctionFactor cal < 2"
  by (auto simp: SpeedSensor_SetCalibration_def Let_def E_OK_def E_NOT_OK_def split: if_splits)

lemma SaveToNvm_fails:
  assumes "\<And>c. WriteBlock nvm (CalibrationManager_GetNvmBlockId w) c \<noteq> NVM_REQ_OK"
  shows "fst (CalibrationManager_SaveToNvm nvm w ss cm) = E_NOT_OK"
  using assms by (simp add: CalibrationManager_SaveToNvm_def Let_def split: option.splits)

lemma Apply_ok:
  assumes "CalibrationManager_ApplyCalibration nvm w persist (ss, cm) = (r, ss', cm')" and "r = E_OK"
  shows "state (g_CalibrationSessions cm w) = CALIBRATION_STATE_COMPLETED \<and>
         result (g_CalibrationSessions cm w) = CALIBRATION_RESULT_OK \<and>
         correctionFactor (calibration (g_SpeedSensorData ss' w))
           = calculatedCorrectionFactor (g_CalibrationSessions cm w) \<and>
         offsetValue (calibration (g_SpeedSensorData ss' w))
           = calculatedOffset (g_CalibrationSessions cm w)"
  using assms
  by (auto simp: CalibrationManager_ApplyCalibration_def Let_def E_OK_def E_NOT_OK_def
      split: if_splits option.splits prod.splits dest!: SetCalibration_result [unfolded E_OK_def])

lemma Apply_persist_fails:
  assumes "w < WHEEL_MAX" and "g_CalibrationManager_Initialized cm"
    and "state (g_CalibrationSessions cm w) = CALIBRATION_STATE_COMPLETED"
    and "result (g_CalibrationSessions cm w) = CALIBRATION_RESULT_OK"
    and "SpeedSensor_GetCalibration ss w = Some cal0"
    and "fst (SpeedSensor_SetCalibration w
               (cal0\<lparr>correctionFactor := calculatedCorrectionFactor (g_CalibrationSessions cm w),
                     offsetValue := calculatedOffset (g_CalibrationSessions cm w),
                     calibrationTimestamp := endTimestamp (g_CalibrationSessions cm w),
                     calibrationValid := True\<rparr>) ss) = E_OK"
    and "\<And>c. WriteBlock nvm (CalibrationManager_GetNvmBlockId w) c \<noteq> NVM_REQ_OK"
  shows "fst (CalibrationManager_ApplyCalibration nvm w True (ss, cm)) = E_NOT_OK \<and>
         correctionFactor (calibration (g_SpeedSensorData
             (fst (snd (CalibrationManager_ApplyCalibration nvm w True (ss, cm)))) w))
           = calculatedCorrectionFactor (g_CalibrationSessions cm w) \<and>
         offsetValue (calibration (g_SpeedSensorData
             (fst (snd (CalibrationManager_ApplyCalibration nvm w True (ss, cm)))) w))
           = calculatedOffset (g_CalibrationSessions cm w)"
proof -
  let ?cal = "cal0\<lparr>correctionFactor := calculatedCorrectionFactor (g_CalibrationSessions cm w),
                     offsetValue := calculatedOffset (g_CalibrationSessions cm w),
                     calibrationTimestamp := endTimestamp (g_CalibrationSessions cm w),
                     calibrationValid := True\<rparr>"
  obtain ss1 where set: "SpeedSensor_SetCalibration w ?cal ss = (E_OK, ss1)"
    using assms(6) by (cases "SpeedSensor_SetCalibration w ?cal ss") simp
  from SetCalibration_result [OF set refl]
  have live: "correctionFactor (calibration (g_SpeedSensorData ss1 w))
                = calculatedCorrectionFactor (g_CalibrationSessions cm w)"
             "offsetValue (calibration (g_SpeedSensorData ss1 w))
                = calculatedOffset (g_CalibrationSessions cm w)"
    by simp_all
  obtain r cm1 where save: "CalibrationManager_SaveToNvm nvm w ss1 cm = (r, cm1)"
    by (cases "CalibrationManager_SaveToNvm nvm w ss1 cm")
  have r: "r = E_NOT_OK"
    using SaveToNvm_fails [of nvm w ss1 cm, OF assms(7)] save by simp
  show ?thesis
    using assms(1-5) set save r live
    by (simp add: CalibrationManager_ApplyCalibration_def Let_def)
qed

text \<open>
  Claim C7: applyCalibration returns E_OK only when the wheel's session is completed with
  an OK result, and then the live calibration coefficients of the wheel hold the
  session's computed correction factor and offset; and when the apply step went through
  (session completed and OK, the sensor accepted the coefficients), persistence is
  requested and the write of the wheel's block fails, the call returns E_NOT_OK while
  the live coefficients are the newly applied values.
\<close>

theorem C7_applyCalibration:
  "(fst (CalibrationManager_ApplyCalibration nvm w persist (ss, cm)) = E_OK \<longrightarrow>
      state (g_CalibrationSessions cm w) = CALIBRATION_STATE_COMPLETED \<and>
      result (g_CalibrationSessions cm w) = CALIBRATION_RESULT_OK \<and>
      correctionFactor (calibration (g_SpeedSensorData
          (fst (snd (CalibrationManager_ApplyCalibration nvm w persist (ss, cm)))) w))
        = calculatedCorrectionFactor (g_CalibrationSessions cm w) \<and>
      offsetValue (calibration (g_SpeedSensorData
          (fst (snd (CalibrationManager_ApplyCalibration nvm w persist (ss, cm)))) w))
        = calculatedOffset (g_CalibrationSessions cm w)) \<and>
   (w < WHEEL_MAX \<and> g_CalibrationManager_Initialized cm \<and>
    state (g_CalibrationSessions cm w) = CALIBRATION_STATE_COMPLETED \<and>
    result (g_CalibrationSessions cm w) = CALIBRATION_RESULT_OK \<and>
    SpeedSensor_GetCalibration ss w = Some cal0 \<and>
    fst (SpeedSensor_SetCalibration w
          (cal0\<lparr>correctionFactor := calculatedCorrectionFactor (g_CalibrationSessions cm w),
                offsetValue := calculatedOffset (g_CalibrationSessions cm w),
                calibrationTimestamp := endTimestamp (g_CalibrationSessions cm w),
                calibrationValid := True\<rparr>) ss) = E_OK \<and>
    (\<forall>c. WriteBlock nvm (CalibrationManager_GetNvmBlockId w) c \<noteq> NVM_REQ_OK) \<longrightarrow>
      fst (CalibrationManager_ApplyCalibration nvm w True (ss, cm)) = E_NOT_OK \<and>
      correctionFactor (calibration (g_SpeedSensorData
          (fst (snd (CalibrationManager_ApplyCalibration nvm w True (ss, cm)))) w))
        = calculatedCorrectionFactor (g_CalibrationSessions cm w) \<and>
      offsetValue (calibration (g_SpeedSensorData
          (fst (snd (CalibrationManager_ApplyCalibration nvm w True (ss, cm)))) w))
        = calculatedOffset (g_CalibrationSessions cm w))"
proof (intro conjI impI)
  assume ok: "fst (CalibrationManager_ApplyCalibration nvm w persist (ss, cm)) = E_OK"
  obtain r ss' cm' where a: "CalibrationManager_ApplyCalibration nvm w persist (ss, cm) = (r, ss', cm')"
    by (cases "CalibrationManager_ApplyCalibration nvm w persist (ss, cm)")
  with ok have r: "r = E_OK" by simp
  from Apply_ok [OF a r] a
  show "state (g_CalibrationSessions cm w) = CALIBRATION_STATE_COMPLETED"
    and "result (g_CalibrationSessions cm w) = CALIBRATION_RESULT_OK"
    and "correctionFactor (calibration (g_SpeedSensorData
          (fst (snd (CalibrationManager_ApplyCalibration nvm w persist (ss, cm)))) w))
        = calculatedCorrectionFactor (g_CalibrationSessions cm w)"
    and "offsetValue (calibration (g_SpeedSensorData
          (fst (snd (CalibrationManager_ApplyCalibration nvm w persist (ss, cm)))) w))
        = calculatedOffset (g_CalibrationSessions cm w)"
    by simp_all
next
  assume h: "w < WHEEL_MAX \<and> g_CalibrationManager_Initialized cm \<and>
    state (g_CalibrationSessions cm w) = CALIBRATION_STATE_COMPLETED \<and>
    result (g_CalibrationSessions cm w) = CALIBRATION_RESULT_OK \<and>
    SpeedSensor_GetCalibration ss w = Some cal0 \<and>
    fst (SpeedSensor_SetCalibration w
          (cal0\<lparr>correctionFactor := calculatedCorrectionFactor (g_CalibrationSessions cm w),
                offsetValue := calculatedOffset (g_CalibrationSessions cm w),
                calibrationTimestamp := endTimestamp (g_CalibrationSessions cm w),
                calibrationValid := True\<rparr>) ss) = E_OK \<and>
    (\<forall>c. WriteBlock nvm (CalibrationManager_GetNvmBlockId w) c \<noteq> NVM_REQ_OK)"
  have p: "fst (CalibrationManager_ApplyCalibration nvm w True (ss, cm)) = E_NOT_OK \<and>
         correctionFactor (calibration (g_SpeedSensorData
             (fst (snd (CalibrationManager_ApplyCalibration nvm w True (ss, cm)))) w))
           = calculatedCorrectionFactor (g_CalibrationSessions cm w) \<and>
         offsetValue (calibration (g_SpeedSensorData
             (fst (snd (CalibrationManager_ApplyCalibration nvm w True (ss, cm)))) w))
           = calculatedOffset (g_CalibrationSessions cm w)"
  proof -
    from h have h1: "w < WHEEL_MAX" and h2: "g_CalibrationManager_Initialized cm"
      and h3: "state (g_CalibrationSessions cm w) = CALIBRATION_STATE_COMPLETED"
      and h4: "result (g_CalibrationSessions cm w) = CALIBRATION_RESULT_OK"
      and h5: "SpeedSensor_GetCalibration ss w = Some cal0"
      and h6: "fst (SpeedSensor_SetCalibration w
          (cal0\<lparr>correctionFactor := calculatedCorrectionFactor (g_CalibrationSessions cm w),
                offsetValue := calculatedOffset (g_CalibrationSessions cm w),
                calibrationTimestamp := endTimestamp (g_CalibrationSessions cm w),
                calibrationValid := True\<rparr>) ss) = E_OK"
      and h7: "\<And>c. WriteBlock nvm (CalibrationManager_GetNvmBlockId w) c \<noteq> NVM_REQ_OK"
      by simp_all
    show ?thesis
      by (rule Apply_persist_fails [OF h1 h2 h3 h4 h5 h6 h7])
  qed
  from p show "fst (CalibrationManager_ApplyCalibration nvm w True (ss, cm)) = E_NOT_OK" by simp
  from p show "correctionFactor (calibration (g_SpeedSensorData
             (fst (snd (CalibrationManager_ApplyCalibration nvm w True (ss, cm)))) w))
           = calculatedCorrectionFactor (g_CalibrationSessions cm w)" by simp
  from p show "offsetValue (calibration (g_SpeedSensorData
             (fst (snd (CalibrationManager_ApplyCalibration nvm w True (ss, cm)))) w))
           = calculatedOffset (g_CalibrationSessions cm w)" by simp
qed

lemma Apply_no_persist:
  "fst (CalibrationManager_ApplyCalibration nvm_failing 0 False (sensor_sampled, calmgr_computed 63)) = E_OK"
  by (simp add: CalibrationManager_ApplyCalibration_def computed_63 sensor_sampled_simps
      SpeedSensor_SetCalibration_def WHEEL_MAX_def SpeedSensor_Init_wheel_def zero_Calibration_def
      Let_def split: prod.splits)

lemma Set_accepts:
  "fst (SpeedSensor_SetCalibration 0
          ((calibration (SpeedSensor_Init_wheel 0))\<lparr>
              correctionFactor := calculatedCorrectionFactor (g_CalibrationSessions (calmgr_computed 63) 0),
              offsetValue := calculatedOffset (g_CalibrationSessions (calmgr_computed 63) 0),
              calibrationTimestamp := endTimestamp (g_CalibrationSessions (calmgr_computed 63) 0),
              calibrationValid := True\<rparr>) sensor_sampled) = E_OK"
  by (simp add: computed_63 sensor_sampled_simps
      SpeedSensor_SetCalibration_def WHEEL_MAX_def SpeedSensor_Init_wheel_def zero_Calibration_def
      Let_def)

theorem C7_applyCalibration_witness:
  "fst (CalibrationManager_ApplyCalibration nvm_failing 0 False (sensor_sampled, calmgr_computed 63)) = E_OK \<and>
   correctionFactor (calibration (g_SpeedSensorData
      (fst (snd (CalibrationManager_ApplyCalibration nvm_failing 0 False
         (sensor_sampled, calmgr_computed 63)))) 0)) = 5 / 4 \<and>
   fst (CalibrationManager_ApplyCalibration nvm_failing 0 True (sensor_sampled, calmgr_computed 63)) = E_NOT_OK \<and>
   correctionFactor (calibration (g_SpeedSensorData
      (fst (snd (CalibrationManager_ApplyCalibration nvm_failing 0 True
         (sensor_sampled, calmgr_computed 63)))) 0)) = 5 / 4"
proof -
  have w: "(0 :: nat) < WHEEL_MAX" by (simp add: WHEEL_MAX_def)
  have n: "\<forall>c. WriteBlock nvm_failing (CalibrationManager_GetNvmBlockId 0) c \<noteq> NVM_REQ_OK"
    by (simp add: nvm_failing_def NVM_REQ_OK_def NVM_REQ_NOT_OK_def)
  show ?thesis
    using C7_applyCalibration [of nvm_failing 0 False sensor_sampled "calmgr_computed 63"
        "calibration (SpeedSensor_Init_wheel 0)"]
      C7_applyCalibration [of nvm_failing 0 True sensor_sampled "calmgr_computed 63"
        "calibration (SpeedSensor_Init_wheel 0)"]
      Apply_no_persist Set_accepts w n computed_63 sensor_sampled_simps(2)
    by simp
qed

section \<open>Diagnostic service: the DTC table\<close>

lemma FindDTC_None:
  "DiagnosticService_FindDTC d n = None \<longleftrightarrow>
     (\<forall>i<DIAG_MAX_DTC_COUNT. dtcNumber (g_DTCTable d i) \<noteq> n)"
  by (auto simp: DiagnosticService_FindDTC_def find_None_iff)

lemma FindDTC_Some:
  assumes "DiagnosticService_FindDTC d n = Some i"
  shows "i < DIAG_MAX_DTC_COUNT" and "dtcNumber (g_DTCTable d i) = n"
  using assms by (auto simp: DiagnosticService_FindDTC_def find_Some_iff)

lemma FindDTC_cong:
  assumes "\<And>i. dtcNumber (g_DTCTable d' i) = dtcNumber (g_DTCTable d i)"
  shows "DiagnosticService_FindDTC d' n = DiagnosticService_FindDTC d n"
  by (simp add: DiagnosticService_FindDTC_def assms)

lemma FindDTC_first:
  assumes "dtcNumber (g_DTCTable d 0) = n"
  shows "DiagnosticService_FindDTC d n = Some 0"
  using assms by (simp add: DiagnosticService_FindDTC_def DIAG_MAX_DTC_COUNT_def upt_rec [of 0])

lemma clear_status_simps:
  "dtcNumber (clear_status e) = dtcNumber e"
  "dtc_occurrenceCount (clear_status e) = dtc_occurrenceCount e"
  "dtc_severity (clear_status e) = dtc_severity e"
  "firstFailureTimestamp (clear_status e) = firstFailureTimestamp e"
  "lastFailureTimestamp (clear_status e) = lastFailureTimestamp e"
  "clear_status (clear_status e) = clear_status e"
  "dtc_status (clear_status e) = zero_DTCStatus\<lparr>testNotCompletedSinceLastClear := True\<rparr>"
  by (simp_all add: clear_status_def)

lemma clear_all_fold:
  "fold (\<lambda>i t. if dtcNumber (t i) \<noteq> 0 then t(i := clear_status (t i)) else t) [0..<n] t =
     (\<lambda>i. if i < n \<and> dtcNumber (t i) \<noteq> 0 then clear_status (t i) else t i)"
  by (induction n) (auto simp: fun_eq_iff clear_status_simps(1))

lemma ClearAll_table:
  assumes "g_DiagnosticService_Initialized d"
  shows "g_DTCTable (snd (DiagnosticService_ClearAllDTCs d)) =
           (\<lambda>i. if i < DIAG_MAX_DTC_COUNT \<and> dtcNumber (g_DTCTable d i) \<noteq> 0
                then clear_status (g_DTCTable d i) else g_DTCTable d i)"
  using assms by (simp add: DiagnosticService_ClearAllDTCs_def clear_all_fold)

text \<open>Clearing all DTCs a second time changes nothing.\<close>

lemma ClearAll_idem:
  "snd (DiagnosticService_ClearAllDTCs (snd (DiagnosticService_ClearAllDTCs d)))
     = snd (DiagnosticService_ClearAllDTCs d)"
proof (cases "g_DiagnosticService_Initialized d")
  case True
  then have i: "g_DiagnosticService_Initialized (snd (DiagnosticService_ClearAllDTCs d))"
    by (simp add: DiagnosticService_ClearAllDTCs_def)
  have "g_DTCTable (snd (DiagnosticService_ClearAllDTCs (snd (DiagnosticService_ClearAllDTCs d))))
          = g_DTCTable (snd (DiagnosticService_ClearAllDTCs d))"
    by (simp add: ClearAll_table [OF i] ClearAll_table [OF True] fun_eq_iff clear_status_simps)
  then show ?thesis
    using True by (simp add: DiagnosticService_ClearAllDTCs_def)
next
  case False
  then show ?thesis by (simp add: DiagnosticService_ClearAllDTCs_def)
qed

lemma ClearDTC_table:
  assumes "g_DiagnosticService_Initialized d" and "DiagnosticService_FindDTC d n = Some i"
  shows "DiagnosticService_ClearDTC n d =
           (E_OK, d\<lparr>g_DTCTable := (g_DTCTable d)(i := clear_status (g_DTCTable d i))\<rparr>)"
  using assms by (simp add: DiagnosticService_ClearDTC_def)

lemma Update_after_clear:
  assumes "DiagnosticService_FindDTC d n = Some i"
    and "dtc_status (g_DTCTable d i) = zero_DTCStatus\<lparr>testNotCompletedSinceLastClear := True\<rparr>"
  shows "confirmedDTC (dtc_status (g_DTCTable (snd (DiagnosticService_UpdateDTCStatus n True d)) i))
           \<longleftrightarrow> 3 \<le> dtc_occurrenceCount (g_DTCTable d i) + 1"
  using assms by (simp add: DiagnosticService_UpdateDTCStatus_def Let_def zero_DTCStatus_def)

lemma unat_max_word32: "unat (- 1 :: 32 word) = 4294967295"
  by (simp add: unsigned_minus_1_eq_mask mask_eq_exp_minus_1)

lemma word32_succ_ge3:
  fixes c :: "32 word"
  assumes "3 \<le> c" and "c \<noteq> - 1"
  shows "3 \<le> c + 1"
proof -
  have "c < - 1"
    using assms(2) by (simp add: word_order.not_eq_extremum)
  then have "unat c < 4294967295"
    by (simp add: word_less_nat_alt unat_max_word32)
  then have "unat (c + 1) = unat c + 1"
    by (simp add: unat_word_ariths)
  moreover have "3 \<le> unat c"
    using assms(1) by (simp add: word_le_nat_alt)
  ultimately show ?thesis
    by (simp add: word_le_nat_alt)
qed

lemma init_table_fold:
  "fold (\<lambda>i t. t(i := z)) [0..<n] t = (\<lambda>i. if i < n then z else t i)"
  by (induction n) (auto simp: fun_eq_iff)

lemma diag_after_init_simps:
  "g_DiagnosticService_Initialized diag_after_init"
  "g_DTCTable diag_after_init = (\<lambda>i. zero_DTCInfo)"
  by (simp_all add: diag_after_init_def DiagnosticService_Init_def Diag_static_init_def
      init_table_fold)

lemma report_existing:
  assumes "g_DiagnosticService_Initialized d"
    and "dtcNumber (g_DTCTable d 0) = DTC_SPEED_SENSOR_FL_MISCALIBRATED"
  shows "g_DiagnosticService_Initialized (report_front_left d)"
    and "dtcNumber (g_DTCTable (report_front_left d) 0) = DTC_SPEED_SENSOR_FL_MISCALIBRATED"
    and "dtc_occurrenceCount (g_DTCTable (report_front_left d) 0)
           = dtc_occurrenceCount (g_DTCTable d 0) + 1"
    and "confirmedDTC (dtc_status (g_DTCTable (report_front_left d) 0)) \<longleftrightarrow>
           confirmedDTC (dtc_status (g_DTCTable d 0)) \<or> 3 \<le> dtc_occurrenceCount (g_DTCTable d 0) + 1"
  using assms FindDTC_first [OF assms(2)]
  by (auto simp: report_front_left_def DiagnosticService_SetDTC_def
      DiagnosticService_UpdateDTCStatus_def Let_def)

lemma report_first:
  "g_DiagnosticService_Initialized (report_front_left diag_after_init)"
  "dtcNumber (g_DTCTable (report_front_left diag_after_init) 0) = DTC_SPEED_SENSOR_FL_MISCALIBRATED"
  "dtc_occurrenceCount (g_DTCTable (report_front_left diag_after_init) 0) = 1"
  "\<not> confirmedDTC (dtc_status (g_DTCTable (report_front_left diag_after_init) 0))"
proof -
  let ?n = DTC_SPEED_SENSOR_FL_MISCALIBRATED
  have n0: "?n \<noteq> 0" by (simp add: DTC_SPEED_SENSOR_FL_MISCALIBRATED_def)
  have f0: "DiagnosticService_FindDTC diag_after_init ?n = None"
    using n0 by (simp add: FindDTC_None diag_after_init_simps zero_DTCInfo_def)
  have e0: "List.find (\<lambda>i. dtcNumber (g_DTCTable diag_after_init i) = 0) [0..<DIAG_MAX_DTC_COUNT] = Some 0"
    using FindDTC_first [of diag_after_init 0]
    by (simp add: DiagnosticService_FindDTC_def diag_after_init_simps zero_DTCInfo_def)
  show "g_DiagnosticService_Initialized (report_front_left diag_after_init)"
    "dtcNumber (g_DTCTable (report_front_left diag_after_init) 0) = ?n"
    "dtc_occurrenceCount (g_DTCTable (report_front_left diag_after_init) 0) = 1"
    "\<not> confirmedDTC (dtc_status (g_DTCTable (report_front_left diag_after_init) 0))"
    by (simp_all add: report_front_left_def DiagnosticService_SetDTC_def diag_after_init_simps(1) f0
        DiagnosticService_AddDTC_def e0 Let_def)
      (simp add: diag_after_init_simps(2) zero_DTCInfo_def zero_DTCStatus_def)
qed

lemma report_many:
  "g_DiagnosticService_Initialized ((report_front_left ^^ Suc k) diag_after_init) \<and>
   dtcNumber (g_DTCTable ((report_front_left ^^ Suc k) diag_after_init) 0)
     = DTC_SPEED_SENSOR_FL_MISCALIBRATED \<and>
   dtc_occurrenceCount (g_DTCTable ((report_front_left ^^ Suc k) diag_after_init) 0) = of_nat (Suc k)"
proof (induction k)
  case 0
  then show ?case by (simp add: report_first)
next
  case (Suc k)
  then show ?case
    using report_existing [of "(report_front_left ^^ Suc k) diag_after_init"] by simp
qed

lemma diag_confirmed_simps:
  "g_DiagnosticService_Initialized diag_confirmed"
  "DiagnosticService_FindDTC diag_confirmed DTC_SPEED_SENSOR_FL_MISCALIBRATED = Some 0"
  "dtc_occurrenceCount (g_DTCTable diag_confirmed 0) = 3"
  "confirmedDTC (dtc_status (g_DTCTable diag_confirmed 0))"
proof -
  have three: "(3 :: nat) = Suc 2" and two: "(2 :: nat) = Suc 1"
    by simp_all
  note r3 = report_many [of 2, folded three, folded diag_confirmed_def]
  note r2 = report_many [of 1, folded two]
  have c: "diag_confirmed = report_front_left ((report_front_left ^^ 2) diag_after_init)"
    by (simp add: diag_confirmed_def numeral_eq_Suc)
  show "g_DiagnosticService_Initialized diag_confirmed"
    and "dtc_occurrenceCount (g_DTCTable diag_confirmed 0) = 3"
    using r3 by simp_all
  show "DiagnosticService_FindDTC diag_confirmed DTC_SPEED_SENSOR_FL_MISCALIBRATED = Some 0"
    using r3 by (intro FindDTC_first) simp
  show "confirmedDTC (dtc_status (g_DTCTable diag_confirmed 0))"
    using report_existing(4) [of "(report_front_left ^^ 2) diag_after_init"] r2
    by (simp add: c)
qed

lemma diag_saturated_simps:
  "g_DiagnosticService_Initialized diag_saturated"
  "DiagnosticService_FindDTC diag_saturated DTC_SPEED_SENSOR_FL_MISCALIBRATED = Some 0"
  "dtc_occurrenceCount (g_DTCTable diag_saturated 0) = 0xFFFFFFFF"
proof -
  have n: "(4294967295 :: nat) = Suc 4294967294"
    by simp
  note r = report_many [of 4294967294, folded n, folded diag_saturated_def]
  show "g_DiagnosticService_Initialized diag_saturated"
    and "dtc_occurrenceCount (g_DTCTable diag_saturated 0) = 0xFFFFFFFF"
    using r by simp_all
  show "DiagnosticService_FindDTC diag_saturated DTC_SPEED_SENSOR_FL_MISCALIBRATED = Some 0"
    using r by (intro FindDTC_first) simp
qed

section \<open>Diagnostic service: clear diagnostic information\<close>

lemma clear_records:
  assumes "g_ABS_Initialized a" and "w < WHEEL_MAX"
  shows "g_MalfunctionStatus
           (snd (ABS_ClearMalfunctionStatus WHEEL_REAR_RIGHT
             (snd (ABS_ClearMalfunctionStatus WHEEL_REAR_LEFT
               (snd (ABS_ClearMalfunctionStatus WHEEL_FRONT_RIGHT
                 (snd (ABS_ClearMalfunctionStatus WHEEL_FRONT_LEFT a)))))))) w
         = (g_MalfunctionStatus a w)\<lparr>isActive := False, confirmedMalfunction := False,
              malfunctionType := ABS_MALFUNCTION_NONE, severity := ABS_SEVERITY_NONE\<rparr>"
  using wheel_cases [OF assms(2)] assms(1)
  by (auto simp: ABS_ClearMalfunctionStatus_def WHEEL_MAX_def WHEEL_FRONT_LEFT_def
      WHEEL_FRONT_RIGHT_def WHEEL_REAR_LEFT_def WHEEL_REAR_RIGHT_def)

text \<open>The handler on a well-formed clear-all request.\<close>

lemma UDS_clear_all:
  assumes "3 \<le> requestDataLength req" and "1 \<le> maxResponseLength response"
    and "requested_group req = 0xFFFFFF" and "g_DiagnosticService_Initialized d"
  shows "UDS_ClearDiagnosticInformation req response (d, a) =
           (E_OK,
            response\<lparr>responseData := (responseData response)(0 := 0x54), responseDataLength := 1\<rparr>,
            snd (DiagnosticService_ClearAllDTCs d),
            snd (ABS_ClearMalfunctionStatus WHEEL_REAR_RIGHT
             (snd (ABS_ClearMalfunctionStatus WHEEL_REAR_LEFT
               (snd (ABS_ClearMalfunctionStatus WHEEL_FRONT_RIGHT
                 (snd (ABS_ClearMalfunctionStatus WHEEL_FRONT_LEFT a))))))))"
  using assms
  by (simp add: UDS_ClearDiagnosticInformation_def requested_group_def Let_def
      DiagnosticService_ClearAllDTCs_def UDS_SID_CLEAR_DIAGNOSTIC_INFORMATION_def E_OK_def)

text \<open>A second clear-all request leaves the service in the state the first one produced.\<close>

lemma UDS_clear_all_twice:
  assumes "3 \<le> requestDataLength req" and "1 \<le> maxResponseLength r1" and "1 \<le> maxResponseLength r2"
    and "requested_group req = 0xFFFFFF" and "g_DiagnosticService_Initialized d"
  shows "fst (snd (snd (UDS_ClearDiagnosticInformation req r2
            (snd (snd (UDS_ClearDiagnosticInformation req r1 (d, a)))))))
         = fst (snd (snd (UDS_ClearDiagnosticInformation req r1 (d, a))))"
proof -
  have i: "g_DiagnosticService_Initialized (snd (DiagnosticService_ClearAllDTCs d))"
    using assms(5) by (simp add: DiagnosticService_ClearAllDTCs_def)
  show ?thesis
    by (simp add: UDS_clear_all [OF assms(1,2,4,5)] UDS_clear_all [OF assms(1,3,4) i] ClearAll_idem)
qed

text \<open>A code other than 0xFFFFFF that no slot of the table holds is rejected with
  request-out-of-range, and nothing changes.\<close>

lemma UDS_clear_unmatched:
  assumes "3 \<le> requestDataLength req" and "1 \<le> maxResponseLength response"
    and "requested_group req \<noteq> 0xFFFFFF"
    and "DiagnosticService_FindDTC d (requested_group req) = None"
  shows "UDS_ClearDiagnosticInformation req response (d, a) =
           (E_OK,
            response\<lparr>responseData := (responseData response)(0 := 0x7F, 1 := 0x14, 2 := 0x31),
                     responseDataLength := 3\<rparr>, d, a)"
  using assms
  by (simp add: UDS_ClearDiagnosticInformation_def requested_group_def Let_def
      DiagnosticService_ClearDTC_def DiagnosticService_PrepareErrorResponse_def
      UDS_SID_CLEAR_DIAGNOSTIC_INFORMATION_def UDS_NRC_REQUEST_OUT_OF_RANGE_def E_OK_def E_NOT_OK_def)


text \<open>
  Claim C8, evaluated on the code: on the freshly initialised service, whose DTC table
  has no allocated entry, a clear request with group code 0x000000 matches no existing
  DTC entry, and the handler answers it with the positive response 0x54 of length 1,
  not with a negative response.
\<close>

theorem C8_clear_of_code_zero_is_accepted:
  "dtc_table_empty diag_after_init \<and>
   fst (UDS_ClearDiagnosticInformation (clear_request 0 0 0) response_buffer
          (diag_after_init, abs_after_init)) = E_OK \<and>
   responseData (fst (snd (UDS_ClearDiagnosticInformation (clear_request 0 0 0) response_buffer
          (diag_after_init, abs_after_init)))) 0 = 0x54 \<and>
   responseDataLength (fst (snd (UDS_ClearDiagnosticInformation (clear_request 0 0 0) response_buffer
          (diag_after_init, abs_after_init)))) = 1"
proof -
  have f: "DiagnosticService_FindDTC diag_after_init 0 = Some 0"
    by (rule FindDTC_first) (simp add: diag_after_init_simps zero_DTCInfo_def)
  have c: "DiagnosticService_ClearDTC 0 diag_after_init =
             (E_OK, diag_after_init\<lparr>g_DTCTable := (g_DTCTable diag_after_init)
                (0 := clear_status (g_DTCTable diag_after_init 0))\<rparr>)"
    by (rule ClearDTC_table [OF diag_after_init_simps(1) f])
  show ?thesis
    by (simp add: dtc_table_empty_def list_all_iff diag_after_init_simps(2) zero_DTCInfo_def
        UDS_ClearDiagnosticInformation_def requested_group_def clear_request_def response_buffer_def c Let_def
        UDS_SID_CLEAR_DIAGNOSTIC_INFORMATION_def E_OK_def)
qed

section \<open>Diagnostic service: what a clear leaves in an entry\<close>

text \<open>
  Claim C10, as stated, fails: an entry whose occurrence count is 0xFFFFFFFF has reached
  the confirmation threshold; after a clear, the next re-observation wraps the 32-bit
  counter to 0 and the entry does not regain the confirmedDTC bit.
\<close>

theorem C10_saturated_counter_not_reconfirmed:
  "3 \<le> dtc_occurrenceCount (g_DTCTable diag_saturated 0) \<and>
   DiagnosticService_FindDTC diag_saturated DTC_SPEED_SENSOR_FL_MISCALIBRATED = Some 0 \<and>
   \<not> confirmedDTC (dtc_status (g_DTCTable
        (snd (DiagnosticService_UpdateDTCStatus DTC_SPEED_SENSOR_FL_MISCALIBRATED True
           (snd (DiagnosticService_ClearDTC DTC_SPEED_SENSOR_FL_MISCALIBRATED diag_saturated)))) 0))"
proof -
  let ?n = DTC_SPEED_SENSOR_FL_MISCALIBRATED
  note f = diag_saturated_simps(2)
  note c = ClearDTC_table [OF diag_saturated_simps(1) f]
  have t: "g_DTCTable (snd (DiagnosticService_ClearDTC ?n diag_saturated)) 0
             = clear_status (g_DTCTable diag_saturated 0)"
    by (simp add: c)
  have f': "DiagnosticService_FindDTC (snd (DiagnosticService_ClearDTC ?n diag_saturated)) ?n = Some 0"
    using FindDTC_Some(2) [OF f] by (intro FindDTC_first) (simp add: t clear_status_simps(1))
  have st: "dtc_status (g_DTCTable (snd (DiagnosticService_ClearDTC ?n diag_saturated)) 0)
              = zero_DTCStatus\<lparr>testNotCompletedSinceLastClear := True\<rparr>"
    by (simp add: t clear_status_simps(7))
  have oc: "dtc_occurrenceCount (g_DTCTable (snd (DiagnosticService_ClearDTC ?n diag_saturated)) 0) = - 1"
    by (simp add: t clear_status_simps(2) diag_saturated_simps(3))
  have ge: "(3 :: uint32) \<le> dtc_occurrenceCount (g_DTCTable diag_saturated 0)"
    by (simp add: diag_saturated_simps(3))
  show ?thesis
    using f ge Update_after_clear [OF f' st] by (simp add: oc)
qed


text \<open>
  Claim C10, amended: clearing a DTC (single clear or clear-all) resets only the entry's
  status bits, leaving just testNotCompletedSinceLastClear set; the entry's dtcNumber,
  occurrenceCount, severity and first/last failure timestamps are unchanged, so an entry
  whose occurrence count had already reached the confirmation threshold and is below
  the largest 32-bit value regains the confirmedDTC bit on the very next re-observation
  after a clear.
\<close>

theorem C10_clear_keeps_entry_amended:
  assumes "g_DiagnosticService_Initialized d"
  shows "(DiagnosticService_FindDTC d n = Some i \<longrightarrow>
            g_DTCTable (snd (DiagnosticService_ClearDTC n d)) =
              (g_DTCTable d)(i := (g_DTCTable d i)
                 \<lparr>dtc_status := zero_DTCStatus\<lparr>testNotCompletedSinceLastClear := True\<rparr>\<rparr>)) \<and>
         (\<forall>j. g_DTCTable (snd (DiagnosticService_ClearAllDTCs d)) j =
               (if j < DIAG_MAX_DTC_COUNT \<and> dtcNumber (g_DTCTable d j) \<noteq> 0
                then (g_DTCTable d j)
                       \<lparr>dtc_status := zero_DTCStatus\<lparr>testNotCompletedSinceLastClear := True\<rparr>\<rparr>
                else g_DTCTable d j)) \<and>
         (DiagnosticService_FindDTC d n = Some i \<and>
          3 \<le> dtc_occurrenceCount (g_DTCTable d i) \<and>
          dtc_occurrenceCount (g_DTCTable d i) \<noteq> 0xFFFFFFFF \<longrightarrow>
            confirmedDTC (dtc_status (g_DTCTable
              (snd (DiagnosticService_UpdateDTCStatus n True
                 (snd (DiagnosticService_ClearDTC n d)))) i)) \<and>
            (n \<noteq> 0 \<longrightarrow>
               confirmedDTC (dtc_status (g_DTCTable
                 (snd (DiagnosticService_UpdateDTCStatus n True
                    (snd (DiagnosticService_ClearAllDTCs d)))) i))))"
proof (intro conjI impI allI)
  assume f: "DiagnosticService_FindDTC d n = Some i"
  show "g_DTCTable (snd (DiagnosticService_ClearDTC n d)) =
          (g_DTCTable d)(i := (g_DTCTable d i)
             \<lparr>dtc_status := zero_DTCStatus\<lparr>testNotCompletedSinceLastClear := True\<rparr>\<rparr>)"
    by (simp add: ClearDTC_table [OF assms f] clear_status_def)
next
  fix j
  show "g_DTCTable (snd (DiagnosticService_ClearAllDTCs d)) j =
          (if j < DIAG_MAX_DTC_COUNT \<and> dtcNumber (g_DTCTable d j) \<noteq> 0
           then (g_DTCTable d j)
                  \<lparr>dtc_status := zero_DTCStatus\<lparr>testNotCompletedSinceLastClear := True\<rparr>\<rparr>
           else g_DTCTable d j)"
    by (simp add: ClearAll_table [OF assms] clear_status_def)
next
  assume h: "DiagnosticService_FindDTC d n = Some i \<and>
          3 \<le> dtc_occurrenceCount (g_DTCTable d i) \<and>
          dtc_occurrenceCount (g_DTCTable d i) \<noteq> 0xFFFFFFFF"
  then have f: "DiagnosticService_FindDTC d n = Some i"
    by simp
  have "(0xFFFFFFFF :: uint32) = - 1"
    by simp
  with h have ge: "3 \<le> dtc_occurrenceCount (g_DTCTable d i) + 1"
    by (intro word32_succ_ge3) simp_all
  let ?d1 = "snd (DiagnosticService_ClearDTC n d)"
  have t1: "g_DTCTable ?d1 = (g_DTCTable d)(i := clear_status (g_DTCTable d i))"
    by (simp add: ClearDTC_table [OF assms f])
  have f1: "DiagnosticService_FindDTC ?d1 n = Some i"
    using f by (simp add: FindDTC_cong [of ?d1 d] t1 clear_status_simps(1))
  have s1: "dtc_status (g_DTCTable ?d1 i) = zero_DTCStatus\<lparr>testNotCompletedSinceLastClear := True\<rparr>"
    by (simp add: t1 clear_status_simps(7))
  show "confirmedDTC (dtc_status (g_DTCTable
          (snd (DiagnosticService_UpdateDTCStatus n True ?d1)) i))"
    using Update_after_clear [OF f1 s1] ge by (simp add: t1 clear_status_simps(2))
  {
    assume n0: "n \<noteq> 0"
    let ?d2 = "snd (DiagnosticService_ClearAllDTCs d)"
    note t2 = ClearAll_table [OF assms]
    have f2: "DiagnosticService_FindDTC ?d2 n = Some i"
      using f by (simp add: FindDTC_cong [of ?d2 d] t2 clear_status_simps(1))
    have s2: "dtc_status (g_DTCTable ?d2 i) = zero_DTCStatus\<lparr>testNotCompletedSinceLastClear := True\<rparr>"
      using FindDTC_Some [OF f] n0 by (simp add: t2 clear_status_simps(7))
    have o2: "dtc_occurrenceCount (g_DTCTable ?d2 i) = dtc_occurrenceCount (g_DTCTable d i)"
      by (simp add: t2 clear_status_simps(2))
    show "confirmedDTC (dtc_status (g_DTCTable
            (snd (DiagnosticService_UpdateDTCStatus n True ?d2)) i))"
      using Update_after_clear [OF f2 s2] ge by (simp add: o2)
  }
qed

theorem C10_clear_keeps_entry_amended_witness:
  "g_DiagnosticService_Initialized diag_confirmed \<and>
   DiagnosticService_FindDTC diag_confirmed DTC_SPEED_SENSOR_FL_MISCALIBRATED = Some 0 \<and>
   3 \<le> dtc_occurrenceCount (g_DTCTable diag_confirmed 0) \<and>
   dtc_occurrenceCount (g_DTCTable diag_confirmed 0) \<noteq> 0xFFFFFFFF \<and>
   confirmedDTC (dtc_status (g_DTCTable
     (snd (DiagnosticService_UpdateDTCStatus DTC_SPEED_SENSOR_FL_MISCALIBRATED True
        (snd (DiagnosticService_ClearDTC DTC_SPEED_SENSOR_FL_MISCALIBRATED diag_confirmed)))) 0))"
  using C10_clear_keeps_entry_amended [OF diag_confirmed_simps(1), of DTC_SPEED_SENSOR_FL_MISCALIBRATED 0]
    diag_confirmed_simps
  by simp


section \<open>Calibration coefficients: the band of stored correction factors\<close>

lemma inv_static: "sensor_band_invariant SpeedSensor_static_init"
  by (simp add: sensor_band_invariant_def SpeedSensor_static_init_def zero_SensorData_def
      zero_Calibration_def)

lemma inv_Init:
  assumes "sensor_band_invariant ss"
  shows "sensor_band_invariant (snd (SpeedSensor_Init ss))"
proof -
  have "g_SpeedSensorData (snd (SpeedSensor_Init ss)) w =
          (if g_SpeedSensor_Initialized ss then g_SpeedSensorData ss w else SpeedSensor_Init_wheel w)"
    if "w < WHEEL_MAX" for w
    using wheel_cases [OF that] by (auto simp: SpeedSensor_Init_def fold_WHEEL_MAX)
  then show ?thesis
    using assms by (simp add: sensor_band_invariant_def SpeedSensor_Init_wheel_def)
qed

lemma inv_DeInit:
  assumes "sensor_band_invariant ss"
  shows "sensor_band_invariant (snd (SpeedSensor_DeInit ss))"
  using assms by (simp add: sensor_band_invariant_def SpeedSensor_DeInit_def)

lemma wheel_cycle_calibration:
  "calibration (g_SpeedSensorData (SpeedSensor_wheel_cycle rte w s) v) = calibration (g_SpeedSensorData s v)"
  by (simp add: SpeedSensor_wheel_cycle_def SpeedSensor_ProcessRawData_def
      SpeedSensor_UpdateDiagnostics_def SpeedSensor_ValidateSpeedData_def
      SpeedSensor_CalculateSpeed_def Let_def split: prod.splits)

lemma inv_Main:
  assumes "sensor_band_invariant ss"
  shows "sensor_band_invariant (snd (SpeedSensor_MainFunction rte ss))"
  using assms
  by (simp add: sensor_band_invariant_def SpeedSensor_MainFunction_def fold_WHEEL_MAX
      wheel_cycle_calibration)

lemma inv_Set:
  assumes "sensor_band_invariant ss"
  shows "sensor_band_invariant (snd (SpeedSensor_SetCalibration w cal ss))"
  using assms by (simp add: sensor_band_invariant_def SpeedSensor_SetCalibration_def Let_def)

lemma inv_Set':
  assumes "sensor_band_invariant ss" and "SpeedSensor_SetCalibration w cal ss = (r, ss')"
  shows "sensor_band_invariant ss'"
  using inv_Set [OF assms(1), of w cal] assms(2) by simp

lemma inv_Apply:
  assumes "sensor_band_invariant ss"
  shows "sensor_band_invariant (fst (snd (CalibrationManager_ApplyCalibration nvm w p (ss, cm))))"
  using assms
  by (auto simp: CalibrationManager_ApplyCalibration_def Let_def split: option.splits prod.splits
      dest: inv_Set' [OF assms])

lemma inv_Reset:
  assumes "sensor_band_invariant ss"
  shows "sensor_band_invariant (fst (snd (CalibrationManager_ResetToFactory nvm w (ss, cm))))"
  using assms
  by (auto simp: CalibrationManager_ResetToFactory_def Let_def split: option.splits prod.splits
      dest: inv_Set' [OF assms])

lemma inv_Load:
  assumes "sensor_band_invariant ss"
  shows "sensor_band_invariant (fst (snd (CalibrationManager_LoadFromNvm nvm w (ss, cm))))"
  using assms inv_Reset [OF assms]
  by (auto simp: CalibrationManager_LoadFromNvm_def Let_def split: option.splits prod.splits
      dest: inv_Set' [OF assms])

lemma inv_MgrInit:
  assumes "sensor_band_invariant ss"
  shows "sensor_band_invariant (fst (snd (CalibrationManager_Init nvm (ss, cm))))"
proof -
  have step: "sensor_band_invariant (fst (snd (CalibrationManager_LoadFromNvm nvm w x)))"
    if "sensor_band_invariant (fst x)" for w x
    using inv_Load [of "fst x" nvm w "snd x"] that by simp
  show ?thesis
    using assms
    by (auto simp: CalibrationManager_Init_def Let_def fold_WHEEL_MAX split: prod.splits
        dest!: arg_cong [where f = fst] intro!: step)
qed


lemma reachable_invariant:
  assumes "reachable x"
  shows "sensor_band_invariant (fst x)"
  using assms
proof (induction rule: reachable.induct)
  case r_start
  then show ?case by (simp add: inv_static)
next
  case (r_sensor_init ss cm)
  then show ?case by (simp add: inv_Init)
next
  case (r_sensor_deinit ss cm)
  then show ?case by (simp add: inv_DeInit)
next
  case (r_sensor_main ss cm rte)
  then show ?case by (simp add: inv_Main)
next
  case (r_set_calibration ss cm w cal)
  then show ?case by (simp add: inv_Set)
next
  case (r_manager_init ss cm nvm)
  then show ?case by (simp add: inv_MgrInit)
next
  case (r_apply ss cm nvm w persist)
  then show ?case by (simp add: inv_Apply)
next
  case (r_reset ss cm nvm w)
  then show ?case by (simp add: inv_Reset)
next
  case (r_load ss cm nvm w)
  then show ?case by (simp add: inv_Load)
qed simp_all

text \<open>
  Claim C9, amended: in every state reachable through the operations of the sensor and
  of the calibration manager, whenever a wheel's coefficients have their validity flag
  set, the correction factor lies strictly between 0.5 and 2.0, the band that
  SpeedSensor_SetCalibration checks; every operation that stores coefficients
  (SetCalibration, applyCalibration, factory reset, load from persistence) goes through
  that check and preserves this.
\<close>

theorem C9_stored_factor_band_amended:
  assumes "reachable (ss, cm)" and "w < WHEEL_MAX"
    and "calibrationValid (calibration (g_SpeedSensorData ss w))"
  shows "1 / 2 < correctionFactor (calibration (g_SpeedSensorData ss w)) \<and>
         correctionFactor (calibration (g_SpeedSensorData ss w)) < 2"
  using reachable_invariant [OF assms(1)] assms(2,3)
  by (simp add: sensor_band_invariant_def)

lemma manager_init_eq:
  "CalibrationManager_Init nvm_failing (sensor_after_init, CalMgr_static_init)
     = (E_OK, sensor_after_init, calmgr_after_init)"
  by (simp add: calmgr_after_init_def CalibrationManager_Init_def CalMgr_static_init_def
      fold_WHEEL_MAX CalibrationManager_LoadFromNvm_def CalibrationManager_Init_wheel_def
      CalibrationManager_InitDefaultConfig_def Let_def)

lemma reachable_wide: "reachable (sensor_wide, calmgr_after_init)"
proof -
  have "reachable (sensor_after_init, CalMgr_static_init)"
    using r_sensor_init [OF r_start] by (simp add: sensor_after_init_def)
  then have "reachable (sensor_after_init, calmgr_after_init)"
    using r_manager_init [of sensor_after_init CalMgr_static_init nvm_failing]
    by (simp add: manager_init_eq)
  then show ?thesis
    using r_set_calibration [of sensor_after_init calmgr_after_init WHEEL_FRONT_LEFT calibration_wide]
    by (simp add: sensor_wide_def)
qed

lemma sensor_wide_calibration:
  "calibration (g_SpeedSensorData sensor_wide WHEEL_FRONT_LEFT) = calibration_wide\<lparr>calibrationValid := True\<rparr>"
  by (simp add: sensor_wide_def SpeedSensor_SetCalibration_def sensor_after_init_simps
      WHEEL_FRONT_LEFT_def WHEEL_MAX_def calibration_wide_def Let_def)

text \<open>
  Claim C9, as stated, fails: after initialisation of both components (configured band
  [0.5, 1.5]), SetCalibration with correction factor 1.8 is accepted; the reached state
  has the validity flag set and the factor outside the configured band.
\<close>

theorem C9_valid_factor_outside_configured_band:
  "reachable (sensor_wide, calmgr_after_init) \<and>
   calibrationValid (calibration (g_SpeedSensorData sensor_wide WHEEL_FRONT_LEFT)) \<and>
   \<not> in_configured_band (g_CalibrationConfig calmgr_after_init)
       (correctionFactor (calibration (g_SpeedSensorData sensor_wide WHEEL_FRONT_LEFT)))"
  by (simp add: reachable_wide sensor_wide_calibration calibration_wide_def in_configured_band_def
      calmgr_after_init_simps)

theorem C9_stored_factor_band_amended_witness:
  "reachable (sensor_wide, calmgr_after_init) \<and> WHEEL_FRONT_LEFT < WHEEL_MAX \<and>
   calibrationValid (calibration (g_SpeedSensorData sensor_wide WHEEL_FRONT_LEFT)) \<and>
   correctionFactor (calibration (g_SpeedSensorData sensor_wide WHEEL_FRONT_LEFT)) = 9 / 5"
proof -
  have w: "WHEEL_FRONT_LEFT < WHEEL_MAX"
    by (simp add: WHEEL_FRONT_LEFT_def WHEEL_MAX_def)
  have v: "calibrationValid (calibration (g_SpeedSensorData sensor_wide WHEEL_FRONT_LEFT))"
    by (simp add: sensor_wide_calibration)
  show ?thesis
    using C9_stored_factor_band_amended [OF reachable_wide w v] w v
    by (simp add: reachable_wide sensor_wide_calibration calibration_wide_def)
qed


end
